theory Spec2Isabelle
  imports Complex_Main
begin

section \<open>JavaScript values\<close>

text \<open>
  Numbers that take part in comparisons and truthiness tests (\<open>ial\<close>, \<open>max_ial\<close>,
  \<open>min_idp\<close>) are rationals or \<open>NaN\<close>; \<open>undefined\<close> converts to \<open>NaN\<close> in a
  comparison, so a missing number is \<open>NaN\<close> as well. Rounding of doubles is not modelled.
  Block heights are integers. A field that may be \<open>undefined\<close> is an \<open>option\<close>.
\<close>

datatype jsnum = Num rat | NaN

fun js_gt :: "jsnum \<Rightarrow> jsnum \<Rightarrow> bool" where
  "js_gt (Num a) (Num b) = (b < a)"
| "js_gt (Num a) NaN = False"
| "js_gt NaN b = False"

fun truthy_num :: "jsnum \<Rightarrow> bool" where
  "truthy_num (Num a) = (a \<noteq> 0)"
| "truthy_num NaN = False"

definition truthy_str :: "string option \<Rightarrow> bool" where
  "truthy_str v = (case v of None \<Rightarrow> False | Some t \<Rightarrow> t \<noteq> [])"

text \<open>String concatenation turns \<open>undefined\<close> into the text \<open>undefined\<close>.\<close>

definition js_str :: "string option \<Rightarrow> string" where
  "js_str v = (case v of None \<Rightarrow> ''undefined'' | Some t \<Rightarrow> t)"

text \<open>\<open>xs[i]\<close> reads \<open>undefined\<close> out of range.\<close>

fun js_index :: "'a list \<Rightarrow> nat \<Rightarrow> 'a option" where
  "js_index [] i = None"
| "js_index (x # xs) 0 = Some x"
| "js_index (x # xs) (Suc i) = js_index xs i"

datatype error =
    TypeError
  | REQUEST_NOT_FOUND
  | ACCESSOR_ID_NEEDED
  | SECRET_NEEDED
  | ACCESSOR_PUBLIC_KEY_NOT_FOUND
  | CannotCreateIdpResponse error
  | LedgerRejected
  | HandlerRejected
  | INVALID_NAMESPACE
  | IDENTITY_ALREADY_CREATED
  | IDENTITY_NOT_FOUND
  | MAXIMUM_IAL_EXCEED
  | SIGN_WITH_ACCESSOR_KEY_URL_NOT_SET
  | SIGN_WITH_ACCESSOR_KEY_FAILED
  | CreateRequestFailed

section \<open>IdP node: messages, store and trace\<close>

text \<open>
  A parsed transport message. The stored per-request record is the message object itself,
  to which \<open>requestChallenge\<close> adds \<open>k\<close> and the message handler adds \<open>challenge\<close>,
  so both share one record type.
\<close>

record message =
  request_id :: string
  height :: "int option"
  msg_type :: "string option"
  idp_id :: "string option"
  rp_id :: "string option"
  accessor_id :: "string option"
  public_proof :: "string list option"
  privateProofValue :: "string option"
  privateProofValueArray :: "string list option"
  padding :: "string option"
  challenge :: "string list option"
  k :: "string list option"
  mode :: "int option"
  namespace :: "string option"
  identifier_of :: "string option"
  request_message :: "string option"
  min_ial :: jsnum
  min_aal :: jsnum
  data_request_list :: "string option"

text \<open>The response data staged by the client call (\<open>data\<close> of \<open>createIdpResponse\<close>).\<close>

record response_data =
  rd_request_id :: string
  rd_aal :: jsnum
  rd_ial :: jsnum
  rd_status :: "string option"
  rd_signature :: "string option"
  rd_accessor_id :: "string option"
  rd_secret :: "string option"

text \<open>\<open>dataToBlockchain\<close>: the value handed to the ledger's create-response transaction.\<close>

record response_tx =
  tx_request_id :: string
  tx_aal :: jsnum
  tx_ial :: jsnum
  tx_status :: "string option"
  tx_signature :: "string option"
  tx_identity_proof :: "string option"
  tx_private_proof_hash :: "string option"

text \<open>\<open>privateProofObject\<close>, spread into the payload sent to the RP over the message queue.\<close>

record private_proof_object =
  ppo_privateProofValueArray :: "string list"
  ppo_accessor_id :: string
  ppo_padding :: "string option"

text \<open>A payload is built by setting fields of an object that has only its request id.\<close>

definition empty_message :: "string \<Rightarrow> message" where
  "empty_message rid =
     \<lparr>request_id = rid, height = None, msg_type = None, idp_id = None, rp_id = None,
      accessor_id = None, public_proof = None, privateProofValue = None,
      privateProofValueArray = None, padding = None, challenge = None, k = None,
      mode = None, namespace = None, identifier_of = None, request_message = None,
      min_ial = NaN, min_aal = NaN, data_request_list = None\<rparr>"

record receiver =
  rc_ip :: string
  rc_port :: string
  rc_public_key :: "string option"

record private_proof_entry =
  pe_idp_id :: "string option"
  pe_privateProofValue :: "string option"
  pe_accessor_id :: "string option"
  pe_padding :: "string option"

record request_data =
  privateProofObjectList :: "private_proof_entry list option"

record store =
  requestReceivedFromMQ :: "string \<rightharpoonup> message"
  requestToProcessReceivedFromMQ :: "string \<rightharpoonup> message"
  requestIdsExpectedInBlock :: "(int \<times> string) list"
  rpIdFromRequestId :: "string \<rightharpoonup> string"
  publicProofReceivedFromMQ :: "string \<rightharpoonup> string list"
  responseFromRequestId :: "string \<rightharpoonup> response_data"
  requestData :: "string \<rightharpoonup> request_data"

datatype table =
    RequestReceivedFromMQ
  | RequestToProcessReceivedFromMQ
  | RPIdFromRequestId
  | PublicProofReceivedFromMQ
  | ResponseFromRequestId
  | RequestData

text \<open>
  The three protocol handlers a message is dispatched to: onboard-consent processing
  (\<open>checkOnboardResponse\<close> and \<open>addAccessorAfterConsent\<close>), challenge-request handling
  (\<open>common.handleChallengeRequest\<close>) and the consent-request path
  (\<open>common.checkRequestIntegrity\<close>, then the incoming-request callback). Their bodies
  belong to other modules; a dispatch is recorded with the arguments of the call.
\<close>

datatype handler_call =
    OnboardResponse message
  | ChallengeRequest string
  | ConsentRequest message

text \<open>Everything a run does, in order: store writes, ledger transactions, sends, dispatches.\<close>

datatype event =
    DbSet table string
  | DbRemove table string
  | DbAddExpected int string
  | DbRemoveExpected int int
  | LedgerCreateIdpResponse "response_tx option"
  | LedgerDeclareIdentityProof string string
  | MqSend "receiver list" message
  | Dispatch handler_call

fun is_db_event :: "event \<Rightarrow> bool" where
  "is_db_event (DbSet t key) = True"
| "is_db_event (DbRemove t key) = True"
| "is_db_event (DbAddExpected h key) = True"
| "is_db_event (DbRemoveExpected a b) = True"
| "is_db_event (LedgerCreateIdpResponse tx) = False"
| "is_db_event (LedgerDeclareIdentityProof rid proof) = False"
| "is_db_event (MqSend rs p) = False"
| "is_db_event (Dispatch c) = False"

fun is_ledger_tx :: "event \<Rightarrow> bool" where
  "is_ledger_tx (LedgerCreateIdpResponse tx) = True"
| "is_ledger_tx (LedgerDeclareIdentityProof rid proof) = True"
| "is_ledger_tx (DbSet t key) = False"
| "is_ledger_tx (DbRemove t key) = False"
| "is_ledger_tx (DbAddExpected h key) = False"
| "is_ledger_tx (DbRemoveExpected a b) = False"
| "is_ledger_tx (MqSend rs p) = False"
| "is_ledger_tx (Dispatch c) = False"

text \<open>
  The collaborators of the IdP module that are not part of it: ledger queries and
  transactions (\<open>tendermintNdid\<close>), the proof primitives and hash of \<open>utils\<close>,
  \<open>JSON.stringify\<close> on an array of strings, the configured node id, and whether an awaited
  handler rejects. A ledger transaction answers with the height of its block, or \<open>None\<close>
  when it is rejected. \<open>generatePublicProof\<close> draws a fresh \<open>k\<close> at each call, so it
  takes the number of the call.
\<close>

record proof_input =
  pi_publicKey :: "string option"
  pi_challenge :: string
  pi_k :: "string option"
  pi_secret :: string

record identity_proof =
  blockchainProof :: string
  privateProofValue_of :: string
  padding_of :: string

record ledger_request =
  lr_mode :: int

record env =
  nodeId :: string
  getRequest :: "string \<Rightarrow> ledger_request option"
  getAccessorKey :: "string \<Rightarrow> string option"
  ledger_createIdpResponse :: "response_tx option \<Rightarrow> int option"
  declareIdentityProof :: "string \<Rightarrow> string \<Rightarrow> int option"
  generatePublicProof :: "string option \<Rightarrow> nat \<Rightarrow> string \<times> string"
  getMsqAddress :: "string option \<Rightarrow> (string \<times> string) option"
  getNodePubKey :: "string option \<Rightarrow> string option"
  generateIdentityProof :: "proof_input \<Rightarrow> identity_proof"
  hash :: "string \<Rightarrow> string"
  stringify :: "string list \<Rightarrow> string"
  handler_rejects :: "handler_call \<Rightarrow> bool"

section \<open>The store's list of request ids expected in a block\<close>

text \<open>
  The store module (\<open>db\<close>) is not among the sources. Its keyed tables are maps with get,
  set and remove. The three functions on the request ids expected in a block follow the
  spec, which says that a buffered payload is stored "keyed by (height, request_id)" and
  that a new block header "retrieves all PendingMessages whose tagged height falls in that
  window ... then purges them". The entries are kept as a list of pairs in arrival order.
\<close>

definition in_range :: "int \<Rightarrow> int \<Rightarrow> int \<times> string \<Rightarrow> bool" where
  "in_range lo hi e = (lo \<le> fst e \<and> fst e \<le> hi)"

text \<open>
  Modelled from the spec: \<open>db.addRequestIdExpectedInBlock\<close> (module \<open>db\<close> is missing)
  stores the pair of the height and the request id; it is appended to the list.
\<close>

definition addRequestIdExpectedInBlock :: "int \<Rightarrow> string \<Rightarrow> store \<Rightarrow> store" where
  "addRequestIdExpectedInBlock h rid s =
     s\<lparr>requestIdsExpectedInBlock := requestIdsExpectedInBlock s @ [(h, rid)]\<rparr>"

text \<open>
  Modelled from the spec: \<open>db.getRequestIdsExpectedInBlock\<close> (module \<open>db\<close> is missing)
  returns the request ids of all entries whose height lies in the closed range.
\<close>

definition getRequestIdsExpectedInBlock :: "store \<Rightarrow> int \<Rightarrow> int \<Rightarrow> string list" where
  "getRequestIdsExpectedInBlock s lo hi =
     map snd (filter (in_range lo hi) (requestIdsExpectedInBlock s))"

text \<open>
  Modelled from the spec: \<open>db.removeRequestIdsExpectedInBlock\<close> (module \<open>db\<close> is missing)
  purges exactly the entries whose height lies in the closed range.
\<close>

definition removeRequestIdsExpectedInBlock :: "int \<Rightarrow> int \<Rightarrow> store \<Rightarrow> store" where
  "removeRequestIdsExpectedInBlock lo hi s =
     s\<lparr>requestIdsExpectedInBlock :=
          filter (\<lambda>e. \<not> in_range lo hi e) (requestIdsExpectedInBlock s)\<rparr>"

section \<open>IdP node: requesting the challenge and creating the response\<close>

text \<open>
  \<open>requestChallenge\<close>: two public proofs are generated, the two \<open>k\<close> are saved into the
  stored request, the proofs are declared on the ledger and sent to the RP with type
  \<open>request_challenge\<close>, tagged with the height of the declaration.
\<close>

definition requestChallenge ::
  "env \<Rightarrow> store \<Rightarrow> string \<Rightarrow> string \<Rightarrow> (error + unit) \<times> store \<times> event list" where
  "requestChallenge env s rid aid =
     (let public_key = getAccessorKey env aid;
          (k1, publicProof1) = generatePublicProof env public_key 0;
          (k2, publicProof2) = generatePublicProof env public_key 1
      in case requestReceivedFromMQ s rid of
           None \<Rightarrow> (Inl TypeError, s, [])
         | Some request \<Rightarrow>
             (let s1 = s\<lparr>requestReceivedFromMQ :=
                          (requestReceivedFromMQ s)(rid \<mapsto> request\<lparr>k := Some [k1, k2]\<rparr>)\<rparr>;
                  identity_proof = stringify env [publicProof1, publicProof2];
                  ev1 = [DbSet RequestReceivedFromMQ rid, LedgerDeclareIdentityProof rid identity_proof]
              in case declareIdentityProof env rid identity_proof of
                   None \<Rightarrow> (Inl LedgerRejected, s1, ev1)
                 | Some h \<Rightarrow>
                     (case getMsqAddress env (rp_id request) of
                        None \<Rightarrow> (Inl TypeError, s1, ev1)
                      | Some (ip, port) \<Rightarrow>
                          (Inr (), s1,
                           ev1 @ [MqSend [\<lparr>rc_ip = ip, rc_port = port,
                                           rc_public_key = getNodePubKey env (rp_id request)\<rparr>]
                                    ((empty_message rid)
                                       \<lparr>public_proof := Some [publicProof1, publicProof2],
                                        idp_id := Some (nodeId env),
                                        msg_type := Some ''request_challenge'',
                                        height := Some h\<rparr>)]))))"

text \<open>
  The loop of \<open>createIdpResponse\<close> over \<open>requestFromMq.challenge\<close> follows.
\<close>

text \<open>
  The loop of \<open>createIdpResponse\<close> over \<open>requestFromMq.challenge\<close>: round \<open>i\<close> calls
  \<open>utils.generateIdentityProof\<close> with \<open>challenge[i]\<close> and \<open>k[i]\<close>.
\<close>

fun proof_loop ::
  "env \<Rightarrow> string option \<Rightarrow> string \<Rightarrow> string list \<Rightarrow> string list \<Rightarrow> nat \<Rightarrow> identity_proof list"
where
  "proof_loop env pk sec ks [] i = []"
| "proof_loop env pk sec ks (c # cs) i =
     generateIdentityProof env
       \<lparr>pi_publicKey = pk, pi_challenge = c, pi_k = js_index ks i, pi_secret = sec\<rparr>
     # proof_loop env pk sec ks cs (Suc i)"

text \<open>
  Reading the stored request for mode 3. A missing record, a record without \<open>challenge\<close>,
  or a record without \<open>k\<close> when there is at least one challenge is a \<open>TypeError\<close>.
\<close>

definition generateProofs ::
  "env \<Rightarrow> store \<Rightarrow> string \<Rightarrow> string \<Rightarrow> string \<Rightarrow> error + identity_proof list" where
  "generateProofs env s rid aid sec =
     (case requestReceivedFromMQ s rid of
        None \<Rightarrow> Inl TypeError
      | Some requestFromMq \<Rightarrow>
          (case challenge requestFromMq of
             None \<Rightarrow> Inl TypeError
           | Some cs \<Rightarrow>
               (case k requestFromMq of
                  None \<Rightarrow> (if cs = [] then Inr [] else Inl TypeError)
                | Some ks \<Rightarrow> Inr (proof_loop env (getAccessorKey env aid) sec ks cs 0))))"

definition samePadding :: "identity_proof list \<Rightarrow> string option" where
  "samePadding proofs = (if proofs = [] then None else Some (padding_of (last proofs)))"

definition privateProofObject_of :: "string \<Rightarrow> identity_proof list \<Rightarrow> private_proof_object" where
  "privateProofObject_of aid proofs =
     \<lparr>ppo_privateProofValueArray = map privateProofValue_of proofs,
      ppo_accessor_id = aid,
      ppo_padding = samePadding proofs\<rparr>"

definition dataToBlockchain3 :: "env \<Rightarrow> response_data \<Rightarrow> identity_proof list \<Rightarrow> response_tx" where
  "dataToBlockchain3 env data proofs =
     \<lparr>tx_request_id = rd_request_id data,
      tx_aal = rd_aal data,
      tx_ial = rd_ial data,
      tx_status = rd_status data,
      tx_signature = rd_signature data,
      tx_identity_proof = Some (stringify env (map blockchainProof proofs)),
      tx_private_proof_hash = Some (hash env (stringify env (map privateProofValue_of proofs)))\<rparr>"

definition dataToBlockchain1 :: "response_data \<Rightarrow> response_tx" where
  "dataToBlockchain1 data =
     \<lparr>tx_request_id = rd_request_id data,
      tx_aal = rd_aal data,
      tx_ial = rd_ial data,
      tx_status = rd_status data,
      tx_signature = rd_signature data,
      tx_identity_proof = None,
      tx_private_proof_hash = None\<rparr>"

text \<open>
  The first part of \<open>createIdpResponse\<close>, up to the point where both \<open>dataToBlockchain\<close>
  and \<open>privateProofObject\<close> are built: the request must exist on the ledger; in mode 3 the
  accessor id, the secret and the accessor's public key must be there. Any other mode
  leaves both values \<open>undefined\<close>.
\<close>

definition prepareResponse ::
  "env \<Rightarrow> store \<Rightarrow> response_data option
     \<Rightarrow> error + (string \<times> response_tx option \<times> private_proof_object option)" where
  "prepareResponse env s data_opt =
     (case data_opt of
        None \<Rightarrow> Inl TypeError
      | Some data \<Rightarrow>
          (case getRequest env (rd_request_id data) of
             None \<Rightarrow> Inl REQUEST_NOT_FOUND
           | Some request \<Rightarrow>
               if lr_mode request = 3 then
                 (case rd_accessor_id data of
                    None \<Rightarrow> Inl ACCESSOR_ID_NEEDED
                  | Some aid \<Rightarrow>
                      (case rd_secret data of
                         None \<Rightarrow> Inl SECRET_NEEDED
                       | Some sec \<Rightarrow>
                           (case getAccessorKey env aid of
                              None \<Rightarrow> Inl ACCESSOR_PUBLIC_KEY_NOT_FOUND
                            | Some pk \<Rightarrow>
                                (case generateProofs env s (rd_request_id data) aid sec of
                                   Inl e \<Rightarrow> Inl e
                                 | Inr proofs \<Rightarrow>
                                     Inr (rd_request_id data,
                                          Some (dataToBlockchain3 env data proofs),
                                          Some (privateProofObject_of aid proofs))))))
               else if lr_mode request = 1 then
                 Inr (rd_request_id data, Some (dataToBlockchain1 data), None)
               else Inr (rd_request_id data, None, None)))"

text \<open>
  \<open>sendPrivateProofToRP\<close> is started without being awaited: when the lookup of the RP's
  queue address fails, nothing is sent and the caller does not see the failure.
\<close>

definition mq_payload_of ::
  "env \<Rightarrow> string \<Rightarrow> private_proof_object option \<Rightarrow> int \<Rightarrow> message" where
  "mq_payload_of env rid ppo h =
     (empty_message rid)
       \<lparr>privateProofValueArray := map_option ppo_privateProofValueArray ppo,
        accessor_id := map_option ppo_accessor_id ppo,
        padding := Option.bind ppo ppo_padding,
        height := Some h,
        idp_id := Some (nodeId env)\<rparr>"

definition sendPrivateProofToRP ::
  "env \<Rightarrow> store \<Rightarrow> string \<Rightarrow> private_proof_object option \<Rightarrow> int \<Rightarrow> store \<times> event list" where
  "sendPrivateProofToRP env s rid ppo h =
     (let rp = rpIdFromRequestId s rid in
      case getMsqAddress env rp of
        None \<Rightarrow> (s, [])
      | Some (ip, port) \<Rightarrow>
          (s\<lparr>rpIdFromRequestId := (rpIdFromRequestId s)(rid := None)\<rparr>,
           [MqSend [\<lparr>rc_ip = ip, rc_port = port, rc_public_key = getNodePubKey env rp\<rparr>]
                   (mq_payload_of env rid ppo h),
            DbRemove RPIdFromRequestId rid]))"

text \<open>
  \<open>createIdpResponse\<close>: prepare, remove the stored request and the staged response data,
  submit the transaction, then start sending the private proof. Every error is wrapped
  and rethrown; the store keeps what was written before the error.
\<close>

definition createIdpResponse ::
  "env \<Rightarrow> store \<Rightarrow> response_data option \<Rightarrow> (error + unit) \<times> store \<times> event list" where
  "createIdpResponse env s data_opt =
     (case prepareResponse env s data_opt of
        Inl e \<Rightarrow> (Inl (CannotCreateIdpResponse e), s, [])
      | Inr (rid, dataToBlockchain, privateProofObject) \<Rightarrow>
          (let s1 = s\<lparr>requestReceivedFromMQ := (requestReceivedFromMQ s)(rid := None),
                      responseFromRequestId := (responseFromRequestId s)(rid := None)\<rparr>;
               ev1 = [DbRemove RequestReceivedFromMQ rid,
                      DbRemove ResponseFromRequestId rid,
                      LedgerCreateIdpResponse dataToBlockchain]
           in case ledger_createIdpResponse env dataToBlockchain of
                None \<Rightarrow> (Inl (CannotCreateIdpResponse LedgerRejected), s1, ev1)
              | Some h \<Rightarrow>
                  (case sendPrivateProofToRP env s1 rid privateProofObject h of
                     (s2, ev2) \<Rightarrow> (Inr (), s2, ev1 @ ev2))))"

section \<open>IdP node: the message handler and the block-header handler\<close>

text \<open>
  The dispatch at the end of \<open>handleMessageFromQueue\<close> and inside
  \<open>handleTendermintNewBlockHeaderEvent\<close>: a message with a truthy \<open>accessor_id\<close> is an
  onboard response, a message of type \<open>request_challenge\<close> is a challenge request, any
  other message is a consent request. The challenge-request handler is called without
  \<open>await\<close>, the other two are awaited, so only they can make the caller reject.
\<close>

definition handler_of :: "message \<Rightarrow> handler_call" where
  "handler_of message =
     (if truthy_str (accessor_id message) then OnboardResponse message
      else if msg_type message = Some ''request_challenge''
        then ChallengeRequest (request_id message @ '':'' @ js_str (idp_id message))
      else ConsentRequest message)"

fun awaited :: "handler_call \<Rightarrow> bool" where
  "awaited (OnboardResponse message) = True"
| "awaited (ChallengeRequest responseId) = False"
| "awaited (ConsentRequest message) = True"

definition dispatch :: "env \<Rightarrow> message \<Rightarrow> (error + unit) \<times> event list" where
  "dispatch env message =
     (let c = handler_of message
      in (if awaited c \<and> handler_rejects env c then Inl HandlerRejected else Inr (),
          [Dispatch c]))"

text \<open>\<open>latestBlockHeight <= message.height\<close>; the comparison is false without a height.\<close>

definition height_not_reached :: "int \<Rightarrow> int option \<Rightarrow> bool" where
  "height_not_reached latestBlockHeight h =
     (case h of None \<Rightarrow> False | Some v \<Rightarrow> latestBlockHeight \<le> v)"

text \<open>
  The block of \<open>handleMessageFromQueue\<close> that stores the private proof of a message
  with an \<open>accessor_id\<close> into the request data, when there is request data.
\<close>

definition private_proof_entry_of :: "message \<Rightarrow> private_proof_entry" where
  "private_proof_entry_of message =
     \<lparr>pe_idp_id = idp_id message,
      pe_privateProofValue = privateProofValue message,
      pe_accessor_id = accessor_id message,
      pe_padding = padding message\<rparr>"

definition storePrivateProof :: "store \<Rightarrow> message \<Rightarrow> store \<times> event list" where
  "storePrivateProof s message =
     (if truthy_str (accessor_id message) then
        (case requestData s (request_id message) of
           None \<Rightarrow> (s, [])
         | Some request \<Rightarrow>
             (s\<lparr>requestData := (requestData s)(request_id message \<mapsto>
                  request\<lparr>privateProofObjectList :=
                    (case privateProofObjectList request of
                       Some l \<Rightarrow> Some (l @ [private_proof_entry_of message])
                     | None \<Rightarrow> Some [private_proof_entry_of message])\<rparr>)\<rparr>,
              [DbSet RequestData (request_id message)]))
      else (s, []))"

text \<open>The branch taken while the ledger has not passed the message's height.\<close>

definition saveMessage :: "store \<Rightarrow> message \<Rightarrow> int \<Rightarrow> store \<times> event list" where
  "saveMessage s message h =
     (let s1 = addRequestIdExpectedInBlock h (request_id message) s;
          s2 = s1\<lparr>rpIdFromRequestId := (rpIdFromRequestId s1)(request_id message := rp_id message)\<rparr>;
          ev2 = [DbAddExpected h (request_id message), DbSet RPIdFromRequestId (request_id message)];
          responseId = request_id message @ '':'' @ js_str (idp_id message);
          s3 = (if msg_type message = Some ''request_challenge''
                then s2\<lparr>publicProofReceivedFromMQ :=
                          (publicProofReceivedFromMQ s2)(responseId := public_proof message)\<rparr>
                else s2);
          ev3 = (if msg_type message = Some ''request_challenge''
                 then [DbSet PublicProofReceivedFromMQ responseId] else [])
      in case storePrivateProof s3 message of
           (s4, ev4) \<Rightarrow> (s4, ev2 @ ev3 @ ev4))"

text \<open>
  \<open>handleMessageFromQueue\<close> on the parsed message, with \<open>tendermint.latestBlockHeight\<close>
  as a parameter. A message with a \<open>challenge\<close> array is handled at once: the challenge is
  saved into the stored request and \<open>createIdpResponse\<close> is started (not awaited) on the
  staged response data. Any other message is stored and then either saved for a later
  block or dispatched.
\<close>

definition handleMessageFromQueue ::
  "env \<Rightarrow> int \<Rightarrow> store \<Rightarrow> message \<Rightarrow> (error + unit) \<times> store \<times> event list" where
  "handleMessageFromQueue env latestBlockHeight s message =
     (if challenge message \<noteq> None then
        (case requestReceivedFromMQ s (request_id message) of
           None \<Rightarrow> (Inl TypeError, s, [])
         | Some request \<Rightarrow>
             (let s1 = s\<lparr>requestReceivedFromMQ := (requestReceivedFromMQ s)(request_id message \<mapsto>
                           request\<lparr>challenge := challenge message\<rparr>)\<rparr>;
                  data = responseFromRequestId s1 (request_id message)
              in case createIdpResponse env s1 data of
                   (r, s2, ev) \<Rightarrow>
                     (Inr (), s2, DbSet RequestReceivedFromMQ (request_id message) # ev)))
      else
        (let s1 = (if msg_type message \<noteq> Some ''request_challenge''
                   then s\<lparr>requestReceivedFromMQ :=
                           (requestReceivedFromMQ s)(request_id message \<mapsto> message)\<rparr>
                   else s);
             ev1 = (if msg_type message \<noteq> Some ''request_challenge''
                    then [DbSet RequestReceivedFromMQ (request_id message)] else []);
             s2 = s1\<lparr>requestToProcessReceivedFromMQ :=
                       (requestToProcessReceivedFromMQ s1)(request_id message \<mapsto> message)\<rparr>;
             ev2 = ev1 @ [DbSet RequestToProcessReceivedFromMQ (request_id message)]
         in if height_not_reached latestBlockHeight (height message) then
              (case height message of
                 None \<Rightarrow> (Inr (), s2, ev2)
               | Some h \<Rightarrow>
                   (case saveMessage s2 message h of
                      (s3, ev3) \<Rightarrow> (Inr (), s3, ev2 @ ev3)))
            else
              (let s3 = s2\<lparr>requestToProcessReceivedFromMQ :=
                            (requestToProcessReceivedFromMQ s2)(request_id message := None)\<rparr>;
                   ev3 = ev2 @ [DbRemove RequestToProcessReceivedFromMQ (request_id message)]
               in case dispatch env message of
                    (r, ev4) \<Rightarrow> (r, s3, ev3 @ ev4))))"

text \<open>The replay window of \<open>handleTendermintNewBlockHeaderEvent\<close>.\<close>

definition fromHeight :: "int \<Rightarrow> int option \<Rightarrow> int" where
  "fromHeight h missingBlockCount =
     (case missingBlockCount of
        None \<Rightarrow> 1
      | Some c \<Rightarrow> if c = 0 then h - 1 else h - c)"

definition toHeight :: "int \<Rightarrow> int" where
  "toHeight h = h - 1"

text \<open>
  The callbacks of \<open>requestIdsInTendermintBlock.map\<close>. \<open>map\<close> starts every callback, and
  each runs up to its first \<open>await\<close>, the read of its message to process: all the reads are
  issued before any callback goes on, so every callback reads from the store as the event
  found it, also when a request id occurs twice. Each callback then removes the message
  to process of its request id, and then dispatches the message it has read; a callback
  that has read nothing fails with a \<open>TypeError\<close> at that point, without a dispatch. The
  callbacks all run. \<open>Promise.all\<close> rejects with the first failure: a \<open>TypeError\<close> is
  thrown as soon as the callback resumes, before the rejection of an awaited handler can
  arrive.
\<close>

fun removeRequestsToProcess :: "string list \<Rightarrow> store \<Rightarrow> store" where
  "removeRequestsToProcess [] s = s"
| "removeRequestsToProcess (requestId # rest) s =
     removeRequestsToProcess rest
       (s\<lparr>requestToProcessReceivedFromMQ :=
            (requestToProcessReceivedFromMQ s)(requestId := None)\<rparr>)"

definition callback :: "env \<Rightarrow> message option \<Rightarrow> (error + unit) \<times> event list" where
  "callback env read =
     (case read of
        None \<Rightarrow> (Inl TypeError, [])
      | Some message \<Rightarrow> dispatch env message)"

fun first_failure :: "(error + unit) list \<Rightarrow> error option" where
  "first_failure [] = None"
| "first_failure (Inl e # rs) = Some e"
| "first_failure (Inr u # rs) = first_failure rs"

definition rejection :: "(error + unit) list \<Rightarrow> error option" where
  "rejection rs = (if Inl TypeError \<in> set rs then Some TypeError else first_failure rs)"

definition processRequestIds ::
  "env \<Rightarrow> store \<Rightarrow> string list \<Rightarrow> error option \<times> store \<times> event list" where
  "processRequestIds env s requestIds =
     (let messages = map (requestToProcessReceivedFromMQ s) requestIds;
          s1 = removeRequestsToProcess requestIds s;
          outcomes = map (callback env) messages
      in (rejection (map fst outcomes),
          s1,
          map (DbRemove RequestToProcessReceivedFromMQ) requestIds @ concat (map snd outcomes)))"

text \<open>
  The callback of a request id completes: a message waits under the request id, and its
  protocol handler is not an awaited one that rejects.
\<close>

definition callback_completes :: "env \<Rightarrow> store \<Rightarrow> string \<Rightarrow> bool" where
  "callback_completes env s requestId =
     (case requestToProcessReceivedFromMQ s requestId of
        None \<Rightarrow> False
      | Some message \<Rightarrow>
          \<not> (awaited (handler_of message) \<and> handler_rejects env (handler_of message)))"

text \<open>
  \<open>handleTendermintNewBlockHeaderEvent\<close>, with the height read from the event as a
  parameter. The purge of the window is reached only when no callback failed.
\<close>

definition handleTendermintNewBlockHeaderEvent ::
  "env \<Rightarrow> store \<Rightarrow> int \<Rightarrow> int option \<Rightarrow> (error + unit) \<times> store \<times> event list" where
  "handleTendermintNewBlockHeaderEvent env s h missingBlockCount =
     (let lo = fromHeight h missingBlockCount;
          hi = toHeight h;
          requestIdsInTendermintBlock = getRequestIdsExpectedInBlock s lo hi
      in case processRequestIds env s requestIdsInTendermintBlock of
           (None, s1, ev) \<Rightarrow>
             (Inr (), removeRequestIdsExpectedInBlock lo hi s1, ev @ [DbRemoveExpected lo hi])
         | (Some e, s1, ev) \<Rightarrow> (Inl e, s1, ev))"

section \<open>Identity onboarding\<close>

text \<open>
  An \<open>async\<close> function returns a promise. A promise is an object, so it is truthy
  whatever it resolves to; \<open>await\<close> yields the value.
\<close>

datatype 'a promise = Promise 'a

fun await :: "'a promise \<Rightarrow> 'a" where
  "await (Promise v) = v"

fun truthy_promise :: "'a promise \<Rightarrow> bool" where
  "truthy_promise (Promise v) = True"

record onboard_data =
  od_request_id :: string
  od_accessor_id :: string

record identity_data =
  id_accessor_type :: "string option"
  id_accessor_id :: string
  id_accessor_public_key :: "string option"
  id_hash_id :: string
  id_ial :: jsnum
  id_sid :: string
  id_associated :: bool
  id_secret :: string

text \<open>
  The store tables of the onboarding flow, and \<open>callbackUrls.accessor_sign_url\<close> and
  \<open>callbackUrls.identity_result_url\<close> of the IdP module.
\<close>

record identity_store =
  onboardDataByReferenceId :: "string \<rightharpoonup> onboard_data"
  identityFromRequestId :: "string \<rightharpoonup> identity_data"
  accessor_sign_url :: "string option"
  identity_result_url :: "string option"

text \<open>
  The argument of \<open>createNewIdentity\<close>. \<open>ci_ial\<close> is \<open>parseFloat(data.ial)\<close> (\<open>NaN\<close> for a
  call without \<open>ial\<close>); \<open>ci_addAccessor\<close> is the truthiness of \<open>addAccessor\<close>.
\<close>

record create_identity_data =
  ci_namespace :: string
  ci_identifier :: string
  ci_reference_id :: string
  ci_accessor_type :: "string option"
  ci_accessor_public_key :: "string option"
  ci_accessor_id :: "string option"
  ci_ial :: jsnum
  ci_addAccessor :: bool

record create_identity_result =
  cr_request_id :: string
  cr_exist :: bool
  cr_accessor_id :: string

record sign_request =
  sr_sid_hash :: string
  sr_sid :: string
  sr_accessor_id :: string
  sr_reference_id :: string

text \<open>
  The argument of \<open>common.createRequest\<close>, the call that submits the ledger's
  create-request transaction for the onboarding request. The fields that are constants in
  the call (empty \<open>idp_id_list\<close> and \<open>data_request_list\<close>, \<open>callback_url: null\<close>,
  \<open>min_ial: 1.1\<close>, \<open>min_aal: 1\<close>, \<open>request_timeout: 86400\<close>, \<open>mode: 3\<close>) are left out.
\<close>

record onboard_request =
  or_namespace :: string
  or_identifier :: string
  or_reference_id :: string
  or_request_message :: string
  or_min_idp :: int

record node_info =
  max_ial :: jsnum

datatype identity_event =
    AccessorSignCallback string sign_request
  | CreateRequest onboard_request
  | LedgerCreateIdentity "string option" "string option" string string
  | LedgerRegisterMqDestination string jsnum
  | LedgerUpdateIal string jsnum
  | NotifyCreateIdentityResult string string bool string
  | DbSetOnboardData string
  | DbRemoveOnboardData string
  | DbSetIdentity string

text \<open>
  What the onboarding code asks of other modules: ledger queries and transactions, the
  hash, the random source (by number of the call), the HTTP call to the accessor-sign
  callback (\<open>None\<close> when the call fails), the padding extraction, the request messages
  and \<open>common.createRequest\<close> (the new request id, or \<open>None\<close> when it throws). A ledger
  transaction answers whether it was accepted.
\<close>

record identity_env =
  ie_nodeId :: string
  getNamespaceList :: "string list"
  getIdpNodes :: "string \<Rightarrow> string \<Rightarrow> string list"
  getNodeInfo :: "string \<Rightarrow> node_info option"
  checkExistingIdentity :: "string \<Rightarrow> bool"
  ie_hash :: "string \<Rightarrow> string"
  randomBase64Bytes :: "nat \<Rightarrow> string"
  accessor_sign_fetch :: "string \<Rightarrow> sign_request \<Rightarrow> string option"
  extractPaddingFromPrivateEncrypt :: "string \<Rightarrow> string option \<Rightarrow> string"
  getRequestMessageForCreatingIdentity :: "string \<Rightarrow> string \<Rightarrow> string \<Rightarrow> string"
  getRequestMessageForAddingAccessor :: "string \<Rightarrow> string \<Rightarrow> string \<Rightarrow> string"
  common_createRequest :: "onboard_request \<Rightarrow> string option"
  ledger_createIdentity :: "string option \<Rightarrow> string option \<Rightarrow> string \<Rightarrow> string \<Rightarrow> bool"
  registerMqDestination :: "string \<Rightarrow> jsnum \<Rightarrow> bool"
  ledger_updateIal :: "string \<Rightarrow> jsnum \<Rightarrow> bool"

text \<open>\<open>checkAssociated\<close> looks for this node among the identity's IdP nodes.\<close>

fun any_node_is :: "string \<Rightarrow> string list \<Rightarrow> bool" where
  "any_node_is n [] = False"
| "any_node_is n (x # xs) = (if x = n then True else any_node_is n xs)"

definition checkAssociated :: "identity_env \<Rightarrow> string \<Rightarrow> string \<Rightarrow> bool promise" where
  "checkAssociated env ns ident =
     Promise (any_node_is (ie_nodeId env) (getIdpNodes env ns ident))"

text \<open>\<open>accessorSign\<close> of the IdP module.\<close>

definition accessorSign ::
  "identity_env \<Rightarrow> identity_store \<Rightarrow> string \<Rightarrow> string \<Rightarrow> string \<Rightarrow> string
     \<Rightarrow> (error + string) \<times> identity_event list" where
  "accessorSign env s sid hash_id aid reference_id =
     (let data = \<lparr>sr_sid_hash = hash_id, sr_sid = sid, sr_accessor_id = aid,
                  sr_reference_id = reference_id\<rparr>
      in case accessor_sign_url s of
           None \<Rightarrow> (Inl SIGN_WITH_ACCESSOR_KEY_URL_NOT_SET, [])
         | Some url \<Rightarrow>
             (case accessor_sign_fetch env url data of
                None \<Rightarrow> (Inl SIGN_WITH_ACCESSOR_KEY_FAILED, [AccessorSignCallback url data])
              | Some signature \<Rightarrow> (Inr signature, [AccessorSignCallback url data])))"

text \<open>
  The last part of \<open>createNewIdentity\<close>, after the request has been created. For an
  identity that exists the data is kept until consent. For a new identity the accessor
  group id is the next random draw (\<open>drawn\<close> counts the draws made before it), the two
  ledger transactions are started and their continuation is not awaited; it is run here
  right after them and does nothing when one of them fails. The continuation calls the
  client back only when \<open>identity_result_url\<close> is set, and removes the onboard data of the
  reference id in either case.
\<close>

definition finishOnboard ::
  "identity_env \<Rightarrow> identity_store \<Rightarrow> create_identity_data \<Rightarrow> bool \<Rightarrow> bool \<Rightarrow> string
     \<Rightarrow> string \<Rightarrow> string \<Rightarrow> nat \<Rightarrow> string \<Rightarrow> string
     \<Rightarrow> identity_store \<times> identity_event list" where
  "finishOnboard env s data associated exist sid hash_id aid drawn secret rid =
     (if exist then
        (s\<lparr>identityFromRequestId := (identityFromRequestId s)(rid \<mapsto>
             \<lparr>id_accessor_type = ci_accessor_type data,
              id_accessor_id = aid,
              id_accessor_public_key = ci_accessor_public_key data,
              id_hash_id = hash_id,
              id_ial = ci_ial data,
              id_sid = sid,
              id_associated = associated,
              id_secret = secret\<rparr>)\<rparr>,
         [DbSetIdentity rid])
      else
        (let accessor_group_id = randomBase64Bytes env drawn;
             ev = [LedgerCreateIdentity (ci_accessor_type data) (ci_accessor_public_key data)
                     aid accessor_group_id,
                   LedgerRegisterMqDestination hash_id (ci_ial data)]
         in if ledger_createIdentity env (ci_accessor_type data) (ci_accessor_public_key data)
                 aid accessor_group_id
               \<and> registerMqDestination env hash_id (ci_ial data)
            then (s\<lparr>onboardDataByReferenceId :=
                      (onboardDataByReferenceId s)(ci_reference_id data := None)\<rparr>,
                  ev @ (case identity_result_url s of
                          None \<Rightarrow> []
                        | Some url \<Rightarrow>
                            if url = [] then []
                            else [NotifyCreateIdentityResult url rid True secret])
                     @ [DbRemoveOnboardData (ci_reference_id data)])
            else (s, ev)))"

text \<open>
  The middle part of \<open>createNewIdentity\<close>, reached when the reference id has no recorded
  onboard data: take the accessor id of the call or draw one, sign, create the request,
  record the onboard data.
\<close>

definition startOnboard ::
  "identity_env \<Rightarrow> identity_store \<Rightarrow> create_identity_data \<Rightarrow> bool \<Rightarrow> bool \<Rightarrow> string
     \<Rightarrow> string \<Rightarrow> (error + create_identity_result) \<times> identity_store \<times> identity_event list" where
  "startOnboard env s data associated exist sid hash_id =
     (let aid = (case ci_accessor_id data of
                   None \<Rightarrow> randomBase64Bytes env 0
                 | Some a \<Rightarrow> if a = [] then randomBase64Bytes env 0 else a);
          drawn = (case ci_accessor_id data of
                     None \<Rightarrow> 1
                   | Some a \<Rightarrow> if a = [] then 1 else 0)
      in if accessor_sign_url s = None then (Inl SIGN_WITH_ACCESSOR_KEY_URL_NOT_SET, s, [])
         else
           (case accessorSign env s sid hash_id aid (ci_reference_id data) of
              (Inl e, ev1) \<Rightarrow> (Inl e, s, ev1)
            | (Inr encryptedHash, ev1) \<Rightarrow>
                (let pad = extractPaddingFromPrivateEncrypt env encryptedHash
                             (ci_accessor_public_key data);
                     secret = pad @ ''|'' @ encryptedHash;
                     req = \<lparr>or_namespace = ci_namespace data,
                            or_identifier = ci_identifier data,
                            or_reference_id = ci_reference_id data,
                            or_request_message =
                              (if truthy_num (ci_ial data)
                               then getRequestMessageForCreatingIdentity env (ci_namespace data)
                                      (ci_identifier data) (ci_reference_id data)
                               else getRequestMessageForAddingAccessor env (ci_namespace data)
                                      (ci_identifier data) (ci_reference_id data)),
                            or_min_idp = (if exist then 1 else 0)\<rparr>
                 in case common_createRequest env req of
                      None \<Rightarrow> (Inl CreateRequestFailed, s, ev1 @ [CreateRequest req])
                    | Some rid \<Rightarrow>
                        (let s1 = s\<lparr>onboardDataByReferenceId :=
                                     (onboardDataByReferenceId s)(ci_reference_id data \<mapsto>
                                        \<lparr>od_request_id = rid, od_accessor_id = aid\<rparr>)\<rparr>
                         in case finishOnboard env s1 data associated exist sid hash_id aid
                                   drawn secret rid of
                              (s2, ev2) \<Rightarrow>
                                (Inr \<lparr>cr_request_id = rid, cr_exist = exist,
                                      cr_accessor_id = aid\<rparr>,
                                 s2,
                                 ev1 @ [CreateRequest req,
                                        DbSetOnboardData (ci_reference_id data)] @ ev2)))))"

text \<open>\<open>namespaceDetails.find\<close> on the registered namespaces.\<close>

fun find_namespace :: "string \<Rightarrow> string list \<Rightarrow> string option" where
  "find_namespace n [] = None"
| "find_namespace n (x # xs) = (if x = n then Some x else find_namespace n xs)"

text \<open>
  \<open>createNewIdentity\<close>: the namespace check, the association check, the \<open>max_ial\<close> check,
  then the lookup of recorded onboard data for the reference id, in this order.
\<close>

definition createNewIdentity ::
  "identity_env \<Rightarrow> identity_store \<Rightarrow> create_identity_data
     \<Rightarrow> (error + create_identity_result) \<times> identity_store \<times> identity_event list" where
  "createNewIdentity env s data =
     (if find_namespace (ci_namespace data) (getNamespaceList env) = None
      then (Inl INVALID_NAMESPACE, s, [])
      else
        (let associated = await (checkAssociated env (ci_namespace data) (ci_identifier data))
         in if \<not> ci_addAccessor data \<and> associated
            then (Inl IDENTITY_ALREADY_CREATED, s, [])
            else
              (case getNodeInfo env (ie_nodeId env) of
                 None \<Rightarrow> (Inl TypeError, s, [])
               | Some info \<Rightarrow>
                   if js_gt (ci_ial data) (max_ial info)
                   then (Inl MAXIMUM_IAL_EXCEED, s, [])
                   else
                     (let sid = ci_namespace data @ '':'' @ ci_identifier data;
                          hash_id = ie_hash env sid;
                          exist = checkExistingIdentity env hash_id
                      in case onboardDataByReferenceId s (ci_reference_id data) of
                           Some onboardData \<Rightarrow>
                             (Inr \<lparr>cr_request_id = od_request_id onboardData,
                                   cr_exist = exist,
                                   cr_accessor_id = od_accessor_id onboardData\<rparr>, s, [])
                         | None \<Rightarrow> startOnboard env s data associated exist sid hash_id))))"

text \<open>
  \<open>updateIal\<close>. The association check tests the promise returned by \<open>checkAssociated\<close>,
  which is not awaited here.
\<close>

definition updateIal ::
  "identity_env \<Rightarrow> string \<Rightarrow> string \<Rightarrow> jsnum \<Rightarrow> (error + unit) \<times> identity_event list" where
  "updateIal env ns ident ial =
     (if \<not> truthy_promise (checkAssociated env ns ident)
      then (Inl IDENTITY_NOT_FOUND, [])
      else
        (case getNodeInfo env (ie_nodeId env) of
           None \<Rightarrow> (Inl TypeError, [])
         | Some info \<Rightarrow>
             if js_gt ial (max_ial info)
             then (Inl MAXIMUM_IAL_EXCEED, [])
             else
               (let hash_id = ie_hash env (ns @ '':'' @ ident)
                in (if ledger_updateIal env hash_id ial then Inr () else Inl LedgerRejected,
                    [LedgerUpdateIal hash_id ial]))))"

text \<open>
  \<open>addAccessorMethodForAssociatedIdp\<close>, the sibling entry point that awaits the same
  association check before it goes on. It hands \<open>createNewIdentity\<close> the six fields it
  takes from its argument and \<open>addAccessor: true\<close>; there is no \<open>ial\<close> among them, so
  \<open>parseFloat\<close> gives \<open>NaN\<close>.
\<close>

definition addAccessorMethodForAssociatedIdp ::
  "identity_env \<Rightarrow> identity_store \<Rightarrow> create_identity_data
     \<Rightarrow> (error + create_identity_result) \<times> identity_store \<times> identity_event list" where
  "addAccessorMethodForAssociatedIdp env s data =
     (let associated = await (checkAssociated env (ci_namespace data) (ci_identifier data))
      in if \<not> associated then (Inl IDENTITY_NOT_FOUND, s, [])
         else createNewIdentity env s
                \<lparr>ci_namespace = ci_namespace data,
                 ci_identifier = ci_identifier data,
                 ci_reference_id = ci_reference_id data,
                 ci_accessor_type = ci_accessor_type data,
                 ci_accessor_public_key = ci_accessor_public_key data,
                 ci_accessor_id = ci_accessor_id data,
                 ci_ial = NaN,
                 ci_addAccessor = True\<rparr>)"

section \<open>RP node: creating a request\<close>

record data_request =
  service_id :: string
  as_id_list :: "string list"
  count_of :: jsnum
  request_params :: string

record data_request_to_blockchain =
  db_service_id :: string
  db_as_id_list :: "string list"
  db_count :: jsnum
  db_request_params_hash :: string

text \<open>
  The argument of \<open>createRequest\<close>: the four named fields and the fields of the rest
  object \<open>data\<close> that the function reads.
\<close>

record create_request_data =
  rq_namespace :: string
  rq_identifier :: string
  rq_reference_id :: string
  rq_data_request_list :: "data_request list option"
  rq_min_idp :: jsnum
  rq_min_aal :: jsnum
  rq_min_ial :: jsnum
  rq_timeout :: jsnum
  rq_request_message :: "string option"
  rq_callback_url :: "string option"

record rp_request_data =
  rs_namespace :: string
  rs_identifier :: string
  rs_reference_id :: string
  rs_request_id :: string
  rs_min_idp :: jsnum
  rs_min_aal :: jsnum
  rs_min_ial :: jsnum
  rs_timeout :: jsnum
  rs_data_request_list :: "data_request list option"
  rs_request_message :: "string option"

record create_request_tx =
  ct_request_id :: string
  ct_min_idp :: jsnum
  ct_min_aal :: jsnum
  ct_min_ial :: jsnum
  ct_timeout :: jsnum
  ct_data_request_list :: "data_request_to_blockchain list"
  ct_message_hash :: string

record rp_payload =
  py_namespace :: string
  py_identifier :: string
  py_request_id :: string
  py_min_idp :: jsnum
  py_min_aal :: jsnum
  py_min_ial :: jsnum
  py_timeout :: jsnum
  py_data_request_list :: "data_request list option"
  py_request_message :: "string option"
  py_height :: int

record rp_receiver =
  rr_ip :: "string option"
  rr_port :: "string option"
  rr_public_key :: "string option"

text \<open>The three tables of the RP store that \<open>createRequest\<close> touches.\<close>

record rp_store =
  requestReferenceMapping :: "string \<rightharpoonup> string"
  requestsData :: "string \<rightharpoonup> rp_request_data"
  callbackUrls :: "string \<rightharpoonup> string option"

datatype rp_table = RequestReferenceMapping | RequestsData | CallbackUrls

datatype rp_event =
    RpDbPut rp_table string
  | Transact create_request_tx string
  | RpMqSend "rp_receiver list" rp_payload

fun is_rp_send :: "rp_event \<Rightarrow> bool" where
  "is_rp_send (RpMqSend rs p) = True"
| "is_rp_send (RpDbPut t key) = False"
| "is_rp_send (Transact tx n) = False"

fun is_rp_put :: "rp_table \<Rightarrow> rp_event \<Rightarrow> bool" where
  "is_rp_put t (RpDbPut t' key) = (t = t')"
| "is_rp_put t (Transact tx n) = False"
| "is_rp_put t (RpMqSend rs p) = False"

text \<open>
  The RP's collaborators: the nonce and request id of \<open>utils\<close>, the hash, \<open>JSON.stringify\<close>
  of request parameters (already a string here), \<open>tendermint.transact\<close> for
  \<open>CreateRequest\<close> returning the pair \<open>[success, height]\<close>, the query for the IdP
  destinations and the public key of a node.
\<close>

record rp_env =
  getNonce :: string
  createRequestId :: "create_request_data \<Rightarrow> string \<Rightarrow> string"
  rp_hash :: "string option \<Rightarrow> string"
  transact :: "create_request_tx \<Rightarrow> string \<Rightarrow> bool \<times> int"
  getIdpMqDestination :: "string \<Rightarrow> string \<Rightarrow> jsnum \<Rightarrow> string list"
  rp_getNodePubKey :: "string \<Rightarrow> string option"

datatype create_request_result = ReturnedId string | ReturnedFalse

text \<open>\<open>nodeId.split(':')\<close>.\<close>

fun split_colon :: "string \<Rightarrow> string list" where
  "split_colon [] = [[]]"
| "split_colon (c # cs) =
     (if c = CHR '':'' then [] # split_colon cs
      else (case split_colon cs of
              [] \<Rightarrow> [[c]]
            | p # ps \<Rightarrow> (c # p) # ps))"

definition rp_receiver_of :: "rp_env \<Rightarrow> string \<Rightarrow> rp_receiver" where
  "rp_receiver_of env n =
     \<lparr>rr_ip = js_index (split_colon n) 0,
      rr_port = js_index (split_colon n) 1,
      rr_public_key = rp_getNodePubKey env n\<rparr>"

definition or_one :: "jsnum \<Rightarrow> jsnum" where
  "or_one v = (if truthy_num v then v else Num 1)"

definition to_blockchain :: "rp_env \<Rightarrow> data_request \<Rightarrow> data_request_to_blockchain" where
  "to_blockchain env d =
     \<lparr>db_service_id = service_id d,
      db_as_id_list = as_id_list d,
      db_count = count_of d,
      db_request_params_hash = rp_hash env (Some (request_params d))\<rparr>"

text \<open>
  \<open>createRequest\<close> of the RP module. The fan-out to the IdPs is started after the check
  of \<open>success\<close> in a continuation that is not awaited, so it runs after the two mappings
  are written.
\<close>

definition createRequest ::
  "rp_env \<Rightarrow> rp_store \<Rightarrow> create_request_data
     \<Rightarrow> create_request_result \<times> rp_store \<times> rp_event list" where
  "createRequest env s data =
     (case requestReferenceMapping s (rq_reference_id data) of
        Some (c # cs) \<Rightarrow> (ReturnedId (c # cs), s, [])
      | _ \<Rightarrow>
        (let nonce = getNonce env;
             rid = createRequestId env data nonce;
             data_request_list_to_blockchain =
               (case rq_data_request_list data of
                  None \<Rightarrow> []
                | Some l \<Rightarrow> map (to_blockchain env) l);
             save = (case rq_data_request_list data of
                       None \<Rightarrow> False
                     | Some l \<Rightarrow> l \<noteq> []);
             s1 = (if save
                   then s\<lparr>requestsData := (requestsData s)(rid \<mapsto>
                          \<lparr>rs_namespace = rq_namespace data,
                           rs_identifier = rq_identifier data,
                           rs_reference_id = rq_reference_id data,
                           rs_request_id = rid,
                           rs_min_idp = or_one (rq_min_idp data),
                           rs_min_aal = or_one (rq_min_aal data),
                           rs_min_ial = or_one (rq_min_ial data),
                           rs_timeout = rq_timeout data,
                           rs_data_request_list = rq_data_request_list data,
                           rs_request_message = rq_request_message data\<rparr>)\<rparr>
                   else s);
             ev1 = (if save then [RpDbPut RequestsData rid] else []);
             dataToBlockchain =
               \<lparr>ct_request_id = rid,
                ct_min_idp = or_one (rq_min_idp data),
                ct_min_aal = rq_min_aal data,
                ct_min_ial = rq_min_ial data,
                ct_timeout = rq_timeout data,
                ct_data_request_list = data_request_list_to_blockchain,
                ct_message_hash = rp_hash env (rq_request_message data)\<rparr>
         in case transact env dataToBlockchain nonce of
              (success, h) \<Rightarrow>
                if \<not> success then (ReturnedFalse, s1, ev1 @ [Transact dataToBlockchain nonce])
                else
                  (let receivers = map (rp_receiver_of env)
                         (getIdpMqDestination env (rq_namespace data) (rq_identifier data)
                            (rq_min_ial data));
                       payload =
                         \<lparr>py_namespace = rq_namespace data,
                          py_identifier = rq_identifier data,
                          py_request_id = rid,
                          py_min_idp = or_one (rq_min_idp data),
                          py_min_aal = or_one (rq_min_aal data),
                          py_min_ial = or_one (rq_min_ial data),
                          py_timeout = rq_timeout data,
                          py_data_request_list = rq_data_request_list data,
                          py_request_message = rq_request_message data,
                          py_height = h\<rparr>
                   in (ReturnedId rid,
                       s1\<lparr>requestReferenceMapping :=
                            (requestReferenceMapping s1)(rq_reference_id data \<mapsto> rid),
                          callbackUrls := (callbackUrls s1)(rid \<mapsto> rq_callback_url data)\<rparr>,
                       ev1 @ [Transact dataToBlockchain nonce,
                              RpDbPut RequestReferenceMapping (rq_reference_id data),
                              RpDbPut CallbackUrls rid,
                              RpMqSend receivers payload]))))"

section \<open>Reading a trace\<close>

text \<open>
  The request ids whose message to process was taken out of the store, and the handler
  calls that were dispatched, in the order of the trace.
\<close>

fun processed_ids :: "event list \<Rightarrow> string list" where
  "processed_ids [] = []"
| "processed_ids (DbRemove RequestToProcessReceivedFromMQ rid # ev) = rid # processed_ids ev"
| "processed_ids (e # ev) = processed_ids ev"

fun dispatched :: "event list \<Rightarrow> handler_call list" where
  "dispatched [] = []"
| "dispatched (Dispatch c # ev) = c # dispatched ev"
| "dispatched (e # ev) = dispatched ev"

section \<open>Concrete inputs\<close>

text \<open>
  A ledger that accepts every transaction and knows every request as a mode-3 request, an
  empty store, and a consent request tagged with height 100.
\<close>

definition env_accept :: env where
  "env_accept =
     \<lparr>nodeId = ''idp1'',
      getRequest = (\<lambda>r. Some \<lparr>lr_mode = 3\<rparr>),
      getAccessorKey = (\<lambda>a. Some ''pk''),
      ledger_createIdpResponse = (\<lambda>t. Some 7),
      declareIdentityProof = (\<lambda>r p. Some 5),
      generatePublicProof = (\<lambda>pk n. (if n = 0 then ''k1'' else ''k2'', ''pp'')),
      getMsqAddress = (\<lambda>r. Some (''ip'', ''port'')),
      getNodePubKey = (\<lambda>r. Some ''rpkey''),
      generateIdentityProof = (\<lambda>i. \<lparr>blockchainProof = ''b'' @ pi_challenge i,
                                      privateProofValue_of = ''p'' @ pi_challenge i,
                                      padding_of = ''pad''\<rparr>),
      hash = (\<lambda>x. ''#'' @ x),
      stringify = concat,
      handler_rejects = (\<lambda>c. False)\<rparr>"

definition store_empty :: store where
  "store_empty =
     \<lparr>requestReceivedFromMQ = Map.empty,
      requestToProcessReceivedFromMQ = Map.empty,
      requestIdsExpectedInBlock = [],
      rpIdFromRequestId = Map.empty,
      publicProofReceivedFromMQ = Map.empty,
      responseFromRequestId = Map.empty,
      requestData = Map.empty\<rparr>"

definition message_100 :: message where
  "message_100 = (empty_message ''r1'')\<lparr>height := Some 100, rp_id := Some ''rp1''\<rparr>"

text \<open>
  A store in which request \<open>r1\<close> has been received, its response data staged and its two
  \<open>k\<close> saved; the same store once the challenge has been saved too; a challenge message
  and a challenge request for \<open>r1\<close>; ledgers that reject the response transaction; and the
  store in which the message tagged 100 has been saved at ledger height 99, before and
  after the header for height 102.
\<close>

definition request_r1 :: message where
  "request_r1 = (empty_message ''r1'')\<lparr>rp_id := Some ''rp1'', k := Some [''k1'', ''k2'']\<rparr>"

definition response_r1 :: response_data where
  "response_r1 =
     \<lparr>rd_request_id = ''r1'', rd_aal = Num 1, rd_ial = Num 2, rd_status = Some ''accept'',
      rd_signature = Some ''sig'', rd_accessor_id = Some ''acc1'', rd_secret = Some ''sec''\<rparr>"

definition store_r1 :: store where
  "store_r1 =
     store_empty\<lparr>requestReceivedFromMQ := [''r1'' \<mapsto> request_r1],
                 rpIdFromRequestId := [''r1'' \<mapsto> ''rp1''],
                 responseFromRequestId := [''r1'' \<mapsto> response_r1]\<rparr>"

definition challenge_r1 :: message where
  "challenge_r1 = (empty_message ''r1'')\<lparr>challenge := Some [''c1'', ''c2''], height := Some 100\<rparr>"

definition self_challenge :: message where
  "self_challenge =
     (empty_message ''r1'')\<lparr>public_proof := Some [''pp'', ''pp''], idp_id := Some ''idp1'',
        msg_type := Some ''request_challenge'', height := Some 5\<rparr>"

definition env_reject :: env where
  "env_reject = env_accept\<lparr>ledger_createIdpResponse := (\<lambda>t. None)\<rparr>"

definition env_reject_mode1 :: env where
  "env_reject_mode1 = env_reject\<lparr>getRequest := (\<lambda>r. Some \<lparr>lr_mode = 1\<rparr>)\<rparr>"

definition store_r1c :: store where
  "store_r1c =
     store_r1\<lparr>requestReceivedFromMQ :=
                [''r1'' \<mapsto> request_r1\<lparr>challenge := Some [''c1'', ''c2'']\<rparr>]\<rparr>"

definition saved_100 :: store where
  "saved_100 = fst (snd (handleMessageFromQueue env_accept 99 store_empty message_100))"

definition after_102 :: store where
  "after_102 = fst (snd (handleTendermintNewBlockHeaderEvent env_accept saved_100 102 (Some 1)))"

text \<open>
  A node whose awaited protocol handlers reject; a second message for request \<open>r1\<close>,
  tagged 200; the store in which it has been saved at ledger height 99 after the message
  tagged 100; and that store after the header for height 101.
\<close>

definition env_rejecting :: env where
  "env_rejecting = env_accept\<lparr>handler_rejects := (\<lambda>c. True)\<rparr>"

definition message_200 :: message where
  "message_200 = message_100\<lparr>height := Some 200\<rparr>"

definition saved_100_200 :: store where
  "saved_100_200 = fst (snd (handleMessageFromQueue env_accept 99 saved_100 message_200))"

definition after_101 :: store where
  "after_101 =
     fst (snd (handleTendermintNewBlockHeaderEvent env_accept saved_100_200 101 (Some 0)))"

text \<open>
  An IdP node \<open>idp1\<close> with \<open>max_ial\<close> 3 that is not associated with the identity, and the
  same node once associated; a store with both callback URLs set, empty and with onboard data
  recorded for \<open>ref1\<close>; a new-identity call with \<open>ial\<close> 3. An RP whose create-request
  transaction is rejected, an empty RP store, a request with one data request, and the
  transaction value built from it.
\<close>

definition ienv :: identity_env where
  "ienv =
     \<lparr>ie_nodeId = ''idp1'',
      getNamespaceList = [''citizen_id''],
      getIdpNodes = (\<lambda>ns ident. []),
      getNodeInfo = (\<lambda>n. Some \<lparr>max_ial = Num 3\<rparr>),
      checkExistingIdentity = (\<lambda>h. False),
      ie_hash = (\<lambda>x. ''#'' @ x),
      randomBase64Bytes = (\<lambda>n. if n = 0 then ''acc-new'' else ''grp-new''),
      accessor_sign_fetch = (\<lambda>url r. Some ''signed''),
      extractPaddingFromPrivateEncrypt = (\<lambda>e pk. ''pad''),
      getRequestMessageForCreatingIdentity = (\<lambda>ns ident ref. ''create''),
      getRequestMessageForAddingAccessor = (\<lambda>ns ident ref. ''add''),
      common_createRequest = (\<lambda>r. Some ''req2''),
      ledger_createIdentity = (\<lambda>t pk a g. True),
      registerMqDestination = (\<lambda>h i. True),
      ledger_updateIal = (\<lambda>h i. True)\<rparr>"

definition ienv_associated :: identity_env where
  "ienv_associated = ienv\<lparr>getIdpNodes := (\<lambda>ns ident. [''idp9'', ''idp1''])\<rparr>"

definition istore_empty :: identity_store where
  "istore_empty =
     \<lparr>onboardDataByReferenceId = Map.empty, identityFromRequestId = Map.empty,
      accessor_sign_url = Some ''http://sign'',
      identity_result_url = Some ''http://result''\<rparr>"

definition istore_r1 :: identity_store where
  "istore_r1 =
     istore_empty\<lparr>onboardDataByReferenceId :=
       [''ref1'' \<mapsto> \<lparr>od_request_id = ''req1'', od_accessor_id = ''acc1''\<rparr>]\<rparr>"

definition identity_r1 :: create_identity_data where
  "identity_r1 =
     \<lparr>ci_namespace = ''citizen_id'', ci_identifier = ''123'', ci_reference_id = ''ref1'',
      ci_accessor_type = Some ''RSA'', ci_accessor_public_key = Some ''PK1'',
      ci_accessor_id = None, ci_ial = Num 3, ci_addAccessor = False\<rparr>"

definition rp_reject :: rp_env where
  "rp_reject =
     \<lparr>getNonce = ''n1'',
      createRequestId = (\<lambda>d n. ''req-'' @ n),
      rp_hash = (\<lambda>x. ''#'' @ js_str x),
      transact = (\<lambda>tx n. (False, 0)),
      getIdpMqDestination = (\<lambda>ns ident ial. [''10.0.0.1:5555'']),
      rp_getNodePubKey = (\<lambda>n. Some ''key'')\<rparr>"

definition rp_store_empty :: rp_store where
  "rp_store_empty =
     \<lparr>requestReferenceMapping = Map.empty, requestsData = Map.empty,
      callbackUrls = Map.empty\<rparr>"

definition rp_request :: create_request_data where
  "rp_request =
     \<lparr>rq_namespace = ''citizen_id'', rq_identifier = ''123'', rq_reference_id = ''ref1'',
      rq_data_request_list = Some [\<lparr>service_id = ''bank'', as_id_list = [''as1''],
                                    count_of = Num 1, request_params = ''{}''\<rparr>],
      rq_min_idp = Num 1, rq_min_aal = Num 1, rq_min_ial = Num 2, rq_timeout = Num 60,
      rq_request_message = Some ''hello'', rq_callback_url = Some ''http://cb''\<rparr>"

definition rp_request_tx :: create_request_tx where
  "rp_request_tx =
     \<lparr>ct_request_id = ''req-n1'', ct_min_idp = Num 1, ct_min_aal = Num 1,
      ct_min_ial = Num 2, ct_timeout = Num 60,
      ct_data_request_list =
        [\<lparr>db_service_id = ''bank'', db_as_id_list = [''as1''],
          db_count = Num 1, db_request_params_hash = ''#{}''\<rparr>],
      ct_message_hash = ''#hello''\<rparr>"

section \<open>Facts about traces\<close>

lemma processed_ids_append: "processed_ids (xs @ ys) = processed_ids xs @ processed_ids ys"
  by (induction xs rule: processed_ids.induct) simp_all

lemma dispatched_append: "dispatched (xs @ ys) = dispatched xs @ dispatched ys"
  by (induction xs rule: dispatched.induct) simp_all

lemma processed_ids_dispatch: "processed_ids (snd (dispatch env m)) = []"
  by (simp add: dispatch_def Let_def)

lemma dispatched_dispatch: "dispatched (snd (dispatch env m)) = [handler_of m]"
  by (simp add: dispatch_def Let_def)

lemma dispatched_db_events: "list_all is_db_event ev \<Longrightarrow> dispatched ev = []"
  by (induction ev rule: dispatched.induct) simp_all

section \<open>The callbacks of the block-header handler\<close>

lemma processed_ids_removes:
  "processed_ids (map (DbRemove RequestToProcessReceivedFromMQ) rids) = rids"
  by (induction rids) simp_all

lemma dispatched_removes: "dispatched (map (DbRemove t) rids) = []"
  by (induction rids) simp_all

lemma processed_ids_callbacks:
  "processed_ids (concat (map (\<lambda>rid. snd (callback env (f rid))) rids)) = []"
  by (induction rids)
     (simp_all add: callback_def processed_ids_append processed_ids_dispatch split: option.splits)

lemma dispatched_callbacks:
  "dispatched (concat (map (\<lambda>rid. snd (callback env (f rid))) rids))
     = map handler_of (List.map_filter f rids)"
  by (induction rids)
     (simp_all add: callback_def dispatched_append dispatched_dispatch List.map_filter_simps
               split: option.splits)

lemma removeRequestsToProcess_keeps:
  "requestIdsExpectedInBlock (removeRequestsToProcess rids s) = requestIdsExpectedInBlock s"
  "requestReceivedFromMQ (removeRequestsToProcess rids s) = requestReceivedFromMQ s"
  by (induction rids arbitrary: s) simp_all

lemma removeRequestsToProcess_removes:
  "requestToProcessReceivedFromMQ (removeRequestsToProcess rids s) rid
     = (if rid \<in> set rids then None else requestToProcessReceivedFromMQ s rid)"
  by (induction rids arbitrary: s) simp_all

lemma removeRequestsToProcess_nothing: "removeRequestsToProcess [] s = s"
  by simp

lemma first_failure_none: "(first_failure rs = None) = list_all (\<lambda>r. r = Inr ()) rs"
  by (induction rs rule: first_failure.induct) simp_all

lemma rejection_none: "(rejection rs = None) = list_all (\<lambda>r. r = Inr ()) rs"
  by (auto simp: rejection_def first_failure_none list_all_iff)

lemma processRequestIds_processed:
  "processed_ids (snd (snd (processRequestIds env s rids))) = rids"
  by (simp add: processRequestIds_def Let_def processed_ids_append processed_ids_removes
        processed_ids_callbacks comp_def)

lemma processRequestIds_expected:
  "requestIdsExpectedInBlock (fst (snd (processRequestIds env s rids)))
     = requestIdsExpectedInBlock s"
  by (simp add: processRequestIds_def Let_def removeRequestsToProcess_keeps)

lemma processRequestIds_dispatched:
  "dispatched (snd (snd (processRequestIds env s rids)))
     = map handler_of (List.map_filter (requestToProcessReceivedFromMQ s) rids)"
  by (simp add: processRequestIds_def Let_def dispatched_append dispatched_removes
        dispatched_callbacks comp_def)

lemma processRequestIds_to_process:
  "requestToProcessReceivedFromMQ (fst (snd (processRequestIds env s rids))) rid
     = (if rid \<in> set rids then None else requestToProcessReceivedFromMQ s rid)"
  by (simp add: processRequestIds_def Let_def removeRequestsToProcess_removes)

lemma callback_completes_iff:
  "callback_completes env s rid
     = (fst (callback env (requestToProcessReceivedFromMQ s rid)) = Inr ())"
  by (simp add: callback_completes_def callback_def dispatch_def Let_def split: option.splits)

lemma processRequestIds_completes:
  "(fst (processRequestIds env s rids) = None) = list_all (callback_completes env s) rids"
  by (simp add: processRequestIds_def Let_def rejection_none list_all_iff
        callback_completes_iff)

lemma processRequestIds_nothing: "processRequestIds env s [] = (None, s, [])"
  by (simp add: processRequestIds_def rejection_def)

lemma header_processed:
  "processed_ids (snd (snd (handleTendermintNewBlockHeaderEvent env s h m)))
     = getRequestIdsExpectedInBlock s (fromHeight h m) (toHeight h)"
  using processRequestIds_processed
          [of env s "getRequestIdsExpectedInBlock s (fromHeight h m) (toHeight h)"]
  by (auto simp: handleTendermintNewBlockHeaderEvent_def Let_def processed_ids_append
           split: prod.splits option.splits)

lemma header_completes:
  "(fst (handleTendermintNewBlockHeaderEvent env s h m) = Inr ())
     = list_all (callback_completes env s)
         (getRequestIdsExpectedInBlock s (fromHeight h m) (toHeight h))"
  using processRequestIds_completes
          [of env s "getRequestIdsExpectedInBlock s (fromHeight h m) (toHeight h)"]
  by (auto simp: handleTendermintNewBlockHeaderEvent_def Let_def
           split: prod.splits option.splits)

lemma header_purged:
  "fst (handleTendermintNewBlockHeaderEvent env s h m) = Inr () \<Longrightarrow>
   requestIdsExpectedInBlock (fst (snd (handleTendermintNewBlockHeaderEvent env s h m)))
     = filter (\<lambda>e. \<not> in_range (fromHeight h m) (toHeight h) e) (requestIdsExpectedInBlock s)"
  using processRequestIds_expected
          [of env s "getRequestIdsExpectedInBlock s (fromHeight h m) (toHeight h)"]
  by (auto simp: handleTendermintNewBlockHeaderEvent_def Let_def removeRequestIdsExpectedInBlock_def
           split: prod.splits option.splits)

lemma header_dispatched:
  "dispatched (snd (snd (handleTendermintNewBlockHeaderEvent env s h m)))
     = map handler_of (List.map_filter (requestToProcessReceivedFromMQ s)
         (getRequestIdsExpectedInBlock s (fromHeight h m) (toHeight h)))"
  using processRequestIds_dispatched
          [of env s "getRequestIdsExpectedInBlock s (fromHeight h m) (toHeight h)"]
  by (auto simp: handleTendermintNewBlockHeaderEvent_def Let_def dispatched_append
           split: prod.splits option.splits)

lemma map_filter_found:
  "x \<in> set xs \<Longrightarrow> f x = Some y \<Longrightarrow> y \<in> set (List.map_filter f xs)"
  by (induction xs) (auto simp: List.map_filter_simps split: option.splits)

lemma processRequestIds_dispatches_found:
  "rid \<in> set rids \<Longrightarrow> requestToProcessReceivedFromMQ s rid = Some M \<Longrightarrow>
   handler_of M \<in> set (dispatched (snd (snd (processRequestIds env s rids))))"
  using map_filter_found [of rid rids "requestToProcessReceivedFromMQ s" M]
  by (simp add: processRequestIds_dispatched)

lemma header_to_process:
  "requestToProcessReceivedFromMQ (fst (snd (handleTendermintNewBlockHeaderEvent env s h m))) rid
     = (if rid \<in> set (getRequestIdsExpectedInBlock s (fromHeight h m) (toHeight h)) then None
        else requestToProcessReceivedFromMQ s rid)"
  using processRequestIds_to_process
          [of env s "getRequestIdsExpectedInBlock s (fromHeight h m) (toHeight h)" rid]
  by (auto simp: handleTendermintNewBlockHeaderEvent_def Let_def removeRequestIdsExpectedInBlock_def
           split: prod.splits option.splits)

lemma header_expected:
  "requestIdsExpectedInBlock (fst (snd (handleTendermintNewBlockHeaderEvent env s h m)))
     = (if fst (handleTendermintNewBlockHeaderEvent env s h m) = Inr ()
        then filter (\<lambda>e. \<not> in_range (fromHeight h m) (toHeight h) e) (requestIdsExpectedInBlock s)
        else requestIdsExpectedInBlock s)"
  using processRequestIds_expected
          [of env s "getRequestIdsExpectedInBlock s (fromHeight h m) (toHeight h)"]
  by (auto simp: handleTendermintNewBlockHeaderEvent_def Let_def removeRequestIdsExpectedInBlock_def
           split: prod.splits option.splits)

lemma header_dispatches_found:
  "rid \<in> set (getRequestIdsExpectedInBlock s (fromHeight h m) (toHeight h)) \<Longrightarrow>
   requestToProcessReceivedFromMQ s rid = Some M \<Longrightarrow>
   handler_of M \<in> set (dispatched (snd (snd (handleTendermintNewBlockHeaderEvent env s h m))))"
  using processRequestIds_dispatches_found
          [of rid "getRequestIdsExpectedInBlock s (fromHeight h m) (toHeight h)" s M env]
  by (auto simp: handleTendermintNewBlockHeaderEvent_def Let_def dispatched_append
           split: prod.splits option.splits)

lemma header_nothing_in_window:
  "getRequestIdsExpectedInBlock s (fromHeight h m) (toHeight h) = [] \<Longrightarrow>
   handleTendermintNewBlockHeaderEvent env s h m
     = (Inr (), s, [DbRemoveExpected (fromHeight h m) (toHeight h)])"
  by (simp add: handleTendermintNewBlockHeaderEvent_def Let_def removeRequestIdsExpectedInBlock_def
        getRequestIdsExpectedInBlock_def filter_empty_conv processRequestIds_nothing)

section \<open>The message handler on a message without a challenge\<close>

lemma storePrivateProof_db: "list_all is_db_event (snd (storePrivateProof s m))"
  by (simp add: storePrivateProof_def split: option.splits)

lemma storePrivateProof_keeps:
  "requestToProcessReceivedFromMQ (fst (storePrivateProof s m)) = requestToProcessReceivedFromMQ s"
  "requestIdsExpectedInBlock (fst (storePrivateProof s m)) = requestIdsExpectedInBlock s"
  "requestReceivedFromMQ (fst (storePrivateProof s m)) = requestReceivedFromMQ s"
  by (simp_all add: storePrivateProof_def split: option.splits)

lemma saveMessage_db: "list_all is_db_event (snd (saveMessage s m h))"
  using storePrivateProof_db
  by (simp add: saveMessage_def Let_def case_prod_beta)

lemma saveMessage_keeps:
  "requestToProcessReceivedFromMQ (fst (saveMessage s m h)) = requestToProcessReceivedFromMQ s"
  "requestIdsExpectedInBlock (fst (saveMessage s m h)) = requestIdsExpectedInBlock s @ [(h, request_id m)]"
  "requestReceivedFromMQ (fst (saveMessage s m h)) = requestReceivedFromMQ s"
  by (simp_all add: saveMessage_def Let_def case_prod_beta storePrivateProof_keeps
        addRequestIdExpectedInBlock_def)

lemma handle_saved:
  assumes "challenge M = None" and "height M = Some H" and "L \<le> H"
  shows "fst (handleMessageFromQueue env L s M) = Inr ()"
    and "list_all is_db_event (snd (snd (handleMessageFromQueue env L s M)))"
    and "requestToProcessReceivedFromMQ (fst (snd (handleMessageFromQueue env L s M))) (request_id M)
           = Some M"
    and "requestIdsExpectedInBlock (fst (snd (handleMessageFromQueue env L s M)))
           = requestIdsExpectedInBlock s @ [(H, request_id M)]"
  using assms saveMessage_db
  by (simp_all add: handleMessageFromQueue_def Let_def case_prod_beta height_not_reached_def
        saveMessage_keeps)

lemma handle_dispatched_at_once:
  assumes "challenge M = None" and "height M = Some H" and "H < L"
  shows "dispatched (snd (snd (handleMessageFromQueue env L s M))) = [handler_of M]"
    and "requestToProcessReceivedFromMQ (fst (snd (handleMessageFromQueue env L s M))) (request_id M)
           = None"
    and "requestIdsExpectedInBlock (fst (snd (handleMessageFromQueue env L s M)))
           = requestIdsExpectedInBlock s"
  using assms
  by (simp_all add: handleMessageFromQueue_def Let_def case_prod_beta height_not_reached_def
        dispatched_append dispatched_dispatch)

section \<open>What \<open>createIdpResponse\<close> leaves alone\<close>

lemma sendPrivateProofToRP_keeps:
  "requestToProcessReceivedFromMQ (fst (sendPrivateProofToRP env s rid ppo h))
     = requestToProcessReceivedFromMQ s"
  "requestIdsExpectedInBlock (fst (sendPrivateProofToRP env s rid ppo h))
     = requestIdsExpectedInBlock s"
  "requestReceivedFromMQ (fst (sendPrivateProofToRP env s rid ppo h)) = requestReceivedFromMQ s"
  "responseFromRequestId (fst (sendPrivateProofToRP env s rid ppo h)) = responseFromRequestId s"
  by (simp_all add: sendPrivateProofToRP_def Let_def split: option.splits)

lemma sendPrivateProofToRP_trace:
  "dispatched (snd (sendPrivateProofToRP env s rid ppo h)) = []"
  "filter is_ledger_tx (snd (sendPrivateProofToRP env s rid ppo h)) = []"
  by (simp_all add: sendPrivateProofToRP_def Let_def split: option.splits)

lemma createIdpResponse_keeps:
  "requestToProcessReceivedFromMQ (fst (snd (createIdpResponse env s d)))
     = requestToProcessReceivedFromMQ s"
  "requestIdsExpectedInBlock (fst (snd (createIdpResponse env s d)))
     = requestIdsExpectedInBlock s"
  by (simp_all add: createIdpResponse_def Let_def case_prod_beta sendPrivateProofToRP_keeps
        split: sum.splits option.splits)

lemma createIdpResponse_no_dispatch:
  "dispatched (snd (snd (createIdpResponse env s d))) = []"
  by (simp add: createIdpResponse_def Let_def case_prod_beta sendPrivateProofToRP_trace
        split: sum.splits option.splits)

lemma createIdpResponse_received:
  "requestReceivedFromMQ (fst (snd (createIdpResponse env s d))) rid = Some r \<Longrightarrow>
   requestReceivedFromMQ s rid = Some r"
  by (simp add: createIdpResponse_def Let_def case_prod_beta sendPrivateProofToRP_keeps
        split: sum.splits option.splits if_splits)

section \<open>Messages with a challenge\<close>

lemma handle_challenge_found:
  assumes "challenge M = Some cs" and "requestReceivedFromMQ s (request_id M) = Some request"
  shows "handleMessageFromQueue env L s M
           = (Inr (),
              fst (snd (createIdpResponse env
                (s\<lparr>requestReceivedFromMQ := (requestReceivedFromMQ s)(request_id M \<mapsto>
                      request\<lparr>challenge := Some cs\<rparr>)\<rparr>)
                (responseFromRequestId s (request_id M)))),
              DbSet RequestReceivedFromMQ (request_id M)
              # snd (snd (createIdpResponse env
                  (s\<lparr>requestReceivedFromMQ := (requestReceivedFromMQ s)(request_id M \<mapsto>
                        request\<lparr>challenge := Some cs\<rparr>)\<rparr>)
                  (responseFromRequestId s (request_id M)))))"
  using assms by (simp add: handleMessageFromQueue_def Let_def case_prod_beta)

text \<open>
  Claim C9. A message that carries a challenge is handled at once: the result does not
  depend on the ledger height or on the height of the message, nothing is dispatched to a
  protocol handler, and nothing is added to the messages waiting for a block. When the
  request is in the store, the challenge is saved into it and \<open>createIdpResponse\<close> is run
  on the staged response data; when it is not, the handler fails with a \<open>TypeError\<close> and
  leaves the store as it is.
\<close>

theorem challenge_handled_at_once:
  assumes "challenge M = Some cs"
  shows "handleMessageFromQueue env L s M = handleMessageFromQueue env L' s (M\<lparr>height := h'\<rparr>)
    \<and> dispatched (snd (snd (handleMessageFromQueue env L s M))) = []
    \<and> requestIdsExpectedInBlock (fst (snd (handleMessageFromQueue env L s M)))
        = requestIdsExpectedInBlock s
    \<and> requestToProcessReceivedFromMQ (fst (snd (handleMessageFromQueue env L s M)))
        = requestToProcessReceivedFromMQ s
    \<and> (requestReceivedFromMQ s (request_id M) = None \<longrightarrow>
         handleMessageFromQueue env L s M = (Inl TypeError, s, []))
    \<and> (requestReceivedFromMQ s (request_id M) = Some request \<longrightarrow>
         handleMessageFromQueue env L s M
           = (Inr (),
              fst (snd (createIdpResponse env
                (s\<lparr>requestReceivedFromMQ := (requestReceivedFromMQ s)(request_id M \<mapsto>
                      request\<lparr>challenge := Some cs\<rparr>)\<rparr>)
                (responseFromRequestId s (request_id M)))),
              DbSet RequestReceivedFromMQ (request_id M)
              # snd (snd (createIdpResponse env
                  (s\<lparr>requestReceivedFromMQ := (requestReceivedFromMQ s)(request_id M \<mapsto>
                        request\<lparr>challenge := Some cs\<rparr>)\<rparr>)
                  (responseFromRequestId s (request_id M))))))"
proof -
  have indep: "handleMessageFromQueue env L s M = handleMessageFromQueue env L' s (M\<lparr>height := h'\<rparr>)"
    using assms by (simp add: handleMessageFromQueue_def Let_def split: option.splits)
  have nodisp: "dispatched (snd (snd (handleMessageFromQueue env L s M))) = []"
    using assms
    by (simp add: handleMessageFromQueue_def Let_def case_prod_beta createIdpResponse_no_dispatch
          split: option.splits)
  have expected: "requestIdsExpectedInBlock (fst (snd (handleMessageFromQueue env L s M)))
        = requestIdsExpectedInBlock s"
    using assms
    by (simp add: handleMessageFromQueue_def Let_def case_prod_beta createIdpResponse_keeps
          split: option.splits)
  have toproc: "requestToProcessReceivedFromMQ (fst (snd (handleMessageFromQueue env L s M)))
        = requestToProcessReceivedFromMQ s"
    using assms
    by (simp add: handleMessageFromQueue_def Let_def case_prod_beta createIdpResponse_keeps
          split: option.splits)
  have missing: "requestReceivedFromMQ s (request_id M) = None \<longrightarrow>
         handleMessageFromQueue env L s M = (Inl TypeError, s, [])"
    using assms by (simp add: handleMessageFromQueue_def)
  have found: "requestReceivedFromMQ s (request_id M) = Some request \<longrightarrow>
         handleMessageFromQueue env L s M
           = (Inr (),
              fst (snd (createIdpResponse env
                (s\<lparr>requestReceivedFromMQ := (requestReceivedFromMQ s)(request_id M \<mapsto>
                      request\<lparr>challenge := Some cs\<rparr>)\<rparr>)
                (responseFromRequestId s (request_id M)))),
              DbSet RequestReceivedFromMQ (request_id M)
              # snd (snd (createIdpResponse env
                  (s\<lparr>requestReceivedFromMQ := (requestReceivedFromMQ s)(request_id M \<mapsto>
                        request\<lparr>challenge := Some cs\<rparr>)\<rparr>)
                  (responseFromRequestId s (request_id M)))))"
    using handle_challenge_found [OF assms, of s request env L] by blast
  from indep nodisp expected toproc missing found show ?thesis by blast
qed

text \<open>
  The challenge for \<open>r1\<close>, tagged 100, is handled at ledger height 99.
\<close>

theorem challenge_handled_at_once_witness:
  "challenge challenge_r1 = Some [''c1'', ''c2'']
   \<and> height challenge_r1 = Some 100
   \<and> requestReceivedFromMQ store_r1 (request_id challenge_r1) = Some request_r1
   \<and> fst (handleMessageFromQueue env_accept 99 store_r1 challenge_r1) = Inr ()
   \<and> handleMessageFromQueue env_accept 99 store_r1 challenge_r1
       = handleMessageFromQueue env_accept 101 store_r1 (challenge_r1\<lparr>height := Some 5\<rparr>)
   \<and> dispatched (snd (snd (handleMessageFromQueue env_accept 99 store_r1 challenge_r1))) = []
   \<and> requestIdsExpectedInBlock (fst (snd (handleMessageFromQueue env_accept 99 store_r1 challenge_r1))) = []"
proof -
  have c: "challenge challenge_r1 = Some [''c1'', ''c2'']"
    by (simp add: challenge_r1_def)
  have h: "height challenge_r1 = Some 100"
    by (simp add: challenge_r1_def)
  have r: "requestReceivedFromMQ store_r1 (request_id challenge_r1) = Some request_r1"
    by (simp add: challenge_r1_def store_r1_def empty_message_def)
  have e: "requestIdsExpectedInBlock store_r1 = []"
    by (simp add: store_r1_def store_empty_def)
  note t = challenge_handled_at_once
             [OF c, of env_accept 99 store_r1 101 "Some 5" request_r1]
  from t r have "handleMessageFromQueue env_accept 99 store_r1 challenge_r1
      = (Inr (),
         fst (snd (createIdpResponse env_accept
           (store_r1\<lparr>requestReceivedFromMQ := (requestReceivedFromMQ store_r1)
              (request_id challenge_r1 \<mapsto> request_r1\<lparr>challenge := Some [''c1'', ''c2'']\<rparr>)\<rparr>)
           (responseFromRequestId store_r1 (request_id challenge_r1)))),
         DbSet RequestReceivedFromMQ (request_id challenge_r1)
         # snd (snd (createIdpResponse env_accept
             (store_r1\<lparr>requestReceivedFromMQ := (requestReceivedFromMQ store_r1)
                (request_id challenge_r1 \<mapsto> request_r1\<lparr>challenge := Some [''c1'', ''c2'']\<rparr>)\<rparr>)
             (responseFromRequestId store_r1 (request_id challenge_r1)))))"
    by blast
  then have ok: "fst (handleMessageFromQueue env_accept 99 store_r1 challenge_r1) = Inr ()"
    by simp
  from t have i: "handleMessageFromQueue env_accept 99 store_r1 challenge_r1
       = handleMessageFromQueue env_accept 101 store_r1 (challenge_r1\<lparr>height := Some 5\<rparr>)"
    by blast
  from t have d: "dispatched (snd (snd (handleMessageFromQueue env_accept 99 store_r1 challenge_r1))) = []"
    by blast
  from t e have x: "requestIdsExpectedInBlock
       (fst (snd (handleMessageFromQueue env_accept 99 store_r1 challenge_r1))) = []"
    by metis
  from c h r ok i d x show ?thesis by blast
qed

section \<open>Challenge requests and the stored request\<close>

lemma handle_received_unchanged:
  assumes "msg_type M = Some ''request_challenge''" and "challenge M = None"
  shows "requestReceivedFromMQ (fst (snd (handleMessageFromQueue env L s M)))
           = requestReceivedFromMQ s"
  using assms
  by (simp add: handleMessageFromQueue_def Let_def case_prod_beta saveMessage_keeps
        split: option.splits)

lemma handle_received_survivor:
  assumes "msg_type M = Some ''request_challenge''"
    and "requestReceivedFromMQ (fst (snd (handleMessageFromQueue env L s M))) (request_id M) = Some r'"
  shows "\<exists>r. requestReceivedFromMQ s (request_id M) = Some r \<and> r' = r\<lparr>challenge := challenge r'\<rparr>"
proof (cases "challenge M")
  case None
  with assms show ?thesis by (simp add: handle_received_unchanged)
next
  case (Some cs)
  show ?thesis
  proof (cases "requestReceivedFromMQ s (request_id M)")
    case None
    with Some assms(2) show ?thesis by (simp add: handleMessageFromQueue_def)
  next
    case (Some r)
    let ?s1 = "s\<lparr>requestReceivedFromMQ := (requestReceivedFromMQ s)(request_id M \<mapsto>
                   r\<lparr>challenge := challenge M\<rparr>)\<rparr>"
    from \<open>challenge M = Some cs\<close> Some assms(2)
    have "requestReceivedFromMQ
            (fst (snd (createIdpResponse env ?s1 (responseFromRequestId ?s1 (request_id M)))))
            (request_id M) = Some r'"
      by (simp add: handleMessageFromQueue_def Let_def case_prod_beta)
    then have "requestReceivedFromMQ ?s1 (request_id M) = Some r'"
      by (rule createIdpResponse_received)
    then have "r' = r\<lparr>challenge := challenge M\<rparr>" by simp
    then have "r' = r\<lparr>challenge := challenge r'\<rparr>" by simp
    with Some show ?thesis by blast
  qed
qed

lemma requestChallenge_sends:
  assumes "requestChallenge env s rid aid = (Inr (), s1, ev)"
  shows "\<exists>rcv msg. last ev = MqSend rcv msg \<and> msg_type msg = Some ''request_challenge''
           \<and> challenge msg = None \<and> request_id msg = rid
           \<and> map_option k (requestReceivedFromMQ s1 rid)
               = Some (Some [fst (generatePublicProof env (getAccessorKey env aid) 0),
                             fst (generatePublicProof env (getAccessorKey env aid) 1)])"
  using assms
  by (auto simp: requestChallenge_def Let_def case_prod_beta empty_message_def
        split: option.splits)

text \<open>
  Claim C10. A message of type \<open>request_challenge\<close> does not overwrite the record stored
  under its request id: without a challenge field the whole table is unchanged; in any
  case a record found under the request id afterwards is the one that was there before,
  with the same \<open>k\<close> and at most its \<open>challenge\<close> field changed. After \<open>requestChallenge\<close>
  has saved the two \<open>k\<close> and sent the challenge request, handling that very message on
  the same node leaves the table, and so the two \<open>k\<close>, as they are.
\<close>

theorem request_challenge_keeps_record:
  assumes "msg_type M = Some ''request_challenge''"
  shows "(challenge M = None \<longrightarrow>
            requestReceivedFromMQ (fst (snd (handleMessageFromQueue env L s M)))
              = requestReceivedFromMQ s)
    \<and> (requestReceivedFromMQ (fst (snd (handleMessageFromQueue env L s M))) (request_id M) = Some r' \<longrightarrow>
         (\<exists>r. requestReceivedFromMQ s (request_id M) = Some r \<and> k r' = k r
              \<and> r' = r\<lparr>challenge := challenge r'\<rparr>))
    \<and> (requestChallenge env s rid aid = (Inr (), s1, ev) \<longrightarrow>
         (\<exists>rcv msg. last ev = MqSend rcv msg \<and> msg_type msg = Some ''request_challenge''
            \<and> request_id msg = rid
            \<and> map_option k (requestReceivedFromMQ s1 rid)
                = Some (Some [fst (generatePublicProof env (getAccessorKey env aid) 0),
                              fst (generatePublicProof env (getAccessorKey env aid) 1)])
            \<and> requestReceivedFromMQ (fst (snd (handleMessageFromQueue env L s1 msg)))
                = requestReceivedFromMQ s1))"
proof -
  have a: "challenge M = None \<longrightarrow>
            requestReceivedFromMQ (fst (snd (handleMessageFromQueue env L s M)))
              = requestReceivedFromMQ s"
    using assms by (simp add: handle_received_unchanged)
  have b: "requestReceivedFromMQ (fst (snd (handleMessageFromQueue env L s M))) (request_id M) = Some r' \<longrightarrow>
         (\<exists>r. requestReceivedFromMQ s (request_id M) = Some r \<and> k r' = k r
              \<and> r' = r\<lparr>challenge := challenge r'\<rparr>)"
  proof
    assume h: "requestReceivedFromMQ (fst (snd (handleMessageFromQueue env L s M))) (request_id M) = Some r'"
    from handle_received_survivor [OF assms h]
    obtain r where r: "requestReceivedFromMQ s (request_id M) = Some r"
      and e: "r' = r\<lparr>challenge := challenge r'\<rparr>" by blast
    from e have "k r' = k (r\<lparr>challenge := challenge r'\<rparr>)" by simp
    then have "k r' = k r" by simp
    with r e show "\<exists>r. requestReceivedFromMQ s (request_id M) = Some r \<and> k r' = k r
              \<and> r' = r\<lparr>challenge := challenge r'\<rparr>" by blast
  qed
  have c: "requestChallenge env s rid aid = (Inr (), s1, ev) \<longrightarrow>
         (\<exists>rcv msg. last ev = MqSend rcv msg \<and> msg_type msg = Some ''request_challenge''
            \<and> request_id msg = rid
            \<and> map_option k (requestReceivedFromMQ s1 rid)
                = Some (Some [fst (generatePublicProof env (getAccessorKey env aid) 0),
                              fst (generatePublicProof env (getAccessorKey env aid) 1)])
            \<and> requestReceivedFromMQ (fst (snd (handleMessageFromQueue env L s1 msg)))
                = requestReceivedFromMQ s1)"
  proof
    assume h: "requestChallenge env s rid aid = (Inr (), s1, ev)"
    from requestChallenge_sends [OF h]
    obtain rcv msg where m: "last ev = MqSend rcv msg" "msg_type msg = Some ''request_challenge''"
      "challenge msg = None" "request_id msg = rid"
      "map_option k (requestReceivedFromMQ s1 rid)
               = Some (Some [fst (generatePublicProof env (getAccessorKey env aid) 0),
                             fst (generatePublicProof env (getAccessorKey env aid) 1)])"
      by blast
    have "requestReceivedFromMQ (fst (snd (handleMessageFromQueue env L s1 msg)))
                = requestReceivedFromMQ s1"
      using m(2) m(3) by (rule handle_received_unchanged)
    with m show "\<exists>rcv msg. last ev = MqSend rcv msg \<and> msg_type msg = Some ''request_challenge''
            \<and> request_id msg = rid
            \<and> map_option k (requestReceivedFromMQ s1 rid)
                = Some (Some [fst (generatePublicProof env (getAccessorKey env aid) 0),
                              fst (generatePublicProof env (getAccessorKey env aid) 1)])
            \<and> requestReceivedFromMQ (fst (snd (handleMessageFromQueue env L s1 msg)))
                = requestReceivedFromMQ s1" by blast
  qed
  from a b c show ?thesis by blast
qed

text \<open>
  The node \<open>idp1\<close> runs \<open>requestChallenge\<close> for \<open>r1\<close> and receives a challenge request for it.
\<close>

theorem request_challenge_keeps_record_witness:
  "msg_type self_challenge = Some ''request_challenge''
   \<and> challenge self_challenge = None
   \<and> fst (requestChallenge env_accept store_r1 ''r1'' ''acc1'') = Inr ()
   \<and> requestReceivedFromMQ (fst (snd (handleMessageFromQueue env_accept 4 store_r1 self_challenge)))
       = requestReceivedFromMQ store_r1
   \<and> map_option k (requestReceivedFromMQ
        (fst (snd (requestChallenge env_accept store_r1 ''r1'' ''acc1''))) ''r1'')
       = Some (Some [''k1'', ''k2''])"
proof -
  have t: "msg_type self_challenge = Some ''request_challenge''"
    by (simp add: self_challenge_def)
  have c: "challenge self_challenge = None"
    by (simp add: self_challenge_def empty_message_def)
  have ok: "fst (requestChallenge env_accept store_r1 ''r1'' ''acc1'') = Inr ()"
    by (simp add: requestChallenge_def env_accept_def store_r1_def store_empty_def Let_def)
  then have run: "requestChallenge env_accept store_r1 ''r1'' ''acc1''
      = (Inr (), fst (snd (requestChallenge env_accept store_r1 ''r1'' ''acc1'')),
         snd (snd (requestChallenge env_accept store_r1 ''r1'' ''acc1'')))"
    by (metis prod.collapse)
  have g: "[fst (generatePublicProof env_accept (getAccessorKey env_accept ''acc1'') 0),
            fst (generatePublicProof env_accept (getAccessorKey env_accept ''acc1'') 1)]
           = [''k1'', ''k2'']"
    by (simp add: env_accept_def)
  note w = request_challenge_keeps_record
             [OF t, of env_accept 4 store_r1 request_r1 "''r1''" "''acc1''"
                "fst (snd (requestChallenge env_accept store_r1 ''r1'' ''acc1''))"
                "snd (snd (requestChallenge env_accept store_r1 ''r1'' ''acc1''))"]
  from w c have u: "requestReceivedFromMQ
       (fst (snd (handleMessageFromQueue env_accept 4 store_r1 self_challenge)))
       = requestReceivedFromMQ store_r1"
    by blast
  from w run g have kk: "map_option k (requestReceivedFromMQ
        (fst (snd (requestChallenge env_accept store_r1 ''r1'' ''acc1''))) ''r1'')
       = Some (Some [''k1'', ''k2''])"
    by metis
  from t c ok u kk show ?thesis by blast
qed

section \<open>The trace of \<open>createIdpResponse\<close>\<close>

lemma createIdpResponse_failed_early:
  "prepareResponse env s d = Inl e \<Longrightarrow>
   createIdpResponse env s d = (Inl (CannotCreateIdpResponse e), s, [])"
  by (simp add: createIdpResponse_def)

lemma createIdpResponse_prepared:
  assumes "prepareResponse env s d = Inr (rid, tx, ppo)"
  shows "snd (snd (createIdpResponse env s d))
            = DbRemove RequestReceivedFromMQ rid # DbRemove ResponseFromRequestId rid
              # LedgerCreateIdpResponse tx
              # (case ledger_createIdpResponse env tx of
                   None \<Rightarrow> []
                 | Some h \<Rightarrow>
                     snd (sendPrivateProofToRP env
                       (s\<lparr>requestReceivedFromMQ := (requestReceivedFromMQ s)(rid := None),
                          responseFromRequestId := (responseFromRequestId s)(rid := None)\<rparr>)
                       rid ppo h))"
    and "requestReceivedFromMQ (fst (snd (createIdpResponse env s d))) rid = None"
    and "responseFromRequestId (fst (snd (createIdpResponse env s d))) rid = None"
    and "(fst (createIdpResponse env s d) = Inr ()) = (ledger_createIdpResponse env tx \<noteq> None)"
  using assms
  by (auto simp: createIdpResponse_def Let_def case_prod_beta sendPrivateProofToRP_keeps
        split: option.splits)

lemma prepareResponse_rid:
  "prepareResponse env s d = Inr (rid, tx, ppo) \<Longrightarrow> \<exists>data. d = Some data \<and> rid = rd_request_id data"
  by (auto simp: prepareResponse_def split: option.splits if_splits sum.splits)

lemma prepareResponse_mode1:
  "getRequest env (rd_request_id data) = Some req \<Longrightarrow> lr_mode req = 1 \<Longrightarrow>
   prepareResponse env s (Some data) = Inr (rd_request_id data, Some (dataToBlockchain1 data), None)"
  by (simp add: prepareResponse_def)

lemma prepareResponse_mode3:
  assumes "getRequest env (rd_request_id data) = Some req" and "lr_mode req = 3"
    and "prepareResponse env s (Some data) = Inr (rid, tx, ppo)"
  shows "\<exists>aid sec proofs. rd_accessor_id data = Some aid \<and> rd_secret data = Some sec
           \<and> generateProofs env s (rd_request_id data) aid sec = Inr proofs
           \<and> rid = rd_request_id data
           \<and> tx = Some (dataToBlockchain3 env data proofs)
           \<and> ppo = Some (privateProofObject_of aid proofs)"
  using assms
  by (auto simp: prepareResponse_def split: option.splits sum.splits)

lemma sendPrivateProofToRP_sends:
  "MqSend rcv p \<in> set (snd (sendPrivateProofToRP env s rid ppo h)) \<Longrightarrow>
   \<exists>ip port. getMsqAddress env (rpIdFromRequestId s rid) = Some (ip, port)
      \<and> rcv = [\<lparr>rc_ip = ip, rc_port = port,
                 rc_public_key = getNodePubKey env (rpIdFromRequestId s rid)\<rparr>]
      \<and> p = mq_payload_of env rid ppo h"
  by (auto simp: sendPrivateProofToRP_def Let_def split: option.splits)

lemma sendPrivateProofToRP_sent:
  "getMsqAddress env (rpIdFromRequestId s rid) = Some a \<Longrightarrow>
   \<exists>rcv. MqSend rcv (mq_payload_of env rid ppo h) \<in> set (snd (sendPrivateProofToRP env s rid ppo h))"
  by (cases a) (simp add: sendPrivateProofToRP_def Let_def)

lemma mq_payload_of_mode3:
  "request_id (mq_payload_of env rid (Some (privateProofObject_of aid proofs)) h) = rid"
  "privateProofValueArray (mq_payload_of env rid (Some (privateProofObject_of aid proofs)) h)
     = Some (map privateProofValue_of proofs)"
  "accessor_id (mq_payload_of env rid (Some (privateProofObject_of aid proofs)) h) = Some aid"
  "padding (mq_payload_of env rid (Some (privateProofObject_of aid proofs)) h) = samePadding proofs"
  "height (mq_payload_of env rid (Some (privateProofObject_of aid proofs)) h) = Some h"
  "idp_id (mq_payload_of env rid (Some (privateProofObject_of aid proofs)) h) = Some (nodeId env)"
  by (simp_all add: mq_payload_of_def privateProofObject_of_def empty_message_def)

text \<open>
  Claim C3. In mode 3 a run of \<open>createIdpResponse\<close> either submits nothing and sends
  nothing, or submits exactly one ledger transaction whose value is the staged response
  fields, the stringified array of blockchain proofs and the hash of the stringified array
  of private proof values. Every send in the trace goes to the single queue address of the
  request's RP and carries that array itself, with the accessor id and the padding; when
  the run succeeds and the RP's address is known, the send is in the trace.
\<close>

theorem private_proof_only_hashed_on_ledger:
  assumes "getRequest env (rd_request_id data) = Some req" and "lr_mode req = 3"
  shows "(filter is_ledger_tx (snd (snd (createIdpResponse env s (Some data)))) = []
          \<and> (\<forall>rcv p. MqSend rcv p \<notin> set (snd (snd (createIdpResponse env s (Some data)))))
          \<and> fst (createIdpResponse env s (Some data)) \<noteq> Inr ())
       \<or> (\<exists>aid sec proofs.
             rd_accessor_id data = Some aid \<and> rd_secret data = Some sec
           \<and> generateProofs env s (rd_request_id data) aid sec = Inr proofs
           \<and> filter is_ledger_tx (snd (snd (createIdpResponse env s (Some data))))
               = [LedgerCreateIdpResponse (Some
                    \<lparr>tx_request_id = rd_request_id data,
                     tx_aal = rd_aal data,
                     tx_ial = rd_ial data,
                     tx_status = rd_status data,
                     tx_signature = rd_signature data,
                     tx_identity_proof = Some (stringify env (map blockchainProof proofs)),
                     tx_private_proof_hash =
                       Some (hash env (stringify env (map privateProofValue_of proofs)))\<rparr>)]
           \<and> (\<forall>rcv p. MqSend rcv p \<in> set (snd (snd (createIdpResponse env s (Some data)))) \<longrightarrow>
                 (\<exists>ip port. getMsqAddress env (rpIdFromRequestId s (rd_request_id data)) = Some (ip, port)
                    \<and> rcv = [\<lparr>rc_ip = ip, rc_port = port,
                               rc_public_key = getNodePubKey env
                                 (rpIdFromRequestId s (rd_request_id data))\<rparr>])
                 \<and> request_id p = rd_request_id data
                 \<and> privateProofValueArray p = Some (map privateProofValue_of proofs)
                 \<and> accessor_id p = Some aid
                 \<and> padding p = samePadding proofs
                 \<and> idp_id p = Some (nodeId env))
           \<and> (fst (createIdpResponse env s (Some data)) = Inr ()
                \<and> getMsqAddress env (rpIdFromRequestId s (rd_request_id data)) \<noteq> None \<longrightarrow>
                 (\<exists>rcv p. MqSend rcv p \<in> set (snd (snd (createIdpResponse env s (Some data)))))))"
proof (cases "prepareResponse env s (Some data)")
  case (Inl e)
  then have "createIdpResponse env s (Some data) = (Inl (CannotCreateIdpResponse e), s, [])"
    by (rule createIdpResponse_failed_early)
  then show ?thesis by simp
next
  case (Inr triple)
  obtain rid tx ppo where triple: "triple = (rid, tx, ppo)" by (cases triple)
  with Inr have prep: "prepareResponse env s (Some data) = Inr (rid, tx, ppo)" by simp
  from prepareResponse_mode3 [OF assms prep]
  obtain aid sec proofs where m3: "rd_accessor_id data = Some aid" "rd_secret data = Some sec"
      "generateProofs env s (rd_request_id data) aid sec = Inr proofs"
      "rid = rd_request_id data"
      "tx = Some (dataToBlockchain3 env data proofs)"
      "ppo = Some (privateProofObject_of aid proofs)"
    by blast
  let ?ev = "snd (snd (createIdpResponse env s (Some data)))"
  define s1 where "s1 = s\<lparr>requestReceivedFromMQ := (requestReceivedFromMQ s)(rid := None),
               responseFromRequestId := (responseFromRequestId s)(rid := None)\<rparr>"
  define rest where "rest = (case ledger_createIdpResponse env tx of
                   None \<Rightarrow> []
                 | Some h \<Rightarrow> snd (sendPrivateProofToRP env s1 rid ppo h))"
  have ev: "?ev = DbRemove RequestReceivedFromMQ rid # DbRemove ResponseFromRequestId rid
              # LedgerCreateIdpResponse tx # rest"
    unfolding rest_def s1_def by (rule createIdpResponse_prepared(1) [OF prep])
  have noledger: "filter is_ledger_tx rest = []"
    by (simp add: rest_def sendPrivateProofToRP_trace split: option.splits)
  have rp: "rpIdFromRequestId s1 rid = rpIdFromRequestId s rid" by (simp add: s1_def)
  have ledger: "filter is_ledger_tx ?ev
               = [LedgerCreateIdpResponse (Some
                    \<lparr>tx_request_id = rd_request_id data,
                     tx_aal = rd_aal data,
                     tx_ial = rd_ial data,
                     tx_status = rd_status data,
                     tx_signature = rd_signature data,
                     tx_identity_proof = Some (stringify env (map blockchainProof proofs)),
                     tx_private_proof_hash =
                       Some (hash env (stringify env (map privateProofValue_of proofs)))\<rparr>)]"
    using ev noledger m3(5) by (simp add: dataToBlockchain3_def)
  have sends: "(\<exists>ip port. getMsqAddress env (rpIdFromRequestId s (rd_request_id data)) = Some (ip, port)
                    \<and> rcv = [\<lparr>rc_ip = ip, rc_port = port,
                               rc_public_key = getNodePubKey env
                                 (rpIdFromRequestId s (rd_request_id data))\<rparr>])
                 \<and> request_id p = rd_request_id data
                 \<and> privateProofValueArray p = Some (map privateProofValue_of proofs)
                 \<and> accessor_id p = Some aid
                 \<and> padding p = samePadding proofs
                 \<and> idp_id p = Some (nodeId env)"
    if mem: "MqSend rcv p \<in> set ?ev" for rcv p
  proof -
    from mem ev have inrest: "MqSend rcv p \<in> set rest" by simp
    then obtain h where h: "rest = snd (sendPrivateProofToRP env s1 rid ppo h)"
      by (cases "ledger_createIdpResponse env tx") (simp_all add: rest_def)
    from inrest h have "MqSend rcv p \<in> set (snd (sendPrivateProofToRP env s1 rid ppo h))"
      by simp
    from sendPrivateProofToRP_sends [OF this] rp
    obtain ip port where a: "getMsqAddress env (rpIdFromRequestId s rid) = Some (ip, port)"
      "rcv = [\<lparr>rc_ip = ip, rc_port = port,
               rc_public_key = getNodePubKey env (rpIdFromRequestId s rid)\<rparr>]"
      "p = mq_payload_of env rid ppo h"
      by auto
    from a m3(4) m3(6) show ?thesis
      by (simp add: mq_payload_of_mode3)
  qed
  have sent: "\<exists>rcv p. MqSend rcv p \<in> set ?ev"
    if ok: "fst (createIdpResponse env s (Some data)) = Inr ()"
      and addr: "getMsqAddress env (rpIdFromRequestId s (rd_request_id data)) \<noteq> None"
  proof -
    from createIdpResponse_prepared(4) [OF prep] ok
    obtain h where h: "ledger_createIdpResponse env tx = Some h" by auto
    then have r: "rest = snd (sendPrivateProofToRP env s1 rid ppo h)"
      by (simp add: rest_def)
    from addr m3(4) rp obtain a where a: "getMsqAddress env (rpIdFromRequestId s1 rid) = Some a"
      by auto
    from sendPrivateProofToRP_sent [OF a, of ppo h]
    obtain rcv where s: "MqSend rcv (mq_payload_of env rid ppo h)
        \<in> set (snd (sendPrivateProofToRP env s1 rid ppo h))" by blast
    with r s ev show ?thesis by auto
  qed
  from m3(1,2,3) ledger sends sent show ?thesis by blast
qed

lemma generateProofs_r1c:
  "generateProofs env_accept store_r1c ''r1'' ''acc1'' ''sec''
     = Inr [\<lparr>blockchainProof = ''bc1'', privateProofValue_of = ''pc1'', padding_of = ''pad''\<rparr>,
            \<lparr>blockchainProof = ''bc2'', privateProofValue_of = ''pc2'', padding_of = ''pad''\<rparr>]"
  by (simp add: generateProofs_def store_r1c_def store_r1_def store_empty_def request_r1_def
        empty_message_def env_accept_def)

lemma createIdpResponse_r1c_ok:
  "fst (createIdpResponse env_accept store_r1c (Some response_r1)) = Inr ()"
proof -
  have p: "prepareResponse env_accept store_r1c (Some response_r1)
      = Inr (''r1'',
             Some (dataToBlockchain3 env_accept response_r1
               [\<lparr>blockchainProof = ''bc1'', privateProofValue_of = ''pc1'', padding_of = ''pad''\<rparr>,
                \<lparr>blockchainProof = ''bc2'', privateProofValue_of = ''pc2'', padding_of = ''pad''\<rparr>]),
             Some (privateProofObject_of ''acc1''
               [\<lparr>blockchainProof = ''bc1'', privateProofValue_of = ''pc1'', padding_of = ''pad''\<rparr>,
                \<lparr>blockchainProof = ''bc2'', privateProofValue_of = ''pc2'', padding_of = ''pad''\<rparr>]))"
    using generateProofs_r1c
    by (simp add: prepareResponse_def response_r1_def env_accept_def)
  show ?thesis
    using createIdpResponse_prepared(4) [OF p] by (simp add: env_accept_def)
qed

lemma createIdpResponse_r1c_ledger:
  "filter is_ledger_tx (snd (snd (createIdpResponse env_accept store_r1c (Some response_r1))))
       = [LedgerCreateIdpResponse (Some
            \<lparr>tx_request_id = ''r1'', tx_aal = Num 1, tx_ial = Num 2,
             tx_status = Some ''accept'', tx_signature = Some ''sig'',
             tx_identity_proof = Some ''bc1bc2'',
             tx_private_proof_hash = Some ''#pc1pc2''\<rparr>)]"
  by (simp add: createIdpResponse_def prepareResponse_def generateProofs_def
        dataToBlockchain3_def privateProofObject_of_def samePadding_def
        sendPrivateProofToRP_def env_accept_def
        store_r1c_def store_r1_def store_empty_def request_r1_def response_r1_def
        empty_message_def)

text \<open>
  The staged response for \<open>r1\<close> on a ledger that accepts it.
\<close>

theorem private_proof_only_hashed_on_ledger_witness:
  "getRequest env_accept (rd_request_id response_r1) = Some \<lparr>lr_mode = 3\<rparr>
   \<and> fst (createIdpResponse env_accept store_r1c (Some response_r1)) = Inr ()
   \<and> filter is_ledger_tx (snd (snd (createIdpResponse env_accept store_r1c (Some response_r1))))
       = [LedgerCreateIdpResponse (Some
            \<lparr>tx_request_id = ''r1'', tx_aal = Num 1, tx_ial = Num 2,
             tx_status = Some ''accept'', tx_signature = Some ''sig'',
             tx_identity_proof = Some ''bc1bc2'',
             tx_private_proof_hash = Some ''#pc1pc2''\<rparr>)]"
proof -
  have g: "getRequest env_accept (rd_request_id response_r1) = Some \<lparr>lr_mode = 3\<rparr>"
    by (simp add: env_accept_def)
  have m: "lr_mode \<lparr>lr_mode = 3\<rparr> = 3" by simp
  note t = private_proof_only_hashed_on_ledger [OF g m, of store_r1c]
  from t createIdpResponse_r1c_ok
  obtain aid sec proofs where a: "rd_accessor_id response_r1 = Some aid"
      "rd_secret response_r1 = Some sec"
      "generateProofs env_accept store_r1c (rd_request_id response_r1) aid sec = Inr proofs"
      "filter is_ledger_tx (snd (snd (createIdpResponse env_accept store_r1c (Some response_r1))))
               = [LedgerCreateIdpResponse (Some
                    \<lparr>tx_request_id = rd_request_id response_r1,
                     tx_aal = rd_aal response_r1,
                     tx_ial = rd_ial response_r1,
                     tx_status = rd_status response_r1,
                     tx_signature = rd_signature response_r1,
                     tx_identity_proof = Some (stringify env_accept (map blockchainProof proofs)),
                     tx_private_proof_hash =
                       Some (hash env_accept (stringify env_accept (map privateProofValue_of proofs)))\<rparr>)]"
    by blast
  from a(1) a(2) have "aid = ''acc1''" "sec = ''sec''" by (simp_all add: response_r1_def)
  with a(3) generateProofs_r1c
  have "proofs = [\<lparr>blockchainProof = ''bc1'', privateProofValue_of = ''pc1'', padding_of = ''pad''\<rparr>,
            \<lparr>blockchainProof = ''bc2'', privateProofValue_of = ''pc2'', padding_of = ''pad''\<rparr>]"
    by (simp add: response_r1_def)
  with a(4) have "filter is_ledger_tx (snd (snd (createIdpResponse env_accept store_r1c (Some response_r1))))
       = [LedgerCreateIdpResponse (Some
            \<lparr>tx_request_id = ''r1'', tx_aal = Num 1, tx_ial = Num 2,
             tx_status = Some ''accept'', tx_signature = Some ''sig'',
             tx_identity_proof = Some ''bc1bc2'',
             tx_private_proof_hash = Some ''#pc1pc2''\<rparr>)]"
    by (simp add: response_r1_def env_accept_def)
  with g createIdpResponse_r1c_ok show ?thesis by blast
qed

section \<open>When the stored state is removed\<close>

text \<open>
  Claim C6, amended. A run of \<open>createIdpResponse\<close> that fails before the response is
  built changes nothing. Every other run, in any mode, removes the stored request and the
  staged response data first and submits the response transaction right after, so the
  two removals come before the submission in the trace, and both entries are gone at the
  end whether the ledger accepts the transaction or rejects it.
\<close>

theorem state_removed_before_submission:
  "(snd (snd (createIdpResponse env s d)) = []
      \<and> fst (snd (createIdpResponse env s d)) = s
      \<and> fst (createIdpResponse env s d) \<noteq> Inr ())
   \<or> (\<exists>data tx rest.
         d = Some data
       \<and> snd (snd (createIdpResponse env s d))
           = DbRemove RequestReceivedFromMQ (rd_request_id data)
             # DbRemove ResponseFromRequestId (rd_request_id data)
             # LedgerCreateIdpResponse tx # rest
       \<and> filter is_ledger_tx rest = []
       \<and> requestReceivedFromMQ (fst (snd (createIdpResponse env s d))) (rd_request_id data) = None
       \<and> responseFromRequestId (fst (snd (createIdpResponse env s d))) (rd_request_id data) = None
       \<and> (fst (createIdpResponse env s d) = Inr ()) = (ledger_createIdpResponse env tx \<noteq> None))"
proof (cases "prepareResponse env s d")
  case (Inl e)
  then have "createIdpResponse env s d = (Inl (CannotCreateIdpResponse e), s, [])"
    by (rule createIdpResponse_failed_early)
  then show ?thesis by simp
next
  case (Inr triple)
  obtain rid tx ppo where "triple = (rid, tx, ppo)" by (cases triple)
  with Inr have prep: "prepareResponse env s d = Inr (rid, tx, ppo)" by simp
  from prepareResponse_rid [OF prep] obtain data where d: "d = Some data" "rid = rd_request_id data"
    by blast
  define s1 where "s1 = s\<lparr>requestReceivedFromMQ := (requestReceivedFromMQ s)(rid := None),
               responseFromRequestId := (responseFromRequestId s)(rid := None)\<rparr>"
  define rest where "rest = (case ledger_createIdpResponse env tx of
                   None \<Rightarrow> []
                 | Some h \<Rightarrow> snd (sendPrivateProofToRP env s1 rid ppo h))"
  have ev: "snd (snd (createIdpResponse env s d))
      = DbRemove RequestReceivedFromMQ rid # DbRemove ResponseFromRequestId rid
              # LedgerCreateIdpResponse tx # rest"
    unfolding rest_def s1_def by (rule createIdpResponse_prepared(1) [OF prep])
  have noledger: "filter is_ledger_tx rest = []"
    by (simp add: rest_def sendPrivateProofToRP_trace split: option.splits)
  from d ev noledger createIdpResponse_prepared(2) [OF prep] createIdpResponse_prepared(3) [OF prep]
    createIdpResponse_prepared(4) [OF prep]
  show ?thesis by blast
qed

text \<open>
  Claim C6 as stated fails: on a ledger that rejects the response transaction, in mode 3
  and in mode 1, both entries for \<open>r1\<close> are removed although no transaction was confirmed.
\<close>

theorem state_removed_without_confirmation:
  "requestReceivedFromMQ store_r1c ''r1'' \<noteq> None
   \<and> responseFromRequestId store_r1c ''r1'' \<noteq> None
   \<and> createIdpResponse env_reject store_r1c (Some response_r1)
       = (Inl (CannotCreateIdpResponse LedgerRejected),
          store_r1c\<lparr>requestReceivedFromMQ := Map.empty, responseFromRequestId := Map.empty\<rparr>,
          [DbRemove RequestReceivedFromMQ ''r1'', DbRemove ResponseFromRequestId ''r1'',
           LedgerCreateIdpResponse (Some
             \<lparr>tx_request_id = ''r1'', tx_aal = Num 1, tx_ial = Num 2,
              tx_status = Some ''accept'', tx_signature = Some ''sig'',
              tx_identity_proof = Some ''bc1bc2'',
              tx_private_proof_hash = Some ''#pc1pc2''\<rparr>)])
   \<and> createIdpResponse env_reject_mode1 store_r1c (Some response_r1)
       = (Inl (CannotCreateIdpResponse LedgerRejected),
          store_r1c\<lparr>requestReceivedFromMQ := Map.empty, responseFromRequestId := Map.empty\<rparr>,
          [DbRemove RequestReceivedFromMQ ''r1'', DbRemove ResponseFromRequestId ''r1'',
           LedgerCreateIdpResponse (Some
             \<lparr>tx_request_id = ''r1'', tx_aal = Num 1, tx_ial = Num 2,
              tx_status = Some ''accept'', tx_signature = Some ''sig'',
              tx_identity_proof = None, tx_private_proof_hash = None\<rparr>)])"
  by (simp add: createIdpResponse_def prepareResponse_def generateProofs_def
        dataToBlockchain3_def dataToBlockchain1_def privateProofObject_of_def samePadding_def
        env_reject_mode1_def env_reject_def env_accept_def
        store_r1c_def store_r1_def store_empty_def request_r1_def response_r1_def
        empty_message_def fun_eq_iff)

text \<open>
  The same response on a ledger that accepts it.
\<close>

theorem state_removed_before_submission_witness:
  "fst (createIdpResponse env_accept store_r1c (Some response_r1)) = Inr ()
   \<and> (\<exists>tx rest. snd (snd (createIdpResponse env_accept store_r1c (Some response_r1)))
           = DbRemove RequestReceivedFromMQ ''r1'' # DbRemove ResponseFromRequestId ''r1''
             # LedgerCreateIdpResponse tx # rest)
   \<and> requestReceivedFromMQ
        (fst (snd (createIdpResponse env_accept store_r1c (Some response_r1)))) ''r1'' = None"
  using state_removed_before_submission [of env_accept store_r1c "Some response_r1"]
    createIdpResponse_r1c_ok
  by (auto simp: response_r1_def)

section \<open>A saved message and the block headers\<close>

lemma count_in_window:
  assumes "filter (\<lambda>e. snd e = rid) xs = [(H, rid)]"
  shows "count_list (map snd (filter P xs)) rid = (if P (H, rid) then 1 else 0)"
proof -
  have "count_list (map snd (filter P xs)) rid = length (filter (\<lambda>e. snd e = rid) (filter P xs))"
    by (induction xs) auto
  also have "\<dots> = length (filter P (filter (\<lambda>e. snd e = rid) xs))"
    by (simp add: conj_commute)
  also have "\<dots> = (if P (H, rid) then 1 else 0)"
    using assms by simp
  finally show ?thesis .
qed

lemma only_entry:
  assumes "filter (\<lambda>e. snd e = rid) xs = [(H, rid)]"
  shows "(H, rid) \<in> set xs" and "e \<in> set xs \<Longrightarrow> snd e = rid \<Longrightarrow> e = (H, rid)"
proof -
  have "(H, rid) \<in> set (filter (\<lambda>e. snd e = rid) xs)" using assms by simp
  then show "(H, rid) \<in> set xs" by simp
  assume "e \<in> set xs" "snd e = rid"
  then have "e \<in> set (filter (\<lambda>e. snd e = rid) xs)" by simp
  with assms show "e = (H, rid)" by simp
qed

lemma header_replays_saved:
  assumes tp: "requestToProcessReceivedFromMQ t (request_id M) = Some M"
    and only: "filter (\<lambda>e. snd e = request_id M) (requestIdsExpectedInBlock t) = [(H, request_id M)]"
    and win: "fromHeight h m \<le> H" "H < h"
  shows "count_list (processed_ids (snd (snd (handleTendermintNewBlockHeaderEvent env t h m))))
           (request_id M) = 1"
    and "handler_of M \<in> set (dispatched (snd (snd (handleTendermintNewBlockHeaderEvent env t h m))))"
    and "requestToProcessReceivedFromMQ
           (fst (snd (handleTendermintNewBlockHeaderEvent env t h m))) (request_id M) = None"
    and "fst (handleTendermintNewBlockHeaderEvent env t h m) = Inr () \<Longrightarrow>
         request_id M \<notin> snd ` set (requestIdsExpectedInBlock
           (fst (snd (handleTendermintNewBlockHeaderEvent env t h m))))"
proof -
  let ?W = "getRequestIdsExpectedInBlock t (fromHeight h m) (toHeight h)"
  have inr: "in_range (fromHeight h m) (toHeight h) (H, request_id M)"
    using win by (simp add: in_range_def toHeight_def)
  have c: "count_list ?W (request_id M) = 1"
    using count_in_window [OF only, of "in_range (fromHeight h m) (toHeight h)"] inr
    by (simp add: getRequestIdsExpectedInBlock_def)
  then show "count_list (processed_ids (snd (snd (handleTendermintNewBlockHeaderEvent env t h m))))
           (request_id M) = 1"
    by (simp add: header_processed)
  from c have mem: "request_id M \<in> set ?W"
    by (metis count_list_0_iff zero_neq_one)
  from mem tp show "handler_of M
      \<in> set (dispatched (snd (snd (handleTendermintNewBlockHeaderEvent env t h m))))"
    by (rule header_dispatches_found)
  from mem show "requestToProcessReceivedFromMQ
           (fst (snd (handleTendermintNewBlockHeaderEvent env t h m))) (request_id M) = None"
    by (simp add: header_to_process)
  assume ok: "fst (handleTendermintNewBlockHeaderEvent env t h m) = Inr ()"
  show "request_id M \<notin> snd ` set (requestIdsExpectedInBlock
           (fst (snd (handleTendermintNewBlockHeaderEvent env t h m))))"
  proof
    assume "request_id M \<in> snd ` set (requestIdsExpectedInBlock
           (fst (snd (handleTendermintNewBlockHeaderEvent env t h m))))"
    then obtain e where e: "e \<in> set (requestIdsExpectedInBlock
           (fst (snd (handleTendermintNewBlockHeaderEvent env t h m))))" "snd e = request_id M"
      by auto
    from e(1) ok have "e \<in> set (requestIdsExpectedInBlock t)"
      and out: "\<not> in_range (fromHeight h m) (toHeight h) e"
      by (simp_all add: header_expected)
    with e(2) only_entry(2) [OF only] have "e = (H, request_id M)" by blast
    with out inr show False by simp
  qed
qed

lemma header_skips_saved:
  assumes tp: "requestToProcessReceivedFromMQ t (request_id M) = Some M"
    and only: "filter (\<lambda>e. snd e = request_id M) (requestIdsExpectedInBlock t) = [(H, request_id M)]"
    and win: "\<not> (fromHeight h m \<le> H \<and> H < h)"
  shows "request_id M \<notin> set (processed_ids (snd (snd (handleTendermintNewBlockHeaderEvent env t h m))))"
    and "requestToProcessReceivedFromMQ
           (fst (snd (handleTendermintNewBlockHeaderEvent env t h m))) (request_id M) = Some M"
    and "(H, request_id M) \<in> set (requestIdsExpectedInBlock
           (fst (snd (handleTendermintNewBlockHeaderEvent env t h m))))"
proof -
  let ?W = "getRequestIdsExpectedInBlock t (fromHeight h m) (toHeight h)"
  have out: "\<not> in_range (fromHeight h m) (toHeight h) (H, request_id M)"
    using win by (simp add: in_range_def toHeight_def)
  have c: "count_list ?W (request_id M) = 0"
    using count_in_window [OF only, of "in_range (fromHeight h m) (toHeight h)"] out
    by (simp add: getRequestIdsExpectedInBlock_def)
  then have nmem: "request_id M \<notin> set ?W"
    by (simp add: count_list_0_iff)
  then show "request_id M
      \<notin> set (processed_ids (snd (snd (handleTendermintNewBlockHeaderEvent env t h m))))"
    by (simp add: header_processed)
  from nmem tp show "requestToProcessReceivedFromMQ
           (fst (snd (handleTendermintNewBlockHeaderEvent env t h m))) (request_id M) = Some M"
    by (simp add: header_to_process)
  from only_entry(1) [OF only] out
  show "(H, request_id M) \<in> set (requestIdsExpectedInBlock
           (fst (snd (handleTendermintNewBlockHeaderEvent env t h m))))"
    by (simp add: header_expected)
qed

text \<open>
  Claim C1, amended. Let \<open>M\<close> be a message without a challenge, tagged \<open>H\<close>. Handled while
  the ledger height is at most \<open>H\<close>, it is only stored: the trace has store writes only,
  \<open>M\<close> waits under its request id and \<open>(H, request_id M)\<close> is appended to the expected
  list. Handled at a ledger height above \<open>H\<close>, it is dispatched once, at once, and does
  not wait. The store keeps one waiting message for a request id, so the statement about
  block headers is for a store where \<open>M\<close> is the message that waits under its request id
  and \<open>(H, request_id M)\<close> is the only entry of that request id in the list. On such a
  store a block header at height \<open>h\<close> takes the request id of \<open>M\<close> only when \<open>H < h\<close>, and
  at most once. When no header was missed (the header for height \<open>H + 1\<close> with missing
  count 0) or no header was seen before (missing count null, \<open>1 \<le> H < h\<close>), it takes the
  request id once, dispatches \<open>M\<close>, and the entry is purged when the handler completes.
  On any store, what a block header dispatches is, for each entry of its window in turn,
  the message that waits under the request id of the entry, whatever height that message
  is tagged with. What a header that reports missed headers replays is not part of this
  statement.
\<close>

theorem saved_until_replayed:
  assumes "challenge M = None" and "height M = Some H"
  shows "(L \<le> H \<longrightarrow>
            fst (handleMessageFromQueue env L s M) = Inr ()
          \<and> list_all is_db_event (snd (snd (handleMessageFromQueue env L s M)))
          \<and> dispatched (snd (snd (handleMessageFromQueue env L s M))) = []
          \<and> requestToProcessReceivedFromMQ (fst (snd (handleMessageFromQueue env L s M)))
              (request_id M) = Some M
          \<and> requestIdsExpectedInBlock (fst (snd (handleMessageFromQueue env L s M)))
              = requestIdsExpectedInBlock s @ [(H, request_id M)])
    \<and> (H < L \<longrightarrow>
            dispatched (snd (snd (handleMessageFromQueue env L s M))) = [handler_of M]
          \<and> requestToProcessReceivedFromMQ (fst (snd (handleMessageFromQueue env L s M)))
              (request_id M) = None
          \<and> requestIdsExpectedInBlock (fst (snd (handleMessageFromQueue env L s M)))
              = requestIdsExpectedInBlock s)
    \<and> (requestToProcessReceivedFromMQ t (request_id M) = Some M
         \<and> filter (\<lambda>e. snd e = request_id M) (requestIdsExpectedInBlock t) = [(H, request_id M)] \<longrightarrow>
           (request_id M
              \<in> set (processed_ids (snd (snd (handleTendermintNewBlockHeaderEvent env t h m)))) \<longrightarrow>
            H < h)
         \<and> count_list (processed_ids (snd (snd (handleTendermintNewBlockHeaderEvent env t h m))))
              (request_id M) \<le> 1
         \<and> (H < h \<and> (m = None \<and> 1 \<le> H \<or> m = Some 0 \<and> h = H + 1) \<longrightarrow>
               count_list (processed_ids (snd (snd (handleTendermintNewBlockHeaderEvent env t h m))))
                 (request_id M) = 1
             \<and> handler_of M
                 \<in> set (dispatched (snd (snd (handleTendermintNewBlockHeaderEvent env t h m))))
             \<and> requestToProcessReceivedFromMQ
                 (fst (snd (handleTendermintNewBlockHeaderEvent env t h m))) (request_id M) = None
             \<and> (fst (handleTendermintNewBlockHeaderEvent env t h m) = Inr () \<longrightarrow>
                  request_id M \<notin> snd ` set (requestIdsExpectedInBlock
                    (fst (snd (handleTendermintNewBlockHeaderEvent env t h m)))))))
    \<and> dispatched (snd (snd (handleTendermintNewBlockHeaderEvent env t h m)))
        = map handler_of (List.map_filter (requestToProcessReceivedFromMQ t)
            (map snd (filter (\<lambda>e. fromHeight h m \<le> fst e \<and> fst e \<le> h - 1)
                       (requestIdsExpectedInBlock t))))"
proof -
  let ?hev = "snd (snd (handleTendermintNewBlockHeaderEvent env t h m))"
  have saved: "L \<le> H \<longrightarrow>
            fst (handleMessageFromQueue env L s M) = Inr ()
          \<and> list_all is_db_event (snd (snd (handleMessageFromQueue env L s M)))
          \<and> dispatched (snd (snd (handleMessageFromQueue env L s M))) = []
          \<and> requestToProcessReceivedFromMQ (fst (snd (handleMessageFromQueue env L s M)))
              (request_id M) = Some M
          \<and> requestIdsExpectedInBlock (fst (snd (handleMessageFromQueue env L s M)))
              = requestIdsExpectedInBlock s @ [(H, request_id M)]"
    using handle_saved [OF assms, of L env s] dispatched_db_events by blast
  have at_once: "H < L \<longrightarrow>
            dispatched (snd (snd (handleMessageFromQueue env L s M))) = [handler_of M]
          \<and> requestToProcessReceivedFromMQ (fst (snd (handleMessageFromQueue env L s M)))
              (request_id M) = None
          \<and> requestIdsExpectedInBlock (fst (snd (handleMessageFromQueue env L s M)))
              = requestIdsExpectedInBlock s"
    using handle_dispatched_at_once [OF assms, of L env s] by blast
  have header: "requestToProcessReceivedFromMQ t (request_id M) = Some M
         \<and> filter (\<lambda>e. snd e = request_id M) (requestIdsExpectedInBlock t) = [(H, request_id M)] \<longrightarrow>
           (request_id M \<in> set (processed_ids ?hev) \<longrightarrow> H < h)
         \<and> count_list (processed_ids ?hev) (request_id M) \<le> 1
         \<and> (H < h \<and> (m = None \<and> 1 \<le> H \<or> m = Some 0 \<and> h = H + 1) \<longrightarrow>
               count_list (processed_ids ?hev) (request_id M) = 1
             \<and> handler_of M \<in> set (dispatched ?hev)
             \<and> requestToProcessReceivedFromMQ
                 (fst (snd (handleTendermintNewBlockHeaderEvent env t h m))) (request_id M) = None
             \<and> (fst (handleTendermintNewBlockHeaderEvent env t h m) = Inr () \<longrightarrow>
                  request_id M \<notin> snd ` set (requestIdsExpectedInBlock
                    (fst (snd (handleTendermintNewBlockHeaderEvent env t h m))))))"
  proof (intro impI, elim conjE)
    assume tp: "requestToProcessReceivedFromMQ t (request_id M) = Some M"
      and only: "filter (\<lambda>e. snd e = request_id M) (requestIdsExpectedInBlock t)
                   = [(H, request_id M)]"
    have safe: "H < h" if "request_id M \<in> set (processed_ids ?hev)"
    proof (rule ccontr)
      assume "\<not> H < h"
      then have "\<not> (fromHeight h m \<le> H \<and> H < h)" by simp
      from header_skips_saved(1) [OF tp only this, of env] that show False by simp
    qed
    have once: "count_list (processed_ids ?hev) (request_id M) \<le> 1"
    proof (cases "fromHeight h m \<le> H \<and> H < h")
      case True
      then have "fromHeight h m \<le> H" "H < h" by simp_all
      from header_replays_saved(1) [OF tp only this, of env] show ?thesis by simp
    next
      case False
      from header_skips_saved(1) [OF tp only False, of env] show ?thesis
        by (simp add: count_list_0_iff)
    qed
    have live: "count_list (processed_ids ?hev) (request_id M) = 1
             \<and> handler_of M \<in> set (dispatched ?hev)
             \<and> requestToProcessReceivedFromMQ
                 (fst (snd (handleTendermintNewBlockHeaderEvent env t h m))) (request_id M) = None
             \<and> (fst (handleTendermintNewBlockHeaderEvent env t h m) = Inr () \<longrightarrow>
                  request_id M \<notin> snd ` set (requestIdsExpectedInBlock
                    (fst (snd (handleTendermintNewBlockHeaderEvent env t h m)))))"
      if lt: "H < h" and nogap: "m = None \<and> 1 \<le> H \<or> m = Some 0 \<and> h = H + 1"
    proof -
      from nogap have w: "fromHeight h m \<le> H" by (auto simp: fromHeight_def)
      from header_replays_saved [OF tp only w lt, of env] show ?thesis by blast
    qed
    show "(request_id M \<in> set (processed_ids ?hev) \<longrightarrow> H < h)
         \<and> count_list (processed_ids ?hev) (request_id M) \<le> 1
         \<and> (H < h \<and> (m = None \<and> 1 \<le> H \<or> m = Some 0 \<and> h = H + 1) \<longrightarrow>
               count_list (processed_ids ?hev) (request_id M) = 1
             \<and> handler_of M \<in> set (dispatched ?hev)
             \<and> requestToProcessReceivedFromMQ
                 (fst (snd (handleTendermintNewBlockHeaderEvent env t h m))) (request_id M) = None
             \<and> (fst (handleTendermintNewBlockHeaderEvent env t h m) = Inr () \<longrightarrow>
                  request_id M \<notin> snd ` set (requestIdsExpectedInBlock
                    (fst (snd (handleTendermintNewBlockHeaderEvent env t h m))))))"
    proof (intro conjI)
      show "request_id M \<in> set (processed_ids ?hev) \<longrightarrow> H < h"
        using safe by blast
      show "count_list (processed_ids ?hev) (request_id M) \<le> 1"
        by (rule once)
      show "H < h \<and> (m = None \<and> 1 \<le> H \<or> m = Some 0 \<and> h = H + 1) \<longrightarrow>
               count_list (processed_ids ?hev) (request_id M) = 1
             \<and> handler_of M \<in> set (dispatched ?hev)
             \<and> requestToProcessReceivedFromMQ
                 (fst (snd (handleTendermintNewBlockHeaderEvent env t h m))) (request_id M) = None
             \<and> (fst (handleTendermintNewBlockHeaderEvent env t h m) = Inr () \<longrightarrow>
                  request_id M \<notin> snd ` set (requestIdsExpectedInBlock
                    (fst (snd (handleTendermintNewBlockHeaderEvent env t h m)))))"
      proof (intro impI, elim conjE)
        assume "H < h" and "m = None \<and> 1 \<le> H \<or> m = Some 0 \<and> h = H + 1"
        then show "count_list (processed_ids ?hev) (request_id M) = 1
             \<and> handler_of M \<in> set (dispatched ?hev)
             \<and> requestToProcessReceivedFromMQ
                 (fst (snd (handleTendermintNewBlockHeaderEvent env t h m))) (request_id M) = None
             \<and> (fst (handleTendermintNewBlockHeaderEvent env t h m) = Inr () \<longrightarrow>
                  request_id M \<notin> snd ` set (requestIdsExpectedInBlock
                    (fst (snd (handleTendermintNewBlockHeaderEvent env t h m)))))"
          by (rule live)
      qed
    qed
  qed
  have each: "dispatched ?hev
        = map handler_of (List.map_filter (requestToProcessReceivedFromMQ t)
            (map snd (filter (\<lambda>e. fromHeight h m \<le> fst e \<and> fst e \<le> h - 1)
                       (requestIdsExpectedInBlock t))))"
    using header_dispatched [of env t h m]
    by (simp add: getRequestIdsExpectedInBlock_def in_range_def [abs_def] toHeight_def)
  show ?thesis
    by (intro conjI) (rule saved, rule at_once, rule header, rule each)
qed

lemma saved_100_facts:
  "requestToProcessReceivedFromMQ saved_100 ''r1'' = Some message_100"
  "requestIdsExpectedInBlock saved_100 = [(100, ''r1'')]"
proof -
  have c: "challenge message_100 = None" and h: "height message_100 = Some 100"
    and r: "request_id message_100 = ''r1''"
    by (simp_all add: message_100_def empty_message_def)
  have le: "(99::int) \<le> 100" by simp
  from handle_saved(3) [OF c h le, of env_accept store_empty] r
  show "requestToProcessReceivedFromMQ saved_100 ''r1'' = Some message_100"
    by (simp add: saved_100_def)
  from handle_saved(4) [OF c h le, of env_accept store_empty] r
  show "requestIdsExpectedInBlock saved_100 = [(100, ''r1'')]"
    by (simp add: saved_100_def store_empty_def)
qed

text \<open>
  The message tagged 100: saved at height 99, dispatched at once at height 101, replayed
  once by the header for height 101, not taken by the header for height 100.
\<close>

theorem saved_until_replayed_witness:
  "challenge message_100 = None \<and> height message_100 = Some 100
   \<and> dispatched (snd (snd (handleMessageFromQueue env_accept 99 store_empty message_100))) = []
   \<and> dispatched (snd (snd (handleMessageFromQueue env_accept 101 store_empty message_100)))
       = [ConsentRequest message_100]
   \<and> ConsentRequest message_100
       \<in> set (dispatched (snd (snd (handleTendermintNewBlockHeaderEvent env_accept saved_100 101 (Some 0)))))
   \<and> count_list (processed_ids
        (snd (snd (handleTendermintNewBlockHeaderEvent env_accept saved_100 101 (Some 0))))) ''r1'' = 1
   \<and> ''r1'' \<notin> set (processed_ids
        (snd (snd (handleTendermintNewBlockHeaderEvent env_accept saved_100 100 (Some 0)))))"
proof -
  have c: "challenge message_100 = None" and h: "height message_100 = Some 100"
    and r: "request_id message_100 = ''r1''"
    by (simp_all add: message_100_def empty_message_def)
  have ho: "handler_of message_100 = ConsentRequest message_100"
    by (simp add: handler_of_def message_100_def empty_message_def truthy_str_def)
  have only: "filter (\<lambda>e. snd e = request_id message_100) (requestIdsExpectedInBlock saved_100)
      = [(100, request_id message_100)]"
    by (simp add: saved_100_facts r)
  have tp: "requestToProcessReceivedFromMQ saved_100 (request_id message_100) = Some message_100"
    by (simp add: saved_100_facts r)
  note a = saved_until_replayed [OF c h, of 99 env_accept store_empty saved_100 101 "Some 0"]
  note b = saved_until_replayed [OF c h, of 101 env_accept store_empty saved_100 100 "Some 0"]
  from a have 1: "dispatched (snd (snd (handleMessageFromQueue env_accept 99 store_empty message_100))) = []"
    by simp
  from b ho have 2: "dispatched (snd (snd (handleMessageFromQueue env_accept 101 store_empty message_100)))
       = [ConsentRequest message_100]"
    by simp
  have nogap: "(100::int) < 101
      \<and> ((Some 0 :: int option) = None \<and> (1::int) \<le> 100 \<or> (Some 0 :: int option) = Some 0 \<and> (101::int) = 100 + 1)"
    by simp
  from a tp only nogap have live: "count_list (processed_ids
        (snd (snd (handleTendermintNewBlockHeaderEvent env_accept saved_100 101 (Some 0)))))
          (request_id message_100) = 1
      \<and> handler_of message_100
       \<in> set (dispatched (snd (snd (handleTendermintNewBlockHeaderEvent env_accept saved_100 101 (Some 0)))))"
    by blast
  from live ho have 3: "ConsentRequest message_100
       \<in> set (dispatched (snd (snd (handleTendermintNewBlockHeaderEvent env_accept saved_100 101 (Some 0)))))"
    by simp
  from live r have 4: "count_list (processed_ids
        (snd (snd (handleTendermintNewBlockHeaderEvent env_accept saved_100 101 (Some 0))))) ''r1'' = 1"
    by simp
  from b tp only have "request_id message_100 \<in> set (processed_ids
        (snd (snd (handleTendermintNewBlockHeaderEvent env_accept saved_100 100 (Some 0)))))
      \<longrightarrow> (100::int) < 100"
    by blast
  with r have 5: "''r1'' \<notin> set (processed_ids
        (snd (snd (handleTendermintNewBlockHeaderEvent env_accept saved_100 100 (Some 0)))))"
    by auto
  from c h 1 2 3 4 5 show ?thesis by blast
qed

lemma after_102_same: "after_102 = saved_100"
proof -
  have w: "getRequestIdsExpectedInBlock saved_100 (fromHeight 102 (Some 1)) (toHeight 102) = []"
    by (simp add: getRequestIdsExpectedInBlock_def in_range_def fromHeight_def toHeight_def
          saved_100_facts)
  show ?thesis
    unfolding after_102_def using header_nothing_in_window [OF w, of env_accept] by simp
qed

lemma saved_100_200_facts:
  "requestToProcessReceivedFromMQ saved_100_200 ''r1'' = Some message_200"
  "requestIdsExpectedInBlock saved_100_200 = [(100, ''r1''), (200, ''r1'')]"
proof -
  have c: "challenge message_200 = None" and h: "height message_200 = Some 200"
    and r: "request_id message_200 = ''r1''"
    by (simp_all add: message_200_def message_100_def empty_message_def)
  have le: "(99::int) \<le> 200" by simp
  from handle_saved(3) [OF c h le, of env_accept saved_100] r
  show "requestToProcessReceivedFromMQ saved_100_200 ''r1'' = Some message_200"
    by (simp add: saved_100_200_def)
  from handle_saved(4) [OF c h le, of env_accept saved_100] r
  show "requestIdsExpectedInBlock saved_100_200 = [(100, ''r1''), (200, ''r1'')]"
    by (simp add: saved_100_200_def saved_100_facts)
qed

lemma after_101_facts:
  "requestToProcessReceivedFromMQ after_101 ''r1'' = None"
  "requestIdsExpectedInBlock after_101 = [(200, ''r1'')]"
proof -
  have w: "getRequestIdsExpectedInBlock saved_100_200 (fromHeight 101 (Some 0)) (toHeight 101)
             = [''r1'']"
    by (simp add: getRequestIdsExpectedInBlock_def in_range_def fromHeight_def toHeight_def
          saved_100_200_facts)
  show "requestToProcessReceivedFromMQ after_101 ''r1'' = None"
    by (simp add: after_101_def header_to_process w)
  have "list_all (callback_completes env_accept saved_100_200) [''r1'']"
    by (simp add: callback_completes_def saved_100_200_facts env_accept_def)
  then have "fst (handleTendermintNewBlockHeaderEvent env_accept saved_100_200 101 (Some 0)) = Inr ()"
    by (simp add: header_completes w)
  then show "requestIdsExpectedInBlock after_101 = [(200, ''r1'')]"
    by (simp add: after_101_def header_expected saved_100_200_facts in_range_def fromHeight_def
          toHeight_def)
qed

text \<open>
  Claim C1 as stated fails three times. The message tagged 100 and saved at ledger height
  99 is dispatched neither by the header for height 102 with one missing header nor by the
  next header for height 103, and still waits. A challenge message tagged 100 that arrives
  at ledger height 99 makes the node submit the response transaction. And when a second
  message for the same request id, tagged 200, is saved after the message tagged 100, the
  header for height 101 dispatches the message tagged 200, the header for height 201 finds
  no message and fails, and the message tagged 100 is never dispatched.
\<close>

theorem dispatch_once_counterexample:
  "height message_100 = Some 100 \<and> challenge message_100 = None
   \<and> dispatched (snd (snd (handleMessageFromQueue env_accept 99 store_empty message_100))) = []
   \<and> handleTendermintNewBlockHeaderEvent env_accept saved_100 102 (Some 1)
       = (Inr (), saved_100, [DbRemoveExpected 101 101])
   \<and> handleTendermintNewBlockHeaderEvent env_accept after_102 103 (Some 0)
       = (Inr (), saved_100, [DbRemoveExpected 102 102])
   \<and> requestToProcessReceivedFromMQ saved_100 ''r1'' = Some message_100
   \<and> height challenge_r1 = Some 100
   \<and> filter is_ledger_tx (snd (snd (handleMessageFromQueue env_accept 99 store_r1 challenge_r1)))
       = [LedgerCreateIdpResponse (Some
            \<lparr>tx_request_id = ''r1'', tx_aal = Num 1, tx_ial = Num 2,
             tx_status = Some ''accept'', tx_signature = Some ''sig'',
             tx_identity_proof = Some ''bc1bc2'',
             tx_private_proof_hash = Some ''#pc1pc2''\<rparr>)]
   \<and> height message_200 = Some 200 \<and> challenge message_200 = None
   \<and> request_id message_200 = request_id message_100
   \<and> dispatched (snd (snd (handleMessageFromQueue env_accept 99 saved_100 message_200))) = []
   \<and> dispatched (snd (snd (handleTendermintNewBlockHeaderEvent env_accept saved_100_200 101 (Some 0))))
       = [ConsentRequest message_200]
   \<and> fst (handleTendermintNewBlockHeaderEvent env_accept after_101 201 (Some 0)) = Inl TypeError
   \<and> dispatched (snd (snd (handleTendermintNewBlockHeaderEvent env_accept after_101 201 (Some 0))))
       = []"
proof -
  have c: "challenge message_100 = None" and h: "height message_100 = Some 100"
    by (simp_all add: message_100_def empty_message_def)
  have le: "(99::int) \<le> 100" by simp
  have c2: "challenge message_200 = None" and h2: "height message_200 = Some 200"
    and r2: "request_id message_200 = request_id message_100"
    by (simp_all add: message_200_def message_100_def empty_message_def)
  have le2: "(99::int) \<le> 200" by simp
  have 6: "dispatched (snd (snd (handleMessageFromQueue env_accept 99 saved_100 message_200))) = []"
    using handle_saved(2) [OF c2 h2 le2, of env_accept saved_100] by (rule dispatched_db_events)
  have w101: "getRequestIdsExpectedInBlock saved_100_200 (fromHeight 101 (Some 0)) (toHeight 101)
             = [''r1'']"
    by (simp add: getRequestIdsExpectedInBlock_def in_range_def fromHeight_def toHeight_def
          saved_100_200_facts)
  have ho2: "handler_of message_200 = ConsentRequest message_200"
    by (simp add: handler_of_def message_200_def message_100_def empty_message_def truthy_str_def)
  have 7: "dispatched (snd (snd (handleTendermintNewBlockHeaderEvent env_accept saved_100_200 101 (Some 0))))
       = [ConsentRequest message_200]"
    by (simp add: header_dispatched w101 List.map_filter_simps saved_100_200_facts ho2)
  have w201: "getRequestIdsExpectedInBlock after_101 (fromHeight 201 (Some 0)) (toHeight 201)
             = [''r1'']"
    by (simp add: getRequestIdsExpectedInBlock_def in_range_def fromHeight_def toHeight_def
          after_101_facts)
  have rej: "fst (processRequestIds env_accept after_101 [''r1'']) = Some TypeError"
    by (simp add: processRequestIds_def Let_def callback_def rejection_def after_101_facts)
  have 8: "fst (handleTendermintNewBlockHeaderEvent env_accept after_101 201 (Some 0)) = Inl TypeError"
    using rej by (auto simp: handleTendermintNewBlockHeaderEvent_def Let_def w201 split: prod.splits)
  have 9: "dispatched (snd (snd (handleTendermintNewBlockHeaderEvent env_accept after_101 201 (Some 0))))
       = []"
    by (simp add: header_dispatched w201 List.map_filter_simps after_101_facts)
  have 1: "dispatched (snd (snd (handleMessageFromQueue env_accept 99 store_empty message_100))) = []"
    using handle_saved(2) [OF c h le, of env_accept store_empty] by (rule dispatched_db_events)
  have w2: "getRequestIdsExpectedInBlock saved_100 (fromHeight 102 (Some 1)) (toHeight 102) = []"
    by (simp add: getRequestIdsExpectedInBlock_def in_range_def fromHeight_def toHeight_def
          saved_100_facts)
  have 2: "handleTendermintNewBlockHeaderEvent env_accept saved_100 102 (Some 1)
       = (Inr (), saved_100, [DbRemoveExpected 101 101])"
    using header_nothing_in_window [OF w2, of env_accept] by (simp add: fromHeight_def toHeight_def)
  have w3: "getRequestIdsExpectedInBlock saved_100 (fromHeight 103 (Some 0)) (toHeight 103) = []"
    by (simp add: getRequestIdsExpectedInBlock_def in_range_def fromHeight_def toHeight_def
          saved_100_facts)
  have 3: "handleTendermintNewBlockHeaderEvent env_accept after_102 103 (Some 0)
       = (Inr (), saved_100, [DbRemoveExpected 102 102])"
    using header_nothing_in_window [OF w3, of env_accept]
    by (simp add: after_102_same fromHeight_def toHeight_def)
  have hc: "height challenge_r1 = Some 100" by (simp add: challenge_r1_def)
  have cc: "challenge challenge_r1 = Some [''c1'', ''c2'']"
    and rr: "requestReceivedFromMQ store_r1 (request_id challenge_r1) = Some request_r1"
    by (simp_all add: challenge_r1_def store_r1_def empty_message_def)
  have st: "store_r1\<lparr>requestReceivedFromMQ := (requestReceivedFromMQ store_r1)
               (request_id challenge_r1 \<mapsto> request_r1\<lparr>challenge := Some [''c1'', ''c2'']\<rparr>)\<rparr>
            = store_r1c"
    by (simp add: store_r1c_def store_r1_def challenge_r1_def empty_message_def)
  have rs: "responseFromRequestId store_r1 (request_id challenge_r1) = Some response_r1"
    by (simp add: store_r1_def challenge_r1_def empty_message_def)
  have 4: "snd (snd (handleMessageFromQueue env_accept 99 store_r1 challenge_r1))
      = DbSet RequestReceivedFromMQ (request_id challenge_r1)
        # snd (snd (createIdpResponse env_accept store_r1c (Some response_r1)))"
    using handle_challenge_found [OF cc rr, of env_accept 99] by (simp add: st rs)
  from 4 createIdpResponse_r1c_ledger
  have 5: "filter is_ledger_tx (snd (snd (handleMessageFromQueue env_accept 99 store_r1 challenge_r1)))
       = [LedgerCreateIdpResponse (Some
            \<lparr>tx_request_id = ''r1'', tx_aal = Num 1, tx_ial = Num 2,
             tx_status = Some ''accept'', tx_signature = Some ''sig'',
             tx_identity_proof = Some ''bc1bc2'',
             tx_private_proof_hash = Some ''#pc1pc2''\<rparr>)]"
    by simp
  from c h 1 2 3 saved_100_facts(1) hc 5 h2 c2 r2 6 7 8 9 show ?thesis
    by (intro conjI)
qed

section \<open>The replay window\<close>

text \<open>
  Claim C2, amended. A new block header at height \<open>h\<close> with missing-header count \<open>m\<close> replays the
  window from \<open>fromHeight\<close> to \<open>h - 1\<close>: \<open>fromHeight\<close> is 1 when \<open>m\<close> is null, \<open>h - 1\<close> when
  \<open>m = 0\<close> and \<open>h - m\<close> otherwise. The request ids taken for processing are those stored
  with a height in the window, in the order of the list. Each of them is removed from the
  waiting messages, and the message that waited under it, if there was one, is dispatched
  to its protocol handler. The header handler completes exactly when every request id
  taken had a waiting message and no awaited protocol handler rejects; then the entries
  of the window are purged from the list, and otherwise the list is left as it was. A
  message tagged 100 that arrives at ledger height 99 is saved, and the header for height
  102 with missing count 1 replays the window from 101 to 101 only: it dispatches nothing
  and leaves the store as it is.
\<close>

theorem replay_window:
  "(fromHeight h None = 1 \<and> fromHeight h (Some 0) = h - 1
      \<and> (c \<noteq> 0 \<longrightarrow> fromHeight h (Some c) = h - c) \<and> toHeight h = h - 1)
   \<and> processed_ids (snd (snd (handleTendermintNewBlockHeaderEvent env s h m)))
       = map snd (filter (\<lambda>e. fromHeight h m \<le> fst e \<and> fst e \<le> h - 1)
                    (requestIdsExpectedInBlock s))
   \<and> dispatched (snd (snd (handleTendermintNewBlockHeaderEvent env s h m)))
       = map handler_of (List.map_filter (requestToProcessReceivedFromMQ s)
           (map snd (filter (\<lambda>e. fromHeight h m \<le> fst e \<and> fst e \<le> h - 1)
                      (requestIdsExpectedInBlock s))))
   \<and> requestToProcessReceivedFromMQ
         (fst (snd (handleTendermintNewBlockHeaderEvent env s h m))) rid
       = (if rid \<in> set (map snd (filter (\<lambda>e. fromHeight h m \<le> fst e \<and> fst e \<le> h - 1)
                                     (requestIdsExpectedInBlock s)))
          then None else requestToProcessReceivedFromMQ s rid)
   \<and> (fst (handleTendermintNewBlockHeaderEvent env s h m) = Inr ())
       = list_all (callback_completes env s)
           (map snd (filter (\<lambda>e. fromHeight h m \<le> fst e \<and> fst e \<le> h - 1)
                      (requestIdsExpectedInBlock s)))
   \<and> requestIdsExpectedInBlock (fst (snd (handleTendermintNewBlockHeaderEvent env s h m)))
       = (if list_all (callback_completes env s)
               (map snd (filter (\<lambda>e. fromHeight h m \<le> fst e \<and> fst e \<le> h - 1)
                          (requestIdsExpectedInBlock s)))
          then filter (\<lambda>e. \<not> (fromHeight h m \<le> fst e \<and> fst e \<le> h - 1))
                 (requestIdsExpectedInBlock s)
          else requestIdsExpectedInBlock s)
   \<and> (challenge M = None \<and> height M = Some 100 \<and> requestIdsExpectedInBlock s0 = [] \<longrightarrow>
        dispatched (snd (snd (handleMessageFromQueue env 99 s0 M))) = []
        \<and> requestIdsExpectedInBlock (fst (snd (handleMessageFromQueue env 99 s0 M)))
            = [(100, request_id M)]
        \<and> handleTendermintNewBlockHeaderEvent env
             (fst (snd (handleMessageFromQueue env 99 s0 M))) 102 (Some 1)
            = (Inr (), fst (snd (handleMessageFromQueue env 99 s0 M)), [DbRemoveExpected 101 101]))"
proof -
  let ?W = "map snd (filter (\<lambda>e. fromHeight h m \<le> fst e \<and> fst e \<le> h - 1)
                      (requestIdsExpectedInBlock s))"
  have W: "getRequestIdsExpectedInBlock s (fromHeight h m) (toHeight h) = ?W"
    by (simp add: getRequestIdsExpectedInBlock_def in_range_def [abs_def] toHeight_def)
  have w1: "fromHeight h None = 1" and w2: "fromHeight h (Some 0) = h - 1"
    and w3: "c \<noteq> 0 \<longrightarrow> fromHeight h (Some c) = h - c" and w4: "toHeight h = h - 1"
    by (simp_all add: fromHeight_def toHeight_def)
  have processed: "processed_ids (snd (snd (handleTendermintNewBlockHeaderEvent env s h m))) = ?W"
    using header_processed [of env s h m] by (simp only: W)
  have dispatches: "dispatched (snd (snd (handleTendermintNewBlockHeaderEvent env s h m)))
       = map handler_of (List.map_filter (requestToProcessReceivedFromMQ s) ?W)"
    using header_dispatched [of env s h m] by (simp only: W)
  have waiting: "requestToProcessReceivedFromMQ
         (fst (snd (handleTendermintNewBlockHeaderEvent env s h m))) rid
       = (if rid \<in> set ?W then None else requestToProcessReceivedFromMQ s rid)"
    using header_to_process [of env s h m rid] by (simp only: W)
  have completes: "(fst (handleTendermintNewBlockHeaderEvent env s h m) = Inr ())
       = list_all (callback_completes env s) ?W"
    using header_completes [of env s h m] by (simp only: W)
  have purged: "requestIdsExpectedInBlock (fst (snd (handleTendermintNewBlockHeaderEvent env s h m)))
       = (if list_all (callback_completes env s) ?W
          then filter (\<lambda>e. \<not> (fromHeight h m \<le> fst e \<and> fst e \<le> h - 1))
                 (requestIdsExpectedInBlock s)
          else requestIdsExpectedInBlock s)"
    using header_expected [of env s h m] completes
    by (simp add: in_range_def [abs_def] toHeight_def)
  have scenario: "challenge M = None \<and> height M = Some 100 \<and> requestIdsExpectedInBlock s0 = [] \<longrightarrow>
        dispatched (snd (snd (handleMessageFromQueue env 99 s0 M))) = []
        \<and> requestIdsExpectedInBlock (fst (snd (handleMessageFromQueue env 99 s0 M)))
            = [(100, request_id M)]
        \<and> handleTendermintNewBlockHeaderEvent env
             (fst (snd (handleMessageFromQueue env 99 s0 M))) 102 (Some 1)
            = (Inr (), fst (snd (handleMessageFromQueue env 99 s0 M)), [DbRemoveExpected 101 101])"
  proof (intro impI, elim conjE)
    assume a: "challenge M = None" "height M = Some 100" "requestIdsExpectedInBlock s0 = []"
    let ?s1 = "fst (snd (handleMessageFromQueue env 99 s0 M))"
    have le: "(99::int) \<le> 100" by simp
    have d: "dispatched (snd (snd (handleMessageFromQueue env 99 s0 M))) = []"
      using handle_saved(2) [OF a(1) a(2) le, of env s0] by (rule dispatched_db_events)
    have e: "requestIdsExpectedInBlock ?s1 = [(100, request_id M)]"
      using handle_saved(4) [OF a(1) a(2) le, of env s0] a(3) by simp
    have w: "getRequestIdsExpectedInBlock ?s1 (fromHeight 102 (Some 1)) (toHeight 102) = []"
      using e by (simp add: getRequestIdsExpectedInBlock_def in_range_def fromHeight_def toHeight_def)
    have "handleTendermintNewBlockHeaderEvent env ?s1 102 (Some 1)
            = (Inr (), ?s1, [DbRemoveExpected (fromHeight 102 (Some 1)) (toHeight 102)])"
      using w by (rule header_nothing_in_window)
    then have "handleTendermintNewBlockHeaderEvent env ?s1 102 (Some 1)
            = (Inr (), ?s1, [DbRemoveExpected 101 101])"
      by (simp add: fromHeight_def toHeight_def)
    with d e show "dispatched (snd (snd (handleMessageFromQueue env 99 s0 M))) = []
        \<and> requestIdsExpectedInBlock (fst (snd (handleMessageFromQueue env 99 s0 M)))
            = [(100, request_id M)]
        \<and> handleTendermintNewBlockHeaderEvent env
             (fst (snd (handleMessageFromQueue env 99 s0 M))) 102 (Some 1)
            = (Inr (), fst (snd (handleMessageFromQueue env 99 s0 M)), [DbRemoveExpected 101 101])"
      by simp
  qed
  show ?thesis
    by (intro conjI)
       (rule w1, rule w2, rule w3, rule w4, rule processed, rule dispatches, rule waiting,
        rule completes, rule purged, rule scenario)
qed

lemma handler_of_message_100: "handler_of message_100 = ConsentRequest message_100"
  by (simp add: handler_of_def message_100_def empty_message_def truthy_str_def)

text \<open>
  The window of the header for height 102 with one missing header, and the message tagged
  100 saved at ledger height 99: that header leaves it where it is, and the header for
  height 101 takes it, dispatches it, completes and purges its entry.
\<close>

theorem replay_window_witness:
  "fromHeight 102 (Some 1) = 101 \<and> toHeight 102 = 101
   \<and> challenge message_100 = None \<and> height message_100 = Some 100
   \<and> requestIdsExpectedInBlock store_empty = []
   \<and> requestIdsExpectedInBlock saved_100 = [(100, ''r1'')]
   \<and> handleTendermintNewBlockHeaderEvent env_accept saved_100 102 (Some 1)
       = (Inr (), saved_100, [DbRemoveExpected 101 101])
   \<and> processed_ids (snd (snd (handleTendermintNewBlockHeaderEvent env_accept saved_100 101 (Some 0))))
       = [''r1'']
   \<and> dispatched (snd (snd (handleTendermintNewBlockHeaderEvent env_accept saved_100 101 (Some 0))))
       = [ConsentRequest message_100]
   \<and> requestToProcessReceivedFromMQ
        (fst (snd (handleTendermintNewBlockHeaderEvent env_accept saved_100 101 (Some 0)))) ''r1''
       = None
   \<and> fst (handleTendermintNewBlockHeaderEvent env_accept saved_100 101 (Some 0)) = Inr ()
   \<and> requestIdsExpectedInBlock
        (fst (snd (handleTendermintNewBlockHeaderEvent env_accept saved_100 101 (Some 0)))) = []"
proof -
  have c: "challenge message_100 = None" and h: "height message_100 = Some 100"
    and r: "request_id message_100 = ''r1''"
    and e: "requestIdsExpectedInBlock store_empty = []"
    by (simp_all add: message_100_def empty_message_def store_empty_def)
  note a = replay_window [where h = 102 and c = 1 and env = env_accept and M = message_100
                            and ?s0.0 = store_empty]
  note b = replay_window [where h = 101 and m = "Some 0" and env = env_accept and s = saved_100
                            and rid = "''r1''"]
  have f: "fromHeight 101 (Some 0) = 100"
    by (simp add: fromHeight_def)
  have w: "map snd (filter (\<lambda>e. fromHeight 101 (Some 0) \<le> fst e \<and> fst e \<le> 101 - 1)
             (requestIdsExpectedInBlock saved_100)) = [''r1'']"
    by (simp add: f saved_100_facts)
  have ok: "list_all (callback_completes env_accept saved_100) [''r1'']"
    by (simp add: callback_completes_def saved_100_facts env_accept_def)
  from a have 1: "fromHeight 102 (Some 1) = 101 \<and> toHeight 102 = 101"
    by simp
  from a c h e have 2: "handleTendermintNewBlockHeaderEvent env_accept saved_100 102 (Some 1)
       = (Inr (), saved_100, [DbRemoveExpected 101 101])"
    unfolding saved_100_def by blast
  from b have 3: "processed_ids
       (snd (snd (handleTendermintNewBlockHeaderEvent env_accept saved_100 101 (Some 0)))) = [''r1'']"
    unfolding w by blast
  from b have "dispatched (snd (snd (handleTendermintNewBlockHeaderEvent env_accept saved_100 101 (Some 0))))
       = map handler_of (List.map_filter (requestToProcessReceivedFromMQ saved_100) [''r1''])"
    unfolding w by blast
  then have 4: "dispatched (snd (snd (handleTendermintNewBlockHeaderEvent env_accept saved_100 101 (Some 0))))
       = [ConsentRequest message_100]"
    by (simp add: List.map_filter_simps saved_100_facts handler_of_message_100)
  from b have "requestToProcessReceivedFromMQ
        (fst (snd (handleTendermintNewBlockHeaderEvent env_accept saved_100 101 (Some 0)))) ''r1''
       = (if ''r1'' \<in> set [''r1''] then None else requestToProcessReceivedFromMQ saved_100 ''r1'')"
    unfolding w by blast
  then have 5: "requestToProcessReceivedFromMQ
        (fst (snd (handleTendermintNewBlockHeaderEvent env_accept saved_100 101 (Some 0)))) ''r1''
       = None"
    by simp
  from b have "(fst (handleTendermintNewBlockHeaderEvent env_accept saved_100 101 (Some 0)) = Inr ())
       = list_all (callback_completes env_accept saved_100) [''r1'']"
    unfolding w by blast
  with ok have 6: "fst (handleTendermintNewBlockHeaderEvent env_accept saved_100 101 (Some 0)) = Inr ()"
    by simp
  from b have "requestIdsExpectedInBlock
        (fst (snd (handleTendermintNewBlockHeaderEvent env_accept saved_100 101 (Some 0))))
       = (if list_all (callback_completes env_accept saved_100) [''r1'']
          then filter (\<lambda>e. \<not> (fromHeight 101 (Some 0) \<le> fst e \<and> fst e \<le> 101 - 1))
                 (requestIdsExpectedInBlock saved_100)
          else requestIdsExpectedInBlock saved_100)"
    unfolding w by blast
  with ok have 7: "requestIdsExpectedInBlock
        (fst (snd (handleTendermintNewBlockHeaderEvent env_accept saved_100 101 (Some 0)))) = []"
    by (simp add: f saved_100_facts)
  from 1 c h e saved_100_facts(2) 2 3 4 5 6 7 show ?thesis
    by (intro conjI) simp_all
qed

text \<open>
  Claim C2 as stated fails: the window is not always purged. On a node whose awaited
  protocol handlers reject, the header for height 101 takes the message tagged 100 out of
  the waiting messages and dispatches it, the header handler fails, and the entry of the
  window stays in the list.
\<close>

theorem replay_not_purged:
  "requestIdsExpectedInBlock saved_100 = [(100, ''r1'')]
   \<and> fromHeight 101 (Some 0) = 100 \<and> toHeight 101 = 100
   \<and> fst (handleTendermintNewBlockHeaderEvent env_rejecting saved_100 101 (Some 0))
       = Inl HandlerRejected
   \<and> processed_ids (snd (snd (handleTendermintNewBlockHeaderEvent env_rejecting saved_100 101 (Some 0))))
       = [''r1'']
   \<and> dispatched (snd (snd (handleTendermintNewBlockHeaderEvent env_rejecting saved_100 101 (Some 0))))
       = [ConsentRequest message_100]
   \<and> requestToProcessReceivedFromMQ
        (fst (snd (handleTendermintNewBlockHeaderEvent env_rejecting saved_100 101 (Some 0)))) ''r1''
       = None
   \<and> requestIdsExpectedInBlock
        (fst (snd (handleTendermintNewBlockHeaderEvent env_rejecting saved_100 101 (Some 0))))
       = [(100, ''r1'')]"
proof -
  have w: "getRequestIdsExpectedInBlock saved_100 (fromHeight 101 (Some 0)) (toHeight 101) = [''r1'']"
    by (simp add: getRequestIdsExpectedInBlock_def in_range_def fromHeight_def toHeight_def
          saved_100_facts)
  have rej: "fst (processRequestIds env_rejecting saved_100 [''r1'']) = Some HandlerRejected"
    by (simp add: processRequestIds_def Let_def callback_def dispatch_def rejection_def
          saved_100_facts handler_of_message_100 env_rejecting_def)
  have 1: "fst (handleTendermintNewBlockHeaderEvent env_rejecting saved_100 101 (Some 0))
       = Inl HandlerRejected"
    using rej by (auto simp: handleTendermintNewBlockHeaderEvent_def Let_def w split: prod.splits)
  have 2: "processed_ids
       (snd (snd (handleTendermintNewBlockHeaderEvent env_rejecting saved_100 101 (Some 0)))) = [''r1'']"
    by (simp add: header_processed w)
  have 3: "dispatched (snd (snd (handleTendermintNewBlockHeaderEvent env_rejecting saved_100 101 (Some 0))))
       = [ConsentRequest message_100]"
    by (simp add: header_dispatched w List.map_filter_simps saved_100_facts handler_of_message_100)
  have 4: "requestToProcessReceivedFromMQ
        (fst (snd (handleTendermintNewBlockHeaderEvent env_rejecting saved_100 101 (Some 0)))) ''r1''
       = None"
    by (simp add: header_to_process w)
  have 5: "requestIdsExpectedInBlock
        (fst (snd (handleTendermintNewBlockHeaderEvent env_rejecting saved_100 101 (Some 0))))
       = [(100, ''r1'')]"
    using 1 by (simp add: header_expected saved_100_facts)
  from saved_100_facts(2) 1 2 3 4 5 show ?thesis
    by (simp add: fromHeight_def toHeight_def)
qed

section \<open>Onboarding and the assurance level\<close>

lemma createNewIdentity_recorded:
  assumes "onboardDataByReferenceId s (ci_reference_id data) = Some od"
  shows "snd (createNewIdentity env s data) = (s, [])"
    and "fst (createNewIdentity env s data) = Inr res \<Longrightarrow>
         cr_request_id res = od_request_id od \<and> cr_accessor_id res = od_accessor_id od"
  using assms
  by (auto simp: createNewIdentity_def Let_def split: option.splits if_splits)

lemma createNewIdentity_recorded_valid:
  assumes "onboardDataByReferenceId s (ci_reference_id data) = Some od"
    and "find_namespace (ci_namespace data) (getNamespaceList env) \<noteq> None"
    and "ci_addAccessor data \<or> \<not> await (checkAssociated env (ci_namespace data) (ci_identifier data))"
    and "getNodeInfo env (ie_nodeId env) = Some info"
    and "\<not> js_gt (ci_ial data) (max_ial info)"
  shows "createNewIdentity env s data
           = (Inr \<lparr>cr_request_id = od_request_id od,
                   cr_exist = checkExistingIdentity env
                     (ie_hash env (ci_namespace data @ '':'' @ ci_identifier data)),
                   cr_accessor_id = od_accessor_id od\<rparr>, s, [])"
  using assms
  by (auto simp: createNewIdentity_def Let_def)

lemma createNewIdentity_first_failure:
  shows "find_namespace (ci_namespace data) (getNamespaceList env) = None \<Longrightarrow>
         createNewIdentity env s data = (Inl INVALID_NAMESPACE, s, [])"
    and "find_namespace (ci_namespace data) (getNamespaceList env) \<noteq> None \<Longrightarrow>
         \<not> ci_addAccessor data \<Longrightarrow>
         await (checkAssociated env (ci_namespace data) (ci_identifier data)) \<Longrightarrow>
         createNewIdentity env s data = (Inl IDENTITY_ALREADY_CREATED, s, [])"
    and "find_namespace (ci_namespace data) (getNamespaceList env) \<noteq> None \<Longrightarrow>
         ci_addAccessor data
           \<or> \<not> await (checkAssociated env (ci_namespace data) (ci_identifier data)) \<Longrightarrow>
         getNodeInfo env (ie_nodeId env) = None \<Longrightarrow>
         createNewIdentity env s data = (Inl TypeError, s, [])"
    and "find_namespace (ci_namespace data) (getNamespaceList env) \<noteq> None \<Longrightarrow>
         ci_addAccessor data
           \<or> \<not> await (checkAssociated env (ci_namespace data) (ci_identifier data)) \<Longrightarrow>
         getNodeInfo env (ie_nodeId env) = Some info \<Longrightarrow>
         js_gt (ci_ial data) (max_ial info) \<Longrightarrow>
         createNewIdentity env s data = (Inl MAXIMUM_IAL_EXCEED, s, [])"
  by (auto simp: createNewIdentity_def Let_def)

text \<open>
  Claim C4, amended. When the reference id has recorded onboard data, \<open>createNewIdentity\<close>
  changes nothing in the store and does nothing visible (no signing call, no create-request
  transaction), and whatever it returns successfully carries the recorded request id and
  accessor id. The lookup of the recorded data comes after three checks, and the call
  fails with the error of the first check that fails: \<open>INVALID_NAMESPACE\<close> when the
  namespace is not registered; else \<open>IDENTITY_ALREADY_CREATED\<close> when the identity is
  already associated with this node and the call does not add an accessor; else
  \<open>MAXIMUM_IAL_EXCEED\<close> when \<open>ial\<close> is above the \<open>max_ial\<close> of the node (a \<open>TypeError\<close> when
  the ledger has no information on the node). A call that passes the three checks returns
  the recorded request id and accessor id, with the \<open>exist\<close> flag queried anew.
\<close>

theorem recorded_onboard_data_returned:
  assumes "onboardDataByReferenceId s (ci_reference_id data) = Some od"
  shows "snd (createNewIdentity env s data) = (s, [])
    \<and> (fst (createNewIdentity env s data) = Inr res \<longrightarrow>
         cr_request_id res = od_request_id od \<and> cr_accessor_id res = od_accessor_id od)
    \<and> (find_namespace (ci_namespace data) (getNamespaceList env) = None \<longrightarrow>
         fst (createNewIdentity env s data) = Inl INVALID_NAMESPACE)
    \<and> (find_namespace (ci_namespace data) (getNamespaceList env) \<noteq> None
         \<and> \<not> ci_addAccessor data
         \<and> await (checkAssociated env (ci_namespace data) (ci_identifier data)) \<longrightarrow>
         fst (createNewIdentity env s data) = Inl IDENTITY_ALREADY_CREATED)
    \<and> (find_namespace (ci_namespace data) (getNamespaceList env) \<noteq> None
         \<and> (ci_addAccessor data
              \<or> \<not> await (checkAssociated env (ci_namespace data) (ci_identifier data)))
         \<and> getNodeInfo env (ie_nodeId env) = None \<longrightarrow>
         fst (createNewIdentity env s data) = Inl TypeError)
    \<and> (find_namespace (ci_namespace data) (getNamespaceList env) \<noteq> None
         \<and> (ci_addAccessor data
              \<or> \<not> await (checkAssociated env (ci_namespace data) (ci_identifier data)))
         \<and> getNodeInfo env (ie_nodeId env) = Some info
         \<and> js_gt (ci_ial data) (max_ial info) \<longrightarrow>
         fst (createNewIdentity env s data) = Inl MAXIMUM_IAL_EXCEED)
    \<and> (find_namespace (ci_namespace data) (getNamespaceList env) \<noteq> None
         \<and> (ci_addAccessor data
              \<or> \<not> await (checkAssociated env (ci_namespace data) (ci_identifier data)))
         \<and> getNodeInfo env (ie_nodeId env) = Some info
         \<and> \<not> js_gt (ci_ial data) (max_ial info) \<longrightarrow>
         createNewIdentity env s data
           = (Inr \<lparr>cr_request_id = od_request_id od,
                   cr_exist = checkExistingIdentity env
                     (ie_hash env (ci_namespace data @ '':'' @ ci_identifier data)),
                   cr_accessor_id = od_accessor_id od\<rparr>, s, []))"
proof (intro conjI)
  show "snd (createNewIdentity env s data) = (s, [])"
    by (rule createNewIdentity_recorded(1) [OF assms])
  show "fst (createNewIdentity env s data) = Inr res \<longrightarrow>
         cr_request_id res = od_request_id od \<and> cr_accessor_id res = od_accessor_id od"
    using createNewIdentity_recorded(2) [OF assms, of env res] by blast
  show "find_namespace (ci_namespace data) (getNamespaceList env) = None \<longrightarrow>
         fst (createNewIdentity env s data) = Inl INVALID_NAMESPACE"
    by (simp add: createNewIdentity_first_failure(1))
  show "find_namespace (ci_namespace data) (getNamespaceList env) \<noteq> None
         \<and> \<not> ci_addAccessor data
         \<and> await (checkAssociated env (ci_namespace data) (ci_identifier data)) \<longrightarrow>
         fst (createNewIdentity env s data) = Inl IDENTITY_ALREADY_CREATED"
    using createNewIdentity_first_failure(2) [of data env s] by simp
  show "find_namespace (ci_namespace data) (getNamespaceList env) \<noteq> None
         \<and> (ci_addAccessor data
              \<or> \<not> await (checkAssociated env (ci_namespace data) (ci_identifier data)))
         \<and> getNodeInfo env (ie_nodeId env) = None \<longrightarrow>
         fst (createNewIdentity env s data) = Inl TypeError"
    using createNewIdentity_first_failure(3) [of data env s] by auto
  show "find_namespace (ci_namespace data) (getNamespaceList env) \<noteq> None
         \<and> (ci_addAccessor data
              \<or> \<not> await (checkAssociated env (ci_namespace data) (ci_identifier data)))
         \<and> getNodeInfo env (ie_nodeId env) = Some info
         \<and> js_gt (ci_ial data) (max_ial info) \<longrightarrow>
         fst (createNewIdentity env s data) = Inl MAXIMUM_IAL_EXCEED"
    using createNewIdentity_first_failure(4) [of data env info s] by auto
  show "find_namespace (ci_namespace data) (getNamespaceList env) \<noteq> None
         \<and> (ci_addAccessor data
              \<or> \<not> await (checkAssociated env (ci_namespace data) (ci_identifier data)))
         \<and> getNodeInfo env (ie_nodeId env) = Some info
         \<and> \<not> js_gt (ci_ial data) (max_ial info) \<longrightarrow>
         createNewIdentity env s data
           = (Inr \<lparr>cr_request_id = od_request_id od,
                   cr_exist = checkExistingIdentity env
                     (ie_hash env (ci_namespace data @ '':'' @ ci_identifier data)),
                   cr_accessor_id = od_accessor_id od\<rparr>, s, [])"
    using createNewIdentity_recorded_valid [OF assms, of env info] by blast
qed

text \<open>
  The retry of the call for \<open>ref1\<close>: on the node that is not associated it returns the
  recorded pair; with an unregistered namespace, on the associated node, on a node without
  node information and with an \<open>ial\<close> of 4 it fails with the error of that check.
\<close>

theorem recorded_onboard_data_returned_witness:
  "onboardDataByReferenceId istore_r1 (ci_reference_id identity_r1)
     = Some \<lparr>od_request_id = ''req1'', od_accessor_id = ''acc1''\<rparr>
   \<and> createNewIdentity ienv istore_r1 identity_r1
       = (Inr \<lparr>cr_request_id = ''req1'', cr_exist = False, cr_accessor_id = ''acc1''\<rparr>,
          istore_r1, [])
   \<and> find_namespace ''passport'' (getNamespaceList ienv) = None
   \<and> fst (createNewIdentity ienv istore_r1 (identity_r1\<lparr>ci_namespace := ''passport''\<rparr>))
       = Inl INVALID_NAMESPACE
   \<and> await (checkAssociated ienv_associated ''citizen_id'' ''123'')
   \<and> fst (createNewIdentity ienv_associated istore_r1 identity_r1) = Inl IDENTITY_ALREADY_CREATED
   \<and> fst (createNewIdentity (ienv\<lparr>getNodeInfo := (\<lambda>n. None)\<rparr>) istore_r1 identity_r1)
       = Inl TypeError
   \<and> js_gt (Num 4) (Num 3)
   \<and> fst (createNewIdentity ienv istore_r1 (identity_r1\<lparr>ci_ial := Num 4\<rparr>))
       = Inl MAXIMUM_IAL_EXCEED"
proof -
  let ?od = "\<lparr>od_request_id = ''req1'', od_accessor_id = ''acc1''\<rparr>"
  let ?info = "\<lparr>max_ial = Num 3\<rparr>"
  have o: "onboardDataByReferenceId istore_r1 (ci_reference_id identity_r1) = Some ?od"
    by (simp add: istore_r1_def identity_r1_def)
  have v: "find_namespace (ci_namespace identity_r1) (getNamespaceList ienv) \<noteq> None"
     "ci_addAccessor identity_r1
        \<or> \<not> await (checkAssociated ienv (ci_namespace identity_r1) (ci_identifier identity_r1))"
     "getNodeInfo ienv (ie_nodeId ienv) = Some ?info"
     "\<not> js_gt (ci_ial identity_r1) (max_ial ?info)"
    by (simp_all add: ienv_def identity_r1_def checkAssociated_def)
  have e: "checkExistingIdentity ienv
             (ie_hash ienv (ci_namespace identity_r1 @ '':'' @ ci_identifier identity_r1)) = False"
    by (simp add: ienv_def)
  from recorded_onboard_data_returned [OF o, of ienv _ ?info] v
  have "createNewIdentity ienv istore_r1 identity_r1
           = (Inr \<lparr>cr_request_id = od_request_id ?od,
                   cr_exist = checkExistingIdentity ienv
                     (ie_hash ienv (ci_namespace identity_r1 @ '':'' @ ci_identifier identity_r1)),
                   cr_accessor_id = od_accessor_id ?od\<rparr>,
              istore_r1, [])"
    by blast
  with e have 1: "createNewIdentity ienv istore_r1 identity_r1
       = (Inr \<lparr>cr_request_id = ''req1'', cr_exist = False, cr_accessor_id = ''acc1''\<rparr>,
          istore_r1, [])"
    by simp
  have o2: "onboardDataByReferenceId istore_r1
              (ci_reference_id (identity_r1\<lparr>ci_namespace := ''passport''\<rparr>)) = Some ?od"
    by (simp add: istore_r1_def identity_r1_def)
  have n2: "find_namespace ''passport'' (getNamespaceList ienv) = None"
    by (simp add: ienv_def)
  then have "find_namespace (ci_namespace (identity_r1\<lparr>ci_namespace := ''passport''\<rparr>))
               (getNamespaceList ienv) = None"
    by simp
  with recorded_onboard_data_returned [OF o2, of ienv _ ?info]
  have 2: "fst (createNewIdentity ienv istore_r1 (identity_r1\<lparr>ci_namespace := ''passport''\<rparr>))
       = Inl INVALID_NAMESPACE"
    by blast
  have a3: "await (checkAssociated ienv_associated ''citizen_id'' ''123'')"
    by (simp add: checkAssociated_def ienv_associated_def ienv_def)
  have "find_namespace (ci_namespace identity_r1) (getNamespaceList ienv_associated) \<noteq> None
      \<and> \<not> ci_addAccessor identity_r1
      \<and> await (checkAssociated ienv_associated (ci_namespace identity_r1) (ci_identifier identity_r1))"
    using a3 by (simp add: ienv_associated_def ienv_def identity_r1_def)
  with recorded_onboard_data_returned [OF o, of ienv_associated _ ?info]
  have 3: "fst (createNewIdentity ienv_associated istore_r1 identity_r1) = Inl IDENTITY_ALREADY_CREATED"
    by blast
  have "find_namespace (ci_namespace identity_r1)
            (getNamespaceList (ienv\<lparr>getNodeInfo := (\<lambda>n. None)\<rparr>)) \<noteq> None
      \<and> (ci_addAccessor identity_r1
           \<or> \<not> await (checkAssociated (ienv\<lparr>getNodeInfo := (\<lambda>n. None)\<rparr>)
                 (ci_namespace identity_r1) (ci_identifier identity_r1)))
      \<and> getNodeInfo (ienv\<lparr>getNodeInfo := (\<lambda>n. None)\<rparr>)
            (ie_nodeId (ienv\<lparr>getNodeInfo := (\<lambda>n. None)\<rparr>)) = None"
    by (simp add: ienv_def identity_r1_def checkAssociated_def)
  with recorded_onboard_data_returned [OF o, of "ienv\<lparr>getNodeInfo := (\<lambda>n. None)\<rparr>" _ ?info]
  have 4: "fst (createNewIdentity (ienv\<lparr>getNodeInfo := (\<lambda>n. None)\<rparr>) istore_r1 identity_r1)
       = Inl TypeError"
    by blast
  have o5: "onboardDataByReferenceId istore_r1
              (ci_reference_id (identity_r1\<lparr>ci_ial := Num 4\<rparr>)) = Some ?od"
    by (simp add: istore_r1_def identity_r1_def)
  have g5: "js_gt (Num 4) (Num 3)"
    by simp
  have "find_namespace (ci_namespace (identity_r1\<lparr>ci_ial := Num 4\<rparr>)) (getNamespaceList ienv) \<noteq> None
      \<and> (ci_addAccessor (identity_r1\<lparr>ci_ial := Num 4\<rparr>)
           \<or> \<not> await (checkAssociated ienv (ci_namespace (identity_r1\<lparr>ci_ial := Num 4\<rparr>))
                 (ci_identifier (identity_r1\<lparr>ci_ial := Num 4\<rparr>))))
      \<and> getNodeInfo ienv (ie_nodeId ienv) = Some ?info
      \<and> js_gt (ci_ial (identity_r1\<lparr>ci_ial := Num 4\<rparr>)) (max_ial ?info)"
    by (simp add: ienv_def identity_r1_def checkAssociated_def)
  with recorded_onboard_data_returned [OF o5, of ienv _ ?info]
  have 5: "fst (createNewIdentity ienv istore_r1 (identity_r1\<lparr>ci_ial := Num 4\<rparr>))
       = Inl MAXIMUM_IAL_EXCEED"
    by blast
  from o 1 n2 2 a3 3 4 g5 5 show ?thesis
    by (intro conjI)
qed

text \<open>
  Claim C4 as stated fails: with onboard data recorded for \<open>ref1\<close>, the same call is
  rejected once the identity has become associated with this node, and a call with that
  reference id is rejected for an unregistered namespace or an \<open>ial\<close> above \<open>max_ial\<close>.
\<close>

theorem retry_rejected_counterexample:
  "onboardDataByReferenceId istore_r1 (ci_reference_id identity_r1)
     = Some \<lparr>od_request_id = ''req1'', od_accessor_id = ''acc1''\<rparr>
   \<and> createNewIdentity ienv_associated istore_r1 identity_r1
       = (Inl IDENTITY_ALREADY_CREATED, istore_r1, [])
   \<and> createNewIdentity ienv istore_r1 (identity_r1\<lparr>ci_namespace := ''passport''\<rparr>)
       = (Inl INVALID_NAMESPACE, istore_r1, [])
   \<and> createNewIdentity ienv istore_r1 (identity_r1\<lparr>ci_ial := Num 5\<rparr>)
       = (Inl MAXIMUM_IAL_EXCEED, istore_r1, [])"
  by (simp add: createNewIdentity_def checkAssociated_def ienv_associated_def ienv_def
        istore_r1_def identity_r1_def)

text \<open>
  Claim C5 does not hold of the code. On the node that is not associated with the
  identity, the association check of \<open>updateIal\<close> tests a promise, which is truthy, so the
  call goes on and submits the update transaction; \<open>addAccessorMethodForAssociatedIdp\<close>,
  which awaits the same check, fails with \<open>IDENTITY_NOT_FOUND\<close> on the same node.
\<close>

theorem updateIal_skips_association_check:
  "await (checkAssociated ienv ''citizen_id'' ''123'') = False
   \<and> truthy_promise (checkAssociated ienv ''citizen_id'' ''123'') = True
   \<and> updateIal ienv ''citizen_id'' ''123'' (Num 2)
       = (Inr (), [LedgerUpdateIal ''#citizen_id:123'' (Num 2)])
   \<and> fst (addAccessorMethodForAssociatedIdp ienv istore_empty identity_r1) = Inl IDENTITY_NOT_FOUND"
  by (simp add: updateIal_def addAccessorMethodForAssociatedIdp_def checkAssociated_def
        ienv_def identity_r1_def)

lemma updateIal_never_not_found: "fst (updateIal env ns ident ial) \<noteq> Inl IDENTITY_NOT_FOUND"
  by (simp add: updateIal_def checkAssociated_def Let_def split: option.splits)

lemma accessorSign_errors:
  "fst (accessorSign env s sid h a r) \<noteq> Inl MAXIMUM_IAL_EXCEED"
  by (simp add: accessorSign_def Let_def split: option.splits)

lemma startOnboard_not_exceeded:
  "fst (startOnboard env s data associated exist sid h) \<noteq> Inl MAXIMUM_IAL_EXCEED"
  using accessorSign_errors [of env s sid h _ "ci_reference_id data"]
  by (auto simp: startOnboard_def Let_def case_prod_beta split: option.splits sum.splits prod.splits)

lemma startOnboard_succeeds:
  assumes "accessor_sign_url s = Some url"
    and "\<And>r. accessor_sign_fetch env url r \<noteq> None"
    and "\<And>q. common_createRequest env q \<noteq> None"
  shows "\<exists>res. fst (startOnboard env s data associated exist sid h) = Inr res"
proof -
  define aid where "aid = (case ci_accessor_id data of
                   None \<Rightarrow> randomBase64Bytes env 0
                 | Some a \<Rightarrow> if a = [] then randomBase64Bytes env 0 else a)"
  define sr where "sr = \<lparr>sr_sid_hash = h, sr_sid = sid, sr_accessor_id = aid,
                  sr_reference_id = ci_reference_id data\<rparr>"
  define req where "req = \<lparr>or_namespace = ci_namespace data,
                            or_identifier = ci_identifier data,
                            or_reference_id = ci_reference_id data,
                            or_request_message =
                              (if truthy_num (ci_ial data)
                               then getRequestMessageForCreatingIdentity env (ci_namespace data)
                                      (ci_identifier data) (ci_reference_id data)
                               else getRequestMessageForAddingAccessor env (ci_namespace data)
                                      (ci_identifier data) (ci_reference_id data)),
                            or_min_idp = (if exist then 1 else 0)\<rparr>"
  from assms(2) [of sr] obtain sig where sig: "accessor_sign_fetch env url sr = Some sig" by auto
  from assms(3) [of req] obtain rid where rid: "common_createRequest env req = Some rid" by auto
  have a: "accessorSign env s sid h aid (ci_reference_id data)
             = (Inr sig, [AccessorSignCallback url sr])"
    using assms(1) sig by (simp add: accessorSign_def sr_def)
  have "fst (startOnboard env s data associated exist sid h)
          = Inr \<lparr>cr_request_id = rid, cr_exist = exist, cr_accessor_id = aid\<rparr>"
    unfolding startOnboard_def Let_def aid_def [symmetric] req_def [symmetric]
    using assms(1) a rid by (simp add: case_prod_beta)
  then show ?thesis by blast
qed

text \<open>
  Claim C7. Let the node's registered \<open>max_ial\<close> be the number \<open>mx\<close>. \<open>updateIal\<close> with
  \<open>ial = mx\<close> passes the check and submits the update transaction; with any \<open>ial\<close> above
  \<open>mx\<close> it fails with \<open>MAXIMUM_IAL_EXCEED\<close> and submits nothing. In \<open>createNewIdentity\<close>
  the check is the third one: for a call that passes the namespace and association
  checks, an \<open>ial\<close> above \<open>mx\<close> fails with \<open>MAXIMUM_IAL_EXCEED\<close>, with the store unchanged
  and an empty trace, and \<open>ial = mx\<close> does not; with \<open>ial = mx\<close> the call succeeds when the
  signing callback and the request creation succeed.
\<close>

theorem ial_boundary:
  assumes "getNodeInfo env (ie_nodeId env) = Some info" and "max_ial info = Num mx"
  shows "updateIal env ns ident (Num mx)
           = (if ledger_updateIal env (ie_hash env (ns @ '':'' @ ident)) (Num mx)
              then Inr () else Inl LedgerRejected,
              [LedgerUpdateIal (ie_hash env (ns @ '':'' @ ident)) (Num mx)])
    \<and> (mx < r \<longrightarrow> updateIal env ns ident (Num r) = (Inl MAXIMUM_IAL_EXCEED, []))
    \<and> (find_namespace (ci_namespace data) (getNamespaceList env) \<noteq> None
         \<and> (ci_addAccessor data
              \<or> \<not> await (checkAssociated env (ci_namespace data) (ci_identifier data))) \<longrightarrow>
         (ci_ial data = Num r \<and> mx < r \<longrightarrow>
            createNewIdentity env s data = (Inl MAXIMUM_IAL_EXCEED, s, []))
       \<and> (ci_ial data = Num mx \<longrightarrow>
            fst (createNewIdentity env s data) \<noteq> Inl MAXIMUM_IAL_EXCEED
          \<and> (accessor_sign_url s = Some url
               \<and> (\<forall>q. accessor_sign_fetch env url q \<noteq> None)
               \<and> (\<forall>q. common_createRequest env q \<noteq> None) \<longrightarrow>
               (\<exists>res. fst (createNewIdentity env s data) = Inr res))))"
proof -
  have u1: "updateIal env ns ident (Num mx)
           = (if ledger_updateIal env (ie_hash env (ns @ '':'' @ ident)) (Num mx)
              then Inr () else Inl LedgerRejected,
              [LedgerUpdateIal (ie_hash env (ns @ '':'' @ ident)) (Num mx)])"
    using assms by (simp add: updateIal_def checkAssociated_def Let_def)
  have u2: "mx < r \<longrightarrow> updateIal env ns ident (Num r) = (Inl MAXIMUM_IAL_EXCEED, [])"
    using assms by (simp add: updateIal_def checkAssociated_def)
  have c: "(ci_ial data = Num r \<and> mx < r \<longrightarrow>
            createNewIdentity env s data = (Inl MAXIMUM_IAL_EXCEED, s, []))
       \<and> (ci_ial data = Num mx \<longrightarrow>
            fst (createNewIdentity env s data) \<noteq> Inl MAXIMUM_IAL_EXCEED
          \<and> (accessor_sign_url s = Some url
               \<and> (\<forall>q. accessor_sign_fetch env url q \<noteq> None)
               \<and> (\<forall>q. common_createRequest env q \<noteq> None) \<longrightarrow>
               (\<exists>res. fst (createNewIdentity env s data) = Inr res)))"
    if v: "find_namespace (ci_namespace data) (getNamespaceList env) \<noteq> None"
       "ci_addAccessor data
              \<or> \<not> await (checkAssociated env (ci_namespace data) (ci_identifier data))"
  proof -
    have above: "createNewIdentity env s data = (Inl MAXIMUM_IAL_EXCEED, s, [])"
      if "ci_ial data = Num r" "mx < r"
      using that v assms by (auto simp: createNewIdentity_def Let_def)
    have equal: "fst (createNewIdentity env s data) \<noteq> Inl MAXIMUM_IAL_EXCEED"
      if "ci_ial data = Num mx"
      using that v assms startOnboard_not_exceeded
      by (auto simp: createNewIdentity_def Let_def split: option.splits)
    have success: "\<exists>res. fst (createNewIdentity env s data) = Inr res"
      if "ci_ial data = Num mx" "accessor_sign_url s = Some url"
         "\<forall>q. accessor_sign_fetch env url q \<noteq> None" "\<forall>q. common_createRequest env q \<noteq> None"
    proof (cases "onboardDataByReferenceId s (ci_reference_id data)")
      case None
      from that(3) that(4) have f: "\<And>q. accessor_sign_fetch env url q \<noteq> None"
        and g: "\<And>q. common_createRequest env q \<noteq> None" by simp_all
      from startOnboard_succeeds [OF that(2) f g] None that(1) v assms show ?thesis
        by (auto simp: createNewIdentity_def Let_def)
    next
      case (Some od)
      with that(1) v assms show ?thesis
        by (auto simp: createNewIdentity_def Let_def)
    qed
    from above equal success show ?thesis by blast
  qed
  from u1 u2 c show ?thesis by blast
qed

text \<open>
  \<open>max_ial\<close> is 3: \<open>ial\<close> 3 passes and \<open>ial\<close> 5 fails, in both operations.
\<close>

theorem ial_boundary_witness:
  "getNodeInfo ienv (ie_nodeId ienv) = Some \<lparr>max_ial = Num 3\<rparr>
   \<and> updateIal ienv ''citizen_id'' ''123'' (Num 3)
       = (Inr (), [LedgerUpdateIal ''#citizen_id:123'' (Num 3)])
   \<and> updateIal ienv ''citizen_id'' ''123'' (Num 5) = (Inl MAXIMUM_IAL_EXCEED, [])
   \<and> fst (createNewIdentity ienv istore_empty identity_r1) \<noteq> Inl MAXIMUM_IAL_EXCEED
   \<and> createNewIdentity ienv istore_empty (identity_r1\<lparr>ci_ial := Num 5\<rparr>)
       = (Inl MAXIMUM_IAL_EXCEED, istore_empty, [])"
proof -
  have g: "getNodeInfo ienv (ie_nodeId ienv) = Some \<lparr>max_ial = Num 3\<rparr>"
    by (simp add: ienv_def)
  have m: "max_ial \<lparr>max_ial = Num 3\<rparr> = Num 3" by simp
  have v: "find_namespace (ci_namespace identity_r1) (getNamespaceList ienv) \<noteq> None"
    "ci_addAccessor identity_r1
       \<or> \<not> await (checkAssociated ienv (ci_namespace identity_r1) (ci_identifier identity_r1))"
    "ci_ial identity_r1 = Num 3"
    by (simp_all add: ienv_def identity_r1_def checkAssociated_def)
  have v5: "find_namespace (ci_namespace (identity_r1\<lparr>ci_ial := Num 5\<rparr>)) (getNamespaceList ienv) \<noteq> None"
    "ci_addAccessor (identity_r1\<lparr>ci_ial := Num 5\<rparr>)
       \<or> \<not> await (checkAssociated ienv (ci_namespace (identity_r1\<lparr>ci_ial := Num 5\<rparr>))
                (ci_identifier (identity_r1\<lparr>ci_ial := Num 5\<rparr>)))"
    "ci_ial (identity_r1\<lparr>ci_ial := Num 5\<rparr>) = Num 5"
    by (simp_all add: ienv_def identity_r1_def checkAssociated_def)
  have lt: "(3::rat) < 5" by simp
  have l: "ledger_updateIal ienv (ie_hash ienv (''citizen_id'' @ '':'' @ ''123'')) (Num 3)"
    "ie_hash ienv (''citizen_id'' @ '':'' @ ''123'') = ''#citizen_id:123''"
    by (simp_all add: ienv_def)
  note a = ial_boundary [OF g m, of "''citizen_id''" "''123''" 5 identity_r1 istore_empty "''http://sign''"]
  note b = ial_boundary [OF g m, of "''citizen_id''" "''123''" 5 "identity_r1\<lparr>ci_ial := Num 5\<rparr>"
             istore_empty "''http://sign''"]
  from a l have 1: "updateIal ienv ''citizen_id'' ''123'' (Num 3)
       = (Inr (), [LedgerUpdateIal ''#citizen_id:123'' (Num 3)])"
    by simp
  from a lt have 2: "updateIal ienv ''citizen_id'' ''123'' (Num 5) = (Inl MAXIMUM_IAL_EXCEED, [])"
    by blast
  from a v have 3: "fst (createNewIdentity ienv istore_empty identity_r1) \<noteq> Inl MAXIMUM_IAL_EXCEED"
    by blast
  from b v5 lt have 4: "createNewIdentity ienv istore_empty (identity_r1\<lparr>ci_ial := Num 5\<rparr>)
       = (Inl MAXIMUM_IAL_EXCEED, istore_empty, [])"
    by blast
  from g 1 2 3 4 show ?thesis by blast
qed

section \<open>A rejected create-request transaction\<close>

text \<open>
  Claim C8. When the \<open>CreateRequest\<close> transaction that \<open>createRequest\<close> submitted is
  rejected, the function returns \<open>false\<close>, the transaction is the last event of the trace,
  the reference-id mapping and the callback-url mapping are neither written nor changed,
  and nothing is sent to the IdPs.
\<close>

theorem rejected_request_aborts:
  assumes "Transact tx n \<in> set (snd (snd (createRequest env s data)))"
    and "\<not> fst (transact env tx n)"
  shows "fst (createRequest env s data) = ReturnedFalse
    \<and> requestReferenceMapping (fst (snd (createRequest env s data))) = requestReferenceMapping s
    \<and> callbackUrls (fst (snd (createRequest env s data))) = callbackUrls s
    \<and> filter is_rp_send (snd (snd (createRequest env s data))) = []
    \<and> filter (is_rp_put RequestReferenceMapping) (snd (snd (createRequest env s data))) = []
    \<and> filter (is_rp_put CallbackUrls) (snd (snd (createRequest env s data))) = []
    \<and> last (snd (snd (createRequest env s data))) = Transact tx n"
  using assms
  by (auto simp: createRequest_def Let_def case_prod_beta
        split: option.splits list.splits if_splits)

lemma createRequest_rejected_trace:
  "snd (snd (createRequest rp_reject rp_store_empty rp_request))
     = [RpDbPut RequestsData ''req-n1'', Transact rp_request_tx ''n1'']"
  by (simp add: createRequest_def rp_reject_def rp_store_empty_def rp_request_def
        rp_request_tx_def to_blockchain_def or_one_def js_str_def Let_def)

text \<open>
  The request for \<open>ref1\<close> on the RP whose transaction is rejected.
\<close>

theorem rejected_request_aborts_witness:
  "Transact rp_request_tx ''n1'' \<in> set (snd (snd (createRequest rp_reject rp_store_empty rp_request)))
   \<and> \<not> fst (transact rp_reject rp_request_tx ''n1'')
   \<and> fst (createRequest rp_reject rp_store_empty rp_request) = ReturnedFalse
   \<and> requestReferenceMapping (fst (snd (createRequest rp_reject rp_store_empty rp_request)))
       = Map.empty
   \<and> callbackUrls (fst (snd (createRequest rp_reject rp_store_empty rp_request))) = Map.empty"
proof -
  have t: "Transact rp_request_tx ''n1''
      \<in> set (snd (snd (createRequest rp_reject rp_store_empty rp_request)))"
    by (simp add: createRequest_rejected_trace)
  have r: "\<not> fst (transact rp_reject rp_request_tx ''n1'')"
    by (simp add: rp_reject_def)
  have e: "requestReferenceMapping rp_store_empty = Map.empty"
    "callbackUrls rp_store_empty = Map.empty"
    by (simp_all add: rp_store_empty_def)
  from rejected_request_aborts [OF t r] e t r show ?thesis by simp
qed

end
